theory Spec2Isabelle
  imports Main "HOL-Library.Sublist"
begin

text \<open>
  A model of the three scripts of the repository: interactive\_refresh.py (the full
  tool), quick\_refresh.py (the simplified script) and refresh\_example.py (the demo
  runner). Each function is a program over an explicit state: the lines still to be
  read from the terminal, the events so far (lines printed, prompts, requests,
  pauses, files written) and the world outside. Modelled are the refresh and cookie
  lookup clients, the display and persistence functions, the prompts, the single and
  the batch refresh of the full tool, one round of the loop of the simplified
  script, and the freshener with the two demos that refresh. The menus of the
  \<open>main\<close> functions, the connectivity probe and the demos of the proxy and of the
  cache statistics are not modelled.
\<close>

section \<open>Python values\<close>

text \<open>
  A Python \<open>str\<close> is a sequence of Unicode code points, so \<open>len\<close>, slicing and
  \<open>startswith\<close> count code points; it is modelled as a list of naturals. ASCII
  fragments are written with \<open>lit\<close>; the Chinese text and the emoji of the scripts'
  messages are written as the code points of the source literal, with the escaped
  literal in the comment above each constant.
\<close>

type_synonym str = "nat list"

definition lit :: "string \<Rightarrow> str" where
  "lit s = map of_char s"

text \<open>Decimal rendering of integers, as \<open>str(n)\<close> and \<open>f"{n}"\<close> give it.\<close>

fun str_of_nat :: "nat \<Rightarrow> str" where
  "str_of_nat n = (if n < 10 then [48 + n] else str_of_nat (n div 10) @ [48 + n mod 10])"

declare str_of_nat.simps [simp del]

definition str_of_int :: "int \<Rightarrow> str" where
  "str_of_int i = (if i < 0 then 45 # str_of_nat (nat (- i)) else str_of_nat (nat i))"

text \<open>\<open>s.startswith((p1, p2, ...))\<close>: some element of the tuple is a prefix of \<open>s\<close>.\<close>

definition startswith :: "str \<Rightarrow> str list \<Rightarrow> bool" where
  "startswith s ps = list_ex (\<lambda>p. prefix p s) ps"

text \<open>
  \<open>s.strip()\<close> removes leading and trailing characters for which \<open>str.isspace\<close>
  holds: the Unicode white space of CPython 3.
\<close>

definition py_isspace :: "nat \<Rightarrow> bool" where
  "py_isspace c = ((9 \<le> c \<and> c \<le> 13) \<or> (28 \<le> c \<and> c \<le> 32) \<or> c = 133 \<or> c = 160
     \<or> c = 5760 \<or> (8192 \<le> c \<and> c \<le> 8202) \<or> c = 8232 \<or> c = 8233 \<or> c = 8239
     \<or> c = 8287 \<or> c = 12288)"

definition py_strip :: "str \<Rightarrow> str" where
  "py_strip s = rev (dropWhile py_isspace (rev (dropWhile py_isspace s)))"

text \<open>
  What \<open>resp.json()\<close> returns: \<open>None\<close>, a bool, an int, a str, a list or a dict.
  A dict is the list of its items in insertion order (keys distinct). JSON numbers
  with a fraction or an exponent (Python floats) are not represented: the service's
  contract gives every number as an integer.
\<close>

datatype json =
    JNull
  | JBool bool
  | JInt int
  | JStr str
  | JList "json list"
  | JObj "(str \<times> json) list"

type_synonym pydict = "(str \<times> json) list"

text \<open>Truth value of an object in a condition (\<open>if result\<close>, \<open>if user_agent\<close>).\<close>

fun truthy :: "json \<Rightarrow> bool" where
  "truthy JNull = False"
| "truthy (JBool b) = b"
| "truthy (JInt n) = (n \<noteq> 0)"
| "truthy (JStr s) = (s \<noteq> [])"
| "truthy (JList xs) = (xs \<noteq> [])"
| "truthy (JObj d) = (d \<noteq> [])"

fun type_name :: "json \<Rightarrow> str" where
  "type_name JNull = lit ''NoneType''"
| "type_name (JBool b) = lit ''bool''"
| "type_name (JInt n) = lit ''int''"
| "type_name (JStr s) = lit ''str''"
| "type_name (JList xs) = lit ''list''"
| "type_name (JObj d) = lit ''dict''"

text \<open>\<open>d.get(k)\<close> and \<open>d.get(k, default)\<close> on a dict.\<close>

definition dict_get :: "pydict \<Rightarrow> str \<Rightarrow> json" where
  "dict_get d k = (case map_of d k of None \<Rightarrow> JNull | Some v \<Rightarrow> v)"

definition dict_get_or :: "pydict \<Rightarrow> str \<Rightarrow> json \<Rightarrow> json" where
  "dict_get_or d k dflt = (case map_of d k of None \<Rightarrow> dflt | Some v \<Rightarrow> v)"

subsection \<open>Exceptions\<close>

text \<open>
  An exception is its class and the text \<open>str(e)\<close>. The classes are the ones the
  handlers of the scripts tell apart (\<open>asyncio.TimeoutError\<close>,
  \<open>aiohttp.ClientConnectorError\<close>) and the \<open>Exception\<close> subclasses the code itself
  can raise; \<open>OtherError\<close> is any further subclass of \<open>Exception\<close> (for instance
  aiohttp's \<open>ContentTypeError\<close> for a body that is not JSON). \<open>KeyboardInterrupt\<close>
  is not an \<open>Exception\<close> and is outside the model.
\<close>

datatype exn_class =
    TimeoutError
  | ClientConnectorError
  | AttributeError
  | TypeError
  | KeyError
  | ValueError
  | OverflowError
  | EOFError
  | OSError
  | OtherError

datatype exn = Exn (exn_class: exn_class) (exn_text: str)

definition quoted :: "str \<Rightarrow> str" where
  "quoted s = [39] @ s @ [39]"

definition no_attribute :: "json \<Rightarrow> str \<Rightarrow> exn" where
  "no_attribute v a =
     Exn AttributeError (quoted (type_name v) @ lit '' object has no attribute '' @ quoted a)"

text \<open>
  The two exceptions of the request that the handlers tell apart, with the text
  the library gives them. A timeout is an \<open>asyncio.TimeoutError\<close>: raised without a
  message when the time allowed for the whole request is over, and by aiohttp with a
  message when the connection or the reading of the socket times out. A connection
  failure is an \<open>aiohttp.ClientConnectorError\<close>, whose text names the host, the
  port, the TLS setting and the error of the operating system.
\<close>

datatype timeout_cause =
    TotalTimeout
  | ConnectTimeout str
  | ReadTimeout

definition timeout_error :: "timeout_cause \<Rightarrow> exn" where
  "timeout_error cause =
     Exn TimeoutError
       (case cause of
          TotalTimeout \<Rightarrow> []
        | ConnectTimeout target \<Rightarrow> lit ''Connection timeout to host '' @ target
        | ReadTimeout \<Rightarrow> lit ''Timeout on reading data from socket'')"

definition connector_error :: "str \<Rightarrow> str \<Rightarrow> str \<Rightarrow> str \<Rightarrow> exn" where
  "connector_error host port ssl os_error =
     Exn ClientConnectorError
       (lit ''Cannot connect to host '' @ host @ lit '':'' @ port @ lit '' ssl:'' @ ssl
        @ lit '' ['' @ os_error @ lit '']'')"

definition not_subscriptable :: "json \<Rightarrow> exn" where
  "not_subscriptable v =
     Exn TypeError (quoted (type_name v) @ lit '' object is not subscriptable'')"

text \<open>\<open>v.get(k, default)\<close> on any value: only a dict has the method.\<close>

definition obj_get_or :: "json \<Rightarrow> str \<Rightarrow> json \<Rightarrow> exn + json" where
  "obj_get_or v k dflt =
     (case v of JObj d \<Rightarrow> Inr (dict_get_or d k dflt) | _ \<Rightarrow> Inl (no_attribute v (lit ''get'')))"

section \<open>The world the scripts run in\<close>

text \<open>
  The terminal, the HTTP service, the clock and the file system are outside the
  repository. A run is a function of the lines typed at the prompts (\<open>stdin\<close>) and of
  an environment \<open>E\<close> that answers every call to the outside; what the script does is
  the list of its \<open>events\<close> in order.
\<close>

datatype request =
    Post str "(str \<times> str) list" "nat option"
  | Get str "(str \<times> str) list" "nat option"

datatype http_outcome =
    Raised exn
  | Response int "exn + json"

text \<open>
  \<open>Post u ps t\<close> is \<open>session.post(u, params=ps, timeout=ClientTimeout(total=t))\<close>.
  The outcome is an exception of the call, or the response's status with what
  \<open>await resp.json()\<close> gives on it (a value, or an exception when the body is not JSON).
\<close>

record datetime =
  dt_year :: nat
  dt_month :: nat
  dt_day :: nat
  dt_hour :: nat
  dt_minute :: nat
  dt_second :: nat
  dt_microsecond :: nat

datatype event =
    Print str
  | Prompt str
  | Http request
  | Sleep nat
  | FileDump str json

text \<open>
  \<open>Print s\<close> is \<open>print(s)\<close>; \<open>Prompt p\<close> is the prompt of an \<open>input(p)\<close>;
  \<open>Http rq\<close> is the request \<open>rq\<close> sent, whatever comes of it; \<open>Sleep n\<close> is
  \<open>await asyncio.sleep(n)\<close>; \<open>FileDump f v\<close> is a file \<open>f\<close> opened for writing and
  \<open>json.dump(v, f, ...)\<close> completed.
\<close>

record url_parts =
  scheme :: str
  netloc :: str

record 'w state =
  stdin :: "str list"
  events :: "event list"
  world :: 'w

text \<open>
  The library functions and the collaborators, as parameters:
  \<^item> \<open>urlparse\<close>: \<open>urllib.parse.urlparse\<close>, which returns the components or raises
    \<open>ValueError\<close>;
  \<^item> \<open>str_lower\<close>: \<open>str.lower\<close>;
  \<^item> \<open>py_repr\<close>: the text \<open>format\<close> gives for a list or a dict;
  \<^item> \<open>fmt_1f_div1000\<close>: \<open>f"{n/1000:.1f}"\<close> for an integer \<open>n\<close> whose quotient is a
    float (float division and rounding);
  \<^item> \<open>http\<close>: the aiohttp session against the service, which may change the world;
  \<^item> \<open>clock_now\<close>: \<open>datetime.now()\<close>;
  \<^item> \<open>file_dump\<close>: \<open>open(name, 'w')\<close> followed by \<open>json.dump\<close>, \<open>None\<close> when both
    succeed and the exception otherwise.
\<close>

record 'w env =
  urlparse :: "str \<Rightarrow> exn + url_parts"
  str_lower :: "str \<Rightarrow> str"
  py_repr :: "json \<Rightarrow> str"
  fmt_1f_div1000 :: "int \<Rightarrow> str"
  http :: "'w \<Rightarrow> request \<Rightarrow> http_outcome \<times> 'w"
  clock_now :: "'w \<Rightarrow> datetime \<times> 'w"
  file_dump :: "'w \<Rightarrow> str \<Rightarrow> json \<Rightarrow> exn option \<times> 'w"

subsection \<open>Programs: state passing with exceptions\<close>

type_synonym ('w, 'a) prog = "'w state \<Rightarrow> (exn + 'a) \<times> 'w state"

definition return :: "'a \<Rightarrow> ('w, 'a) prog" where
  "return x = (\<lambda>s. (Inr x, s))"

definition raise :: "exn \<Rightarrow> ('w, 'a) prog" where
  "raise e = (\<lambda>s. (Inl e, s))"

definition bind :: "('w, 'a) prog \<Rightarrow> ('a \<Rightarrow> ('w, 'b) prog) \<Rightarrow> ('w, 'b) prog" where
  "bind m f = (\<lambda>s. case m s of (Inl e, s') \<Rightarrow> (Inl e, s') | (Inr x, s') \<Rightarrow> f x s')"

definition and_then :: "('w, unit) prog \<Rightarrow> ('w, 'b) prog \<Rightarrow> ('w, 'b) prog" where
  "and_then m k = bind m (\<lambda>_. k)"

text \<open>\<open>try: m except Exception as e: h e\<close>; the state reached at the raise is kept.\<close>

definition try_except :: "('w, 'a) prog \<Rightarrow> (exn \<Rightarrow> ('w, 'a) prog) \<Rightarrow> ('w, 'a) prog" where
  "try_except m h = (\<lambda>s. case m s of (Inl e, s') \<Rightarrow> h e s' | (Inr x, s') \<Rightarrow> (Inr x, s'))"

definition lift :: "exn + 'a \<Rightarrow> ('w, 'a) prog" where
  "lift r = (\<lambda>s. (r, s))"

definition emit :: "event \<Rightarrow> ('w, unit) prog" where
  "emit ev = (\<lambda>s. (Inr (), s\<lparr>events := events s @ [ev]\<rparr>))"

definition print :: "str \<Rightarrow> ('w, unit) prog" where
  "print s = emit (Print s)"

fun prints :: "str list \<Rightarrow> ('w, unit) prog" where
  "prints [] = return ()"
| "prints (l # ls) = and_then (print l) (prints ls)"

definition sleep :: "nat \<Rightarrow> ('w, unit) prog" where
  "sleep n = emit (Sleep n)"

definition run_if :: "bool \<Rightarrow> ('w, unit) prog \<Rightarrow> ('w, unit) prog" where
  "run_if c m = (if c then m else return ())"

definition eof_error :: exn where
  "eof_error = Exn EOFError (lit ''EOF when reading a line'')"

text \<open>\<open>input(p)\<close>: the next line typed, or \<open>EOFError\<close> when there is none.\<close>

definition input :: "str \<Rightarrow> ('w, str) prog" where
  "input p = (\<lambda>s.
     case stdin s of
       [] \<Rightarrow> (Inl eof_error, s\<lparr>events := events s @ [Prompt p]\<rparr>)
     | l # ls \<Rightarrow> (Inr l, s\<lparr>stdin := ls, events := events s @ [Prompt p]\<rparr>))"

definition http_call :: "'w env \<Rightarrow> request \<Rightarrow> ('w, int \<times> (exn + json)) prog" where
  "http_call E rq = (\<lambda>s.
     case http E (world s) rq of
       (out, w') \<Rightarrow>
         (let s' = s\<lparr>events := events s @ [Http rq], world := w'\<rparr>
          in case out of
               Raised e \<Rightarrow> (Inl e, s')
             | Response status body \<Rightarrow> (Inr (status, body), s')))"

definition now :: "'w env \<Rightarrow> ('w, datetime) prog" where
  "now E = (\<lambda>s. case clock_now E (world s) of (t, w') \<Rightarrow> (Inr t, s\<lparr>world := w'\<rparr>))"

definition dump_json :: "'w env \<Rightarrow> str \<Rightarrow> json \<Rightarrow> ('w, unit) prog" where
  "dump_json E name doc = (\<lambda>s.
     case file_dump E (world s) name doc of
       (None, w') \<Rightarrow> (Inr (), s\<lparr>events := events s @ [FileDump name doc], world := w'\<rparr>)
     | (Some e, w') \<Rightarrow> (Inl e, s\<lparr>world := w'\<rparr>))"

text \<open>\<open>f"{v}"\<close> for a value out of a JSON body.\<close>

definition py_str :: "'w env \<Rightarrow> json \<Rightarrow> str" where
  "py_str E v =
     (case v of
        JStr s \<Rightarrow> s
      | JInt n \<Rightarrow> str_of_int n
      | JNull \<Rightarrow> lit ''None''
      | JBool b \<Rightarrow> (if b then lit ''True'' else lit ''False'')
      | _ \<Rightarrow> py_repr E v)"

text \<open>
  \<open>f"{v/1000:.1f}"\<close>: the division is defined on numbers (a bool is an int) and
  raises \<open>TypeError\<close> on everything else. The quotient of two ints is the nearest
  float, and the division raises \<open>OverflowError\<close> when there is none: when the
  quotient rounds to \<open>2 ^ 1024\<close> or beyond, which is from \<open>2 ^ 1024 - 2 ^ 970\<close> on (half
  way from the largest float to \<open>2 ^ 1024\<close>).
\<close>

definition float_overflow :: "int \<Rightarrow> bool" where
  "float_overflow n = (1000 * (2 ^ 1024 - 2 ^ 970) \<le> \<bar>n\<bar>)"

definition div1000_1f :: "'w env \<Rightarrow> json \<Rightarrow> exn + str" where
  "div1000_1f E v =
     (case v of
        JInt n \<Rightarrow>
          if float_overflow n
          then Inl (Exn OverflowError (lit ''integer division result too large for a float''))
          else Inr (fmt_1f_div1000 E n)
      | JBool b \<Rightarrow> Inr (fmt_1f_div1000 E (if b then 1 else 0))
      | _ \<Rightarrow> Inl (Exn TypeError (lit ''unsupported operand type(s) for /: '' @ quoted (type_name v)
                 @ lit '' and '' @ quoted (lit ''int''))))"

section \<open>interactive\_refresh.py\<close>

subsection \<open>Message texts\<close>

text \<open>
  The literals of the \<open>print\<close> and \<open>input\<close> calls, named by their line in the
  source; \<open>_pre\<close>, \<open>_mid\<close> and \<open>_post\<close> are the fragments of an f-string around
  its placeholders.
\<close>

(* "\n\u23f3 \u6b63\u5728\u5237\u65b0 " *)
definition ir_L47_pre :: str where
  "ir_L47_pre = [10, 9203, 32, 27491, 22312, 21047, 26032, 32]"

(* "   \u4f7f\u7528\u4ee3\u7406: " *)
definition ir_L49_pre :: str where
  "ir_L49_pre = lit ''   '' @ [20351, 29992, 20195, 29702, 58, 32]"

(* "   \u8bf7\u7a0d\u5019\uff0c\u8fd9\u53ef\u80fd\u9700\u8981 10-30 \u79d2...\n" *)
definition ir_L50 :: str where
  "ir_L50 = lit ''   '' @ [35831, 31245, 20505, 65292, 36825, 21487, 33021, 38656, 35201] @ lit '' 10-30 '' @ [31186] @ lit ''...'' @ [10]"

(* "\u274c \u9519\u8bef (\u72b6\u6001\u7801: " *)
definition ir_L61_pre :: str where
  "ir_L61_pre = [10060, 32, 38169, 35823, 32, 40, 29366, 24577, 30721, 58, 32]"

(* "\u672a\u77e5\u9519\u8bef" *)
definition ir_unknown_error :: str where
  "ir_unknown_error = [26410, 30693, 38169, 35823]"

(* "\u274c \u8bf7\u6c42\u8d85\u65f6 - \u670d\u52a1\u5668\u54cd\u5e94\u65f6\u95f4\u8fc7\u957f" *)
definition ir_L65 :: str where
  "ir_L65 = [10060, 32, 35831, 27714, 36229, 26102] @ lit '' - '' @ [26381, 21153, 22120, 21709, 24212, 26102, 38388, 36807, 38271]"

(* "\u274c \u65e0\u6cd5\u8fde\u63a5\u5230\u670d\u52a1\u5668 (" *)
definition ir_L68_pre :: str where
  "ir_L68_pre = [10060, 32, 26080, 27861, 36830, 25509, 21040, 26381, 21153, 22120, 32, 40]"

(* "   \u8bf7\u786e\u4fdd\u670d\u52a1\u5668\u5df2\u542f\u52a8" *)
definition ir_L69 :: str where
  "ir_L69 = lit ''   '' @ [35831, 30830, 20445, 26381, 21153, 22120, 24050, 21551, 21160]"

(* "\u274c \u8bf7\u6c42\u5931\u8d25: " *)
definition ir_L72_pre :: str where
  "ir_L72_pre = [10060, 32, 35831, 27714, 22833, 36133, 58, 32]"

(* "\u2705 Cookie \u5237\u65b0\u6210\u529f\uff01" *)
definition ir_L97 :: str where
  "ir_L97 = [9989] @ lit '' Cookie '' @ [21047, 26032, 25104, 21151, 65281]"

(* "\n\U0001f4cc \u76ee\u6807\u7f51\u5740\u4fe1\u606f:" *)
definition ir_L101 :: str where
  "ir_L101 = [10, 128204, 32, 30446, 26631, 32593, 22336, 20449, 24687, 58]"

(* "   \u4e3b\u673a\u540d: " *)
definition ir_L102_pre :: str where
  "ir_L102_pre = lit ''   '' @ [20027, 26426, 21517, 58, 32]"

(* "\n\U0001f36a Cookie \u4fe1\u606f:" *)
definition ir_L106 :: str where
  "ir_L106 = [10, 127850] @ lit '' Cookie '' @ [20449, 24687, 58]"

(* "   \u603b\u6570: " *)
definition ir_L107_pre :: str where
  "ir_L107_pre = lit ''   '' @ [24635, 25968, 58, 32]"

(* " \u4e2a" *)
definition ir_L107_post :: str where
  "ir_L107_post = [32, 20010]"

(* "\n\U0001f310 User-Agent:" *)
definition ir_L112 :: str where
  "ir_L112 = [10, 127760] @ lit '' User-Agent:''"

(* "\n\u23f1\ufe0f  \u6027\u80fd:" *)
definition ir_L117 :: str where
  "ir_L117 = [10, 9201, 65039, 32, 32, 24615, 33021, 58]"

(* "   \u751f\u6210\u8017\u65f6: " *)
definition ir_L118_pre :: str where
  "ir_L118_pre = lit ''   '' @ [29983, 25104, 32791, 26102, 58, 32]"

(* " \u79d2)" *)
definition ir_L118_post :: str where
  "ir_L118_post = [32, 31186, 41]"

(* "\U0001f36a \u83b7\u53d6\u7684 Cookie \u8be6\u60c5" *)
definition ir_L125 :: str where
  "ir_L125 = [127850, 32, 33719, 21462, 30340] @ lit '' Cookie '' @ [35814, 24773]"

(* "\n\U0001f4cc \u7f51\u5740: " *)
definition ir_L129_pre :: str where
  "ir_L129_pre = [10, 128204, 32, 32593, 22336, 58, 32]"

(* "   \u603b Cookie \u6570: " *)
definition ir_L130_pre :: str where
  "ir_L130_pre = lit ''   '' @ [24635] @ lit '' Cookie '' @ [25968, 58, 32]"

(* "\U0001f510 Cloudflare Cookie:" *)
definition ir_L144 :: str where
  "ir_L144 = [128272] @ lit '' Cloudflare Cookie:''"

(* "   \u2022 " *)
definition ir_bullet :: str where
  "ir_bullet = lit ''   '' @ [8226, 32]"

(* "\n\U0001f4e6 \u5176\u4ed6 Cookie (" *)
definition ir_L151_pre :: str where
  "ir_L151_pre = [10, 128230, 32, 20854, 20182] @ lit '' Cookie (''"

(* " \u4e2a):" *)
definition ir_L151_post :: str where
  "ir_L151_post = [32, 20010, 41, 58]"

(* " \u4e2a" *)
definition ir_L157_post :: str where
  "ir_L157_post = [32, 20010]"

(* "   ... \u8fd8\u6709 " *)
definition ir_L157_pre :: str where
  "ir_L157_pre = lit ''   ... '' @ [36824, 26377, 32]"

(* "\u662f" *)
definition ir_yes_zh :: str where
  "ir_yes_zh = [26159]"

(* "\u5426" *)
definition ir_no_zh :: str where
  "ir_no_zh = [21542]"

(* "   \u274c \u8bf7\u8f93\u5165 y/n (\u662f/\u5426)" *)
definition ir_L207 :: str where
  "ir_L207 = lit ''   '' @ [10060, 32, 35831, 36755, 20837] @ lit '' y/n ('' @ [26159, 47, 21542, 41]"

(* "\n\U0001f4dd \u8bf7\u8f93\u5165\u8981\u5237\u65b0\u7684\u7f51\u5740:" *)
definition ir_L212 :: str where
  "ir_L212 = [10, 128221, 32, 35831, 36755, 20837, 35201, 21047, 26032, 30340, 32593, 22336, 58]"

(* "   \u4f8b\u5982: example.com \u6216 https://example.com" *)
definition ir_L213 :: str where
  "ir_L213 = lit ''   '' @ [20363, 22914] @ lit '': example.com '' @ [25110] @ lit '' https://example.com''"

(* "   \u7f51\u5740: " *)
definition ir_L214 :: str where
  "ir_L214 = lit ''   '' @ [32593, 22336, 58, 32]"

(* "   \u274c \u7f51\u5740\u4e0d\u80fd\u4e3a\u7a7a" *)
definition ir_L217 :: str where
  "ir_L217 = lit ''   '' @ [10060, 32, 32593, 22336, 19981, 33021, 20026, 31354]"

(* "   \u274c \u7f51\u5740\u683c\u5f0f\u65e0\u6548: " *)
definition ir_L223_pre :: str where
  "ir_L223_pre = lit ''   '' @ [10060, 32, 32593, 22336, 26684, 24335, 26080, 25928, 58, 32]"

(* "   \u662f\u5426\u4f7f\u7528\u4ee3\u7406? (y/n): " *)
definition ir_L227 :: str where
  "ir_L227 = lit ''   '' @ [26159, 21542, 20351, 29992, 20195, 29702] @ lit ''? (y/n): ''"

(* "\n   \u8bf7\u8f93\u5165\u4ee3\u7406\u5730\u5740:" *)
definition ir_L231 :: str where
  "ir_L231 = [10] @ lit ''   '' @ [35831, 36755, 20837, 20195, 29702, 22320, 22336, 58]"

(* "   \u4f8b\u5982: http://proxy:8080 \u6216 socks5://proxy:1080" *)
definition ir_L232 :: str where
  "ir_L232 = lit ''   '' @ [20363, 22914] @ lit '': http://proxy:8080 '' @ [25110] @ lit '' socks5://proxy:1080''"

(* "   \u4ee3\u7406: " *)
definition ir_L233 :: str where
  "ir_L233 = lit ''   '' @ [20195, 29702, 58, 32]"

(* "   \u2139\ufe0f \u672a\u8f93\u5165\u4ee3\u7406\uff0c\u5c06\u4e0d\u4f7f\u7528\u4ee3\u7406" *)
definition ir_L236 :: str where
  "ir_L236 = lit ''   '' @ [8505, 65039, 32, 26410, 36755, 20837, 20195, 29702, 65292, 23558, 19981, 20351, 29992, 20195, 29702]"

(* "   \u274c \u4ee3\u7406\u683c\u5f0f\u9519\u8bef\uff0c\u5c06\u4e0d\u4f7f\u7528\u4ee3\u7406" *)
definition ir_L239 :: str where
  "ir_L239 = lit ''   '' @ [10060, 32, 20195, 29702, 26684, 24335, 38169, 35823, 65292, 23558, 19981, 20351, 29992, 20195, 29702]"

(* "\n   \u662f\u5426\u67e5\u770b\u8be6\u7ec6\u7684 Cookie \u4fe1\u606f? (y/n): " *)
definition ir_L249 :: str where
  "ir_L249 = [10] @ lit ''   '' @ [26159, 21542, 26597, 30475, 35814, 32454, 30340] @ lit '' Cookie '' @ [20449, 24687] @ lit ''? (y/n): ''"

(* "\n   \u662f\u5426\u4fdd\u5b58\u7ed3\u679c\u5230\u6587\u4ef6? (y/n): " *)
definition ir_L255 :: str where
  "ir_L255 = [10] @ lit ''   '' @ [26159, 21542, 20445, 23384, 32467, 26524, 21040, 25991, 20214] @ lit ''? (y/n): ''"

(* "\n\U0001f4dd \u8bf7\u8f93\u5165\u8981\u67e5\u770b\u7684\u7f51\u5740:" *)
definition ir_L261 :: str where
  "ir_L261 = [10, 128221, 32, 35831, 36755, 20837, 35201, 26597, 30475, 30340, 32593, 22336, 58]"

(* "\n\u23f3 \u6b63\u5728\u83b7\u53d6 Cookie..." *)
definition ir_L274 :: str where
  "ir_L274 = [10, 9203, 32, 27491, 22312, 33719, 21462] @ lit '' Cookie...''"

(* "   \u26a0\ufe0f \u672a\u627e\u5230\u7f13\u5b58\u7684 Cookie\uff08\u53ef\u80fd\u9700\u8981\u5148\u5237\u65b0\uff09" *)
definition ir_L281 :: str where
  "ir_L281 = lit ''   '' @ [9888, 65039, 32, 26410, 25214, 21040, 32531, 23384, 30340] @ lit '' Cookie'' @ [65288, 21487, 33021, 38656, 35201, 20808, 21047, 26032, 65289]"

(* "\n\U0001f4dd \u8bf7\u8f93\u5165\u8981\u5237\u65b0\u7684\u7f51\u5740\u5217\u8868 (\u6bcf\u884c\u4e00\u4e2a\uff0c\u8f93\u5165\u7a7a\u884c\u7ed3\u675f):" *)
definition ir_L286 :: str where
  "ir_L286 = [10, 128221, 32, 35831, 36755, 20837, 35201, 21047, 26032, 30340, 32593, 22336, 21015, 34920, 32, 40, 27599, 34892, 19968, 20010, 65292, 36755, 20837, 31354, 34892, 32467, 26463, 41, 58]"

(* "   \u4f8b\u5982:" *)
definition ir_L287 :: str where
  "ir_L287 = lit ''   '' @ [20363, 22914, 58]"

(* "      example.com" *)
definition ir_L288 :: str where
  "ir_L288 = lit ''      example.com''"

(* "      test.com" *)
definition ir_L289 :: str where
  "ir_L289 = lit ''      test.com''"

(* "      site.com" *)
definition ir_L290 :: str where
  "ir_L290 = lit ''      site.com''"

(* "] \u7f51\u5740: " *)
definition ir_L295_post :: str where
  "ir_L295_post = [93, 32, 32593, 22336, 58, 32]"

(* "   \u274c \u7f51\u5740\u683c\u5f0f\u65e0\u6548\uff0c\u8df3\u8fc7: " *)
definition ir_L302_pre :: str where
  "ir_L302_pre = lit ''   '' @ [10060, 32, 32593, 22336, 26684, 24335, 26080, 25928, 65292, 36339, 36807, 58, 32]"

(* "   \u274c \u6ca1\u6709\u8f93\u5165\u6709\u6548\u7684\u7f51\u5740" *)
definition ir_L305 :: str where
  "ir_L305 = lit ''   '' @ [10060, 32, 27809, 26377, 36755, 20837, 26377, 25928, 30340, 32593, 22336]"

(* "\n\u5c06\u8981\u5237\u65b0 " *)
definition ir_L308_pre :: str where
  "ir_L308_pre = [10, 23558, 35201, 21047, 26032, 32]"

(* " \u4e2a\u7f51\u5740" *)
definition ir_L308_post :: str where
  "ir_L308_post = [32, 20010, 32593, 22336]"

(* "   \u662f\u5426\u4e3a\u6240\u6709\u7f51\u5740\u4f7f\u7528\u540c\u4e00\u4ee3\u7406? (y/n): " *)
definition ir_L311 :: str where
  "ir_L311 = lit ''   '' @ [26159, 21542, 20026, 25152, 26377, 32593, 22336, 20351, 29992, 21516, 19968, 20195, 29702] @ lit ''? (y/n): ''"

(* "   \u274c \u4ee3\u7406\u683c\u5f0f\u9519\u8bef" *)
definition ir_L319 :: str where
  "ir_L319 = lit ''   '' @ [10060, 32, 20195, 29702, 26684, 24335, 38169, 35823]"

(* "] \u6b63\u5728\u5904\u7406: " *)
definition ir_L325_post :: str where
  "ir_L325_post = [93, 32, 27491, 22312, 22788, 29702, 58, 32]"

(* "   \u2705 \u6210\u529f - " *)
definition ir_L336_pre :: str where
  "ir_L336_pre = lit ''   '' @ [9989, 32, 25104, 21151] @ lit '' - ''"

(* " \u4e2a Cookie - " *)
definition ir_L336_mid :: str where
  "ir_L336_mid = [32, 20010] @ lit '' Cookie - ''"

(* "   \u274c \u5931\u8d25" *)
definition ir_L342 :: str where
  "ir_L342 = lit ''   '' @ [10060, 32, 22833, 36133]"

(* "\U0001f4ca \u6279\u91cf\u5237\u65b0\u603b\u7ed3" *)
definition ir_L350 :: str where
  "ir_L350 = [128202, 32, 25209, 37327, 21047, 26032, 24635, 32467]"

(* "\n   \u603b\u6570: " *)
definition ir_L356_pre :: str where
  "ir_L356_pre = [10] @ lit ''   '' @ [24635, 25968, 58, 32]"

(* "   \u2705 \u6210\u529f: " *)
definition ir_L357_pre :: str where
  "ir_L357_pre = lit ''   '' @ [9989, 32, 25104, 21151, 58, 32]"

(* "   \u274c \u5931\u8d25: " *)
definition ir_L358_pre :: str where
  "ir_L358_pre = lit ''   '' @ [10060, 32, 22833, 36133, 58, 32]"

(* "\n   \u23f1\ufe0f  \u5e73\u5747\u8017\u65f6: " *)
definition ir_L363_pre :: str where
  "ir_L363_pre = [10] @ lit ''   '' @ [9201, 65039, 32, 32, 24179, 22343, 32791, 26102, 58, 32]"

(* "   \u603b\u8017\u65f6: " *)
definition ir_L364_pre :: str where
  "ir_L364_pre = lit ''   '' @ [24635, 32791, 26102, 58, 32]"

(* "\n   \u2705 \u7ed3\u679c\u5df2\u4fdd\u5b58\u5230: " *)
definition ir_L389_pre :: str where
  "ir_L389_pre = [10] @ lit ''   '' @ [9989, 32, 32467, 26524, 24050, 20445, 23384, 21040, 58, 32]"

(* "\n   \u274c \u4fdd\u5b58\u5931\u8d25: " *)
definition ir_L391_pre :: str where
  "ir_L391_pre = [10] @ lit ''   '' @ [10060, 32, 20445, 23384, 22833, 36133, 58, 32]"

(* "   \u7f51\u5740: " *)
definition ir_L262 :: str where
  "ir_L262 = lit ''   '' @ [32593, 22336, 58, 32]"

(* "   \u274c \u7f51\u5740\u4e0d\u80fd\u4e3a\u7a7a" *)
definition ir_L265 :: str where
  "ir_L265 = lit ''   '' @ [10060, 32, 32593, 22336, 19981, 33021, 20026, 31354]"

(* "   \u274c \u7f51\u5740\u683c\u5f0f\u65e0\u6548: " *)
definition ir_L271_pre :: str where
  "ir_L271_pre = lit ''   '' @ [10060, 32, 32593, 22336, 26684, 24335, 26080, 25928, 58, 32]"

(* "   \u4ee3\u7406: " *)
definition ir_L315 :: str where
  "ir_L315 = lit ''   '' @ [20195, 29702, 58, 32]"

(* " \u79d2)" *)
definition ir_L364_post :: str where
  "ir_L364_post = [32, 31186, 41]"

(* "\n   \u662f\u5426\u4fdd\u5b58\u7ed3\u679c\u5230\u6587\u4ef6? (y/n): " *)
definition ir_L369 :: str where
  "ir_L369 = [10] @ lit ''   '' @ [26159, 21542, 20445, 23384, 32467, 26524, 21040, 25991, 20214] @ lit ''? (y/n): ''"

(* "\n   \u2705 \u7ed3\u679c\u5df2\u4fdd\u5b58\u5230: " *)
definition ir_L409_pre :: str where
  "ir_L409_pre = [10] @ lit ''   '' @ [9989, 32, 32467, 26524, 24050, 20445, 23384, 21040, 58, 32]"

(* "\n   \u274c \u4fdd\u5b58\u5931\u8d25: " *)
definition ir_L411_pre :: str where
  "ir_L411_pre = [10] @ lit ''   '' @ [10060, 32, 20445, 23384, 22833, 36133, 58, 32]"

subsection \<open>URL normalizer and validator\<close>

definition format_url :: "str \<Rightarrow> str" where
  "format_url url =
     (if \<not> startswith url [lit ''http://'', lit ''https://''] then lit ''https://'' @ url else url)"

definition validate_url :: "'w env \<Rightarrow> str \<Rightarrow> bool" where
  "validate_url E url =
     (case urlparse E url of
        Inl e \<Rightarrow> False
      | Inr result \<Rightarrow> scheme result \<noteq> [] \<and> netloc result \<noteq> [])"

subsection \<open>Refresh client and cookie lookup client\<close>

definition default_server_url :: str where
  "default_server_url = lit ''http://localhost:8000''"

definition rule70 :: str where
  "rule70 = replicate 70 61"

text \<open>
  \<open>params = {"url": url}\<close>, then \<open>if proxy: params["proxy"] = proxy\<close>: a proxy that
  is \<open>None\<close> or empty is left out.
\<close>

definition refresh_params :: "str \<Rightarrow> str option \<Rightarrow> (str \<times> str) list" where
  "refresh_params url proxy =
     (lit ''url'', url) #
     (case proxy of None \<Rightarrow> [] | Some p \<Rightarrow> if p \<noteq> [] then [(lit ''proxy'', p)] else [])"

text \<open>
  \<open>CookieRefresherCLI.refresh_cookies\<close>, lines 42 to 63: the body of the \<open>try\<close>,
  which starts with the three lines printed before the request (lines 47 to 50).
  The session object the method creates on first use is not modelled.
\<close>

definition refresh_cookies_announce :: "str \<Rightarrow> str option \<Rightarrow> ('w, unit) prog" where
  "refresh_cookies_announce url proxy =
     and_then (print (ir_L47_pre @ url @ lit ''...''))
    (and_then (case proxy of None \<Rightarrow> return ()
                 | Some p \<Rightarrow> run_if (p \<noteq> []) (print (ir_L49_pre @ p)))
    (print ir_L50))"

text \<open>The request of lines 52 to 56.\<close>

definition refresh_request :: "str \<Rightarrow> str \<Rightarrow> str option \<Rightarrow> request" where
  "refresh_request server_url url proxy =
     Post (server_url @ lit ''/cache/refresh'') (refresh_params url proxy) (Some 120)"

definition refresh_cookies_try :: "'w env \<Rightarrow> str \<Rightarrow> str \<Rightarrow> str option \<Rightarrow> ('w, json option) prog" where
  "refresh_cookies_try E server_url url proxy =
     and_then (refresh_cookies_announce url proxy)
    (bind (http_call E (refresh_request server_url url proxy))
       (\<lambda>(status, body).
          if status = 200 then bind (lift body) (\<lambda>j. return (Some j))
          else
            bind (lift body) (\<lambda>error_data.
            and_then (print (ir_L61_pre @ str_of_int status @ lit '')''))
           (bind (lift (obj_get_or error_data (lit ''detail'') (JStr ir_unknown_error))) (\<lambda>detail.
            and_then (print (lit ''   '' @ py_str E detail))
           (return None))))))"

text \<open>Lines 64 to 73: the three handlers, in the order of the source.\<close>

definition refresh_cookies_except :: "str \<Rightarrow> exn \<Rightarrow> ('w, json option) prog" where
  "refresh_cookies_except server_url e =
     (case exn_class e of
        TimeoutError \<Rightarrow> and_then (print ir_L65) (return None)
      | ClientConnectorError \<Rightarrow>
          and_then (print (ir_L68_pre @ server_url @ lit '')''))
         (and_then (print ir_L69) (return None))
      | _ \<Rightarrow> and_then (print (ir_L72_pre @ exn_text e)) (return None))"

definition refresh_cookies :: "'w env \<Rightarrow> str \<Rightarrow> str \<Rightarrow> str option \<Rightarrow> ('w, json option) prog" where
  "refresh_cookies E server_url url proxy =
     try_except (refresh_cookies_try E server_url url proxy) (refresh_cookies_except server_url)"

text \<open>\<open>CookieRefresherCLI.get_cookies\<close>: every failure is \<open>None\<close>, with no message.\<close>

definition get_cookies :: "'w env \<Rightarrow> str \<Rightarrow> str \<Rightarrow> ('w, json option) prog" where
  "get_cookies E server_url url =
     try_except
       (bind (http_call E (Get (server_url @ lit ''/cookies'') [(lit ''url'', url)] (Some 60)))
          (\<lambda>(status, body).
             if status = 200 then bind (lift body) (\<lambda>j. return (Some j)) else return None))
       (\<lambda>e. return None)"

subsection \<open>Display\<close>

text \<open>\<open>CookieRefresherCLI.display_result\<close>; its callers pass a dict.\<close>

definition display_result :: "'w env \<Rightarrow> pydict \<Rightarrow> ('w, unit) prog" where
  "display_result E result =
     and_then (prints [10 # rule70, ir_L97, rule70, ir_L101,
                       ir_L102_pre @ py_str E (dict_get_or result (lit ''hostname'') (JStr (lit ''N/A'')))])
    (let cookies_count = dict_get_or result (lit ''cookies_count'') (JInt 0) in
     and_then (prints [ir_L106, ir_L107_pre @ py_str E cookies_count @ ir_L107_post])
    (let user_agent = dict_get_or result (lit ''user_agent'') (JStr []) in
     and_then (run_if (truthy user_agent) (prints [ir_L112, lit ''   '' @ py_str E user_agent]))
    (let generation_time = dict_get_or result (lit ''generation_time_ms'') (JInt 0) in
     and_then (print ir_L117)
    (bind (lift (div1000_1f E generation_time)) (\<lambda>seconds.
     and_then (print (ir_L118_pre @ py_str E generation_time @ lit '' ms ('' @ seconds @ ir_L118_post))
    (print (10 # rule70)))))))"

text \<open>\<open>d[k] = v\<close>: a key already in the dict keeps its place.\<close>

fun dict_set :: "(str \<times> 'v) list \<Rightarrow> str \<Rightarrow> 'v \<Rightarrow> (str \<times> 'v) list" where
  "dict_set [] k v = [(k, v)]"
| "dict_set ((k', v') # d) k v = (if k' = k then (k, v) # d else (k', v') # dict_set d k v)"

definition is_cf_name :: "str \<Rightarrow> bool" where
  "is_cf_name name = startswith name [lit ''cf_'', lit ''__cf'']"

text \<open>Lines 133 to 140 of \<open>display_cookies\<close>: the loop that fills the two dicts.\<close>

fun classify_cookies :: "pydict \<Rightarrow> pydict \<Rightarrow> pydict \<Rightarrow> pydict \<times> pydict" where
  "classify_cookies [] cf_cookies other_cookies = (cf_cookies, other_cookies)"
| "classify_cookies ((name, v) # rest) cf_cookies other_cookies =
     (if is_cf_name name
      then classify_cookies rest (dict_set cf_cookies name v) other_cookies
      else classify_cookies rest cf_cookies (dict_set other_cookies name v))"

text \<open>
  \<open>value[:40] + "..." if len(value) > 40 else value\<close>, then the value in the
  f-string. A cookie value is a str; \<open>len\<close> raises on \<open>None\<close> and numbers, and the
  slice or the concatenation raises on a list or dict of more than 40 entries
  (for the dict, \<open>TypeError\<close> up to Python 3.11 and \<open>KeyError\<close> from 3.12 on).
\<close>

definition value_preview :: "'w env \<Rightarrow> json \<Rightarrow> exn + str" where
  "value_preview E v =
     (case v of
        JStr s \<Rightarrow> Inr (if length s > 40 then take 40 s @ lit ''...'' else s)
      | JList xs \<Rightarrow>
          if length xs > 40
          then Inl (Exn TypeError (lit ''can only concatenate list (not '' @ [34] @ lit ''str'' @ [34] @ lit '') to list''))
          else Inr (py_str E v)
      | JObj d \<Rightarrow>
          if length d > 40
          then Inl (Exn TypeError (lit ''unhashable type: '' @ quoted (lit ''slice'')))
          else Inr (py_str E v)
      | _ \<Rightarrow> Inl (Exn TypeError (lit ''object of type '' @ quoted (type_name v) @ lit '' has no len()'')))"

fun print_cookies :: "'w env \<Rightarrow> pydict \<Rightarrow> ('w, unit) prog" where
  "print_cookies E [] = return ()"
| "print_cookies E ((name, v) # rest) =
     bind (lift (value_preview E v)) (\<lambda>preview.
     and_then (print (ir_bullet @ name @ lit '': '' @ preview))
    (print_cookies E rest))"

text \<open>\<open>len(cookies)\<close> and \<open>cookies.items()\<close> on whatever the caller passes.\<close>

definition py_len :: "json \<Rightarrow> exn + nat" where
  "py_len v =
     (case v of
        JStr s \<Rightarrow> Inr (length s)
      | JList xs \<Rightarrow> Inr (length xs)
      | JObj d \<Rightarrow> Inr (length d)
      | _ \<Rightarrow> Inl (Exn TypeError (lit ''object of type '' @ quoted (type_name v) @ lit '' has no len()'')))"

definition py_items :: "json \<Rightarrow> exn + pydict" where
  "py_items v = (case v of JObj d \<Rightarrow> Inr d | _ \<Rightarrow> Inl (no_attribute v (lit ''items'')))"

definition display_cookies :: "'w env \<Rightarrow> str \<Rightarrow> json \<Rightarrow> ('w, unit) prog" where
  "display_cookies E url cookies =
     and_then (prints [10 # rule70, ir_L125, rule70])
    (bind (lift (urlparse E url)) (\<lambda>parts.
     let hostname = netloc parts in
     and_then (print (ir_L129_pre @ hostname))
    (bind (lift (py_len cookies)) (\<lambda>n.
     and_then (print (ir_L130_pre @ str_of_nat n @ [10]))
    (bind (lift (py_items cookies)) (\<lambda>items.
     case classify_cookies items [] [] of
       (cf_cookies, other_cookies) \<Rightarrow>
         and_then (run_if (cf_cookies \<noteq> [])
                    (and_then (print ir_L144) (print_cookies E cf_cookies)))
        (and_then (run_if (other_cookies \<noteq> [])
                    (and_then (print (ir_L151_pre @ str_of_nat (length other_cookies) @ ir_L151_post))
                    (and_then (print_cookies E (take 5 other_cookies))
                    (run_if (length other_cookies > 5)
                       (print (ir_L157_pre @ str_of_nat (length other_cookies - 5) @ ir_L157_post))))))
        (print (10 # rule70)))))))))"

subsection \<open>Prompts\<close>

text \<open>
  \<open>get_yes_no\<close>: the \<open>while True\<close> loop reads a line per round, so it ends when a
  line is accepted or the input is exhausted (\<open>EOFError\<close>).
\<close>

function get_yes_no :: "'w env \<Rightarrow> str \<Rightarrow> ('w, bool) prog" where
  "get_yes_no E prompt s =
     (case input prompt s of
        (Inl e, s') \<Rightarrow> (Inl e, s')
      | (Inr line, s') \<Rightarrow>
          (let response = str_lower E (py_strip line) in
           if response \<in> set [lit ''y'', lit ''yes'', ir_yes_zh, lit ''1''] then (Inr True, s')
           else if response \<in> set [lit ''n'', lit ''no'', ir_no_zh, lit ''0''] then (Inr False, s')
           else get_yes_no E prompt (snd (print ir_L207 s'))))"
  by pat_completeness auto
termination
  by (relation "measure (\<lambda>(E, prompt, s). length (stdin s))")
     (auto simp: input_def print_def emit_def split: list.splits)

declare get_yes_no.simps [simp del]

subsection \<open>Result persistence\<close>

text \<open>
  \<open>strftime('%Y%m%d_%H%M%S')\<close> and \<open>isoformat()\<close> of a naive \<open>datetime\<close>: zero-padded
  decimal fields; \<open>isoformat\<close> leaves the microseconds out when they are 0.
\<close>

definition zpad :: "nat \<Rightarrow> nat \<Rightarrow> str" where
  "zpad width n = replicate (width - length (str_of_nat n)) 48 @ str_of_nat n"

definition strftime_compact :: "datetime \<Rightarrow> str" where
  "strftime_compact t =
     zpad 4 (dt_year t) @ zpad 2 (dt_month t) @ zpad 2 (dt_day t) @ lit ''_''
     @ zpad 2 (dt_hour t) @ zpad 2 (dt_minute t) @ zpad 2 (dt_second t)"

definition isoformat :: "datetime \<Rightarrow> str" where
  "isoformat t =
     zpad 4 (dt_year t) @ lit ''-'' @ zpad 2 (dt_month t) @ lit ''-'' @ zpad 2 (dt_day t) @ lit ''T''
     @ zpad 2 (dt_hour t) @ lit '':'' @ zpad 2 (dt_minute t) @ lit '':'' @ zpad 2 (dt_second t)
     @ (if dt_microsecond t = 0 then [] else lit ''.'' @ zpad 6 (dt_microsecond t))"

text \<open>The dict \<open>data\<close> of \<open>save_result_to_file\<close>, lines 377 to 384.\<close>

definition single_document :: "datetime \<Rightarrow> str \<Rightarrow> pydict \<Rightarrow> json" where
  "single_document t url result =
     JObj [(lit ''timestamp'', JStr (isoformat t)),
           (lit ''url'', JStr url),
           (lit ''hostname'', dict_get result (lit ''hostname'')),
           (lit ''cookies_count'', dict_get result (lit ''cookies_count'')),
           (lit ''user_agent'', dict_get result (lit ''user_agent'')),
           (lit ''generation_time_ms'', dict_get result (lit ''generation_time_ms''))]"

definition save_result_to_file :: "'w env \<Rightarrow> str \<Rightarrow> pydict \<Rightarrow> ('w, unit) prog" where
  "save_result_to_file E url result =
     try_except
       (bind (now E) (\<lambda>t1.
        let filename = lit ''cookie_refresh_'' @ strftime_compact t1 @ lit ''.json'' in
        bind (now E) (\<lambda>t2.
        let data = single_document t2 url result in
        and_then (dump_json E filename data)
       (print (ir_L389_pre @ filename)))))
       (\<lambda>e. print (ir_L391_pre @ exn_text e))"

text \<open>
  \<open>sum(1 for r in results if r['status'] == k)\<close>: \<open>KeyError\<close> at the first record
  without a \<open>status\<close>.
\<close>

definition key_error :: "str \<Rightarrow> exn" where
  "key_error k = Exn KeyError (quoted k)"

fun count_status :: "pydict list \<Rightarrow> str \<Rightarrow> exn + int" where
  "count_status [] k = Inr 0"
| "count_status (r # rs) k =
     (case map_of r (lit ''status'') of
        None \<Rightarrow> Inl (key_error (lit ''status''))
      | Some v \<Rightarrow>
          (case count_status rs k of
             Inl e \<Rightarrow> Inl e
           | Inr n \<Rightarrow> Inr ((if v = JStr k then 1 else 0) + n)))"

text \<open>The dict \<open>data\<close> of \<open>save_batch_results\<close>, lines 398 to 404.\<close>

definition batch_document :: "datetime \<Rightarrow> pydict list \<Rightarrow> exn + json" where
  "batch_document t results =
     (case count_status results (lit ''success'') of
        Inl e \<Rightarrow> Inl e
      | Inr n_success \<Rightarrow>
          (case count_status results (lit ''failed'') of
             Inl e \<Rightarrow> Inl e
           | Inr n_failed \<Rightarrow>
               Inr (JObj [(lit ''timestamp'', JStr (isoformat t)),
                          (lit ''total'', JInt (int (length results))),
                          (lit ''success'', JInt n_success),
                          (lit ''failed'', JInt n_failed),
                          (lit ''results'', JList (map JObj results))])))"

definition save_batch_results :: "'w env \<Rightarrow> pydict list \<Rightarrow> ('w, unit) prog" where
  "save_batch_results E results =
     try_except
       (bind (now E) (\<lambda>t1.
        let filename = lit ''cookie_refresh_batch_'' @ strftime_compact t1 @ lit ''.json'' in
        bind (now E) (\<lambda>t2.
        bind (lift (batch_document t2 results)) (\<lambda>data.
        and_then (dump_json E filename data)
       (print (ir_L409_pre @ filename))))))
       (\<lambda>e. print (ir_L411_pre @ exn_text e))"

subsection \<open>Single refresh\<close>

definition proxy_schemes :: "str list" where
  "proxy_schemes = [lit ''http://'', lit ''https://'', lit ''socks4://'', lit ''socks5://'']"

text \<open>
  \<open>result and result.get('status') == 'success'\<close>, the test of \<open>refresh_single_url\<close>
  (line 245) and of \<open>batch_refresh\<close> (line 328): \<open>Some d\<close> when it holds of the dict
  \<open>d\<close>, \<open>None\<close> when it does not, \<open>AttributeError\<close> for a true value that is not a
  dict.
\<close>

definition success_check :: "json option \<Rightarrow> exn + pydict option" where
  "success_check result =
     (case result of
        None \<Rightarrow> Inr None
      | Some (JObj d) \<Rightarrow>
          Inr (if d \<noteq> [] \<and> dict_get d (lit ''status'') = JStr (lit ''success'') then Some d else None)
      | Some v \<Rightarrow> if truthy v then Inl (no_attribute v (lit ''get'')) else Inr None)"

text \<open>Lines 227 to 240 of \<open>refresh_single_url\<close>: the optional proxy.\<close>

definition single_ask_proxy :: "'w env \<Rightarrow> ('w, str option) prog" where
  "single_ask_proxy E =
     bind (get_yes_no E ir_L227) (\<lambda>use_proxy.
     if use_proxy then
       and_then (prints [ir_L231, ir_L232])
      (bind (input ir_L233) (\<lambda>line.
       let proxy = py_strip line in
       if proxy = [] then and_then (print ir_L236) (return None)
       else if \<not> startswith proxy proxy_schemes then and_then (print ir_L239) (return None)
       else return (Some proxy)))
     else return None)"

text \<open>Lines 245 to 256: what follows the refresh.\<close>

definition single_after_refresh :: "'w env \<Rightarrow> str \<Rightarrow> str \<Rightarrow> json option \<Rightarrow> ('w, unit) prog" where
  "single_after_refresh E server_url url result =
     bind (lift (success_check result)) (\<lambda>ok.
     case ok of
       None \<Rightarrow> return ()
     | Some d \<Rightarrow>
         and_then (display_result E d)
        (bind (get_yes_no E ir_L249) (\<lambda>show_cookies.
         and_then (run_if show_cookies
                    (bind (get_cookies E server_url url) (\<lambda>cookies_result.
                     case cookies_result of
                       None \<Rightarrow> return ()
                     | Some c \<Rightarrow>
                         if truthy c
                         then bind (lift (obj_get_or c (lit ''cookies'') (JObj []))) (display_cookies E url)
                         else return ())))
        (bind (get_yes_no E ir_L255) (\<lambda>save.
         run_if save (save_result_to_file E url d))))))"

definition refresh_single_url :: "'w env \<Rightarrow> str \<Rightarrow> ('w, unit) prog" where
  "refresh_single_url E server_url =
     and_then (prints [ir_L212, ir_L213])
    (bind (input ir_L214) (\<lambda>line.
     let url = py_strip line in
     if url = [] then print ir_L217
     else
       let url = format_url url in
       if \<not> validate_url E url then print (ir_L223_pre @ url)
       else
         bind (single_ask_proxy E) (\<lambda>proxy.
         bind (refresh_cookies E server_url url proxy) (\<lambda>result.
         single_after_refresh E server_url url result))))"

definition view_cached_cookies :: "'w env \<Rightarrow> str \<Rightarrow> ('w, unit) prog" where
  "view_cached_cookies E server_url =
     and_then (print ir_L261)
    (bind (input ir_L262) (\<lambda>line.
     let url = py_strip line in
     if url = [] then print ir_L265
     else
       let url = format_url url in
       if \<not> validate_url E url then print (ir_L271_pre @ url)
       else
         and_then (print ir_L274)
        (bind (get_cookies E server_url url) (\<lambda>cookies_result.
         case cookies_result of
           None \<Rightarrow> print ir_L281
         | Some c \<Rightarrow>
             if truthy c
             then bind (lift (obj_get_or c (lit ''cookies'') (JObj []))) (display_cookies E url)
             else print ir_L281))))"

subsection \<open>Batch refresh\<close>

text \<open>
  Lines 293 to 302 of \<open>batch_refresh\<close>: URLs are read until a blank line; an
  invalid one is reported and left out.
\<close>

function batch_read_urls :: "'w env \<Rightarrow> str list \<Rightarrow> ('w, str list) prog" where
  "batch_read_urls E urls s =
     (case input (lit ''   ['' @ str_of_nat (length urls + 1) @ ir_L295_post) s of
        (Inl e, s') \<Rightarrow> (Inl e, s')
      | (Inr line, s') \<Rightarrow>
          (let url = py_strip line in
           if url = [] then (Inr urls, s')
           else
             let url = format_url url in
             if validate_url E url then batch_read_urls E (urls @ [url]) s'
             else batch_read_urls E urls (snd (print (ir_L302_pre @ url) s'))))"
  by pat_completeness auto
termination
  by (relation "measure (\<lambda>(E, urls, s). length (stdin s))")
     (auto simp: input_def print_def emit_def split: list.splits)

declare batch_read_urls.simps [simp del]

text \<open>Lines 311 to 320: the proxy shared by the batch.\<close>

definition batch_ask_proxy :: "'w env \<Rightarrow> ('w, str option) prog" where
  "batch_ask_proxy E =
     bind (get_yes_no E ir_L311) (\<lambda>use_proxy.
     if use_proxy then
       bind (input ir_L315) (\<lambda>line.
       let proxy = py_strip line in
       if proxy = [] then return None
       else if \<not> startswith proxy proxy_schemes then and_then (print ir_L319) (return None)
       else return (Some proxy))
     else return None)"

text \<open>
  The records of lines 329 to 335 and 338 to 341, with the line printed after each.
\<close>

definition success_record :: "str \<Rightarrow> pydict \<Rightarrow> pydict" where
  "success_record url result =
     [(lit ''url'', JStr url),
      (lit ''hostname'', dict_get result (lit ''hostname'')),
      (lit ''cookies_count'', dict_get result (lit ''cookies_count'')),
      (lit ''time_ms'', dict_get result (lit ''generation_time_ms'')),
      (lit ''status'', JStr (lit ''success''))]"

definition failed_record :: "str \<Rightarrow> pydict" where
  "failed_record url = [(lit ''url'', JStr url), (lit ''status'', JStr (lit ''failed''))]"

text \<open>
  Lines 324 to 346: the loop \<open>for i, url in enumerate(urls, 1)\<close>; \<open>n\<close> is
  \<open>len(urls)\<close> of the whole list and \<open>i\<close> the index of the head of the list still
  to do.
\<close>

fun batch_loop ::
  "'w env \<Rightarrow> str \<Rightarrow> str option \<Rightarrow> nat \<Rightarrow> nat \<Rightarrow> str list \<Rightarrow> pydict list \<Rightarrow> ('w, pydict list) prog" where
  "batch_loop E server_url proxy n i [] results = return results"
| "batch_loop E server_url proxy n i (url # rest) results =
     bind (lift (urlparse E url)) (\<lambda>parts.
     and_then (print ([10] @ lit ''['' @ str_of_nat i @ lit ''/'' @ str_of_nat n @ ir_L325_post @ netloc parts))
    (bind (refresh_cookies E server_url url proxy) (\<lambda>result.
     bind (lift (success_check result)) (\<lambda>ok.
     bind (case ok of
             Some d \<Rightarrow>
               and_then (print (ir_L336_pre @ py_str E (dict_get d (lit ''cookies_count'')) @ ir_L336_mid
                                @ py_str E (dict_get d (lit ''generation_time_ms'')) @ lit ''ms''))
              (return (results @ [success_record url d]))
           | None \<Rightarrow>
               and_then (print ir_L342)
              (return (results @ [failed_record url]))) (\<lambda>results'.
     and_then (run_if (i < n) (sleep 2))
    (batch_loop E server_url proxy n (Suc i) rest results'))))))"

text \<open>
  Lines 348 to 366: the summary. \<open>sum(r.get('time_ms', 0) ...)\<close> adds integers and
  raises \<open>TypeError\<close> on a \<open>time_ms\<close> that is not a number. The limit that
  Python 3.11 puts on the digits of an int converted to text is not modelled.
\<close>

fun sum_time_ms :: "pydict list \<Rightarrow> int \<Rightarrow> exn + int" where
  "sum_time_ms [] acc = Inr acc"
| "sum_time_ms (r # rs) acc =
     (case map_of r (lit ''status'') of
        None \<Rightarrow> Inl (key_error (lit ''status''))
      | Some st \<Rightarrow>
          if st = JStr (lit ''success'') then
            (case dict_get_or r (lit ''time_ms'') (JInt 0) of
               JInt n \<Rightarrow> sum_time_ms rs (acc + n)
             | JBool b \<Rightarrow> sum_time_ms rs (acc + (if b then 1 else 0))
             | v \<Rightarrow> Inl (Exn TypeError (lit ''unsupported operand type(s) for +: '' @ quoted (lit ''int'')
                         @ lit '' and '' @ quoted (type_name v))))
          else sum_time_ms rs acc)"

definition batch_summary :: "'w env \<Rightarrow> pydict list \<Rightarrow> ('w, unit) prog" where
  "batch_summary E results =
     and_then (prints [10 # rule70, ir_L350, rule70])
    (bind (lift (count_status results (lit ''success''))) (\<lambda>success_count.
     let failed_count = int (length results) - success_count in
     and_then (prints [ir_L356_pre @ str_of_nat (length results),
                       ir_L357_pre @ str_of_int success_count,
                       ir_L358_pre @ str_of_int failed_count])
    (and_then (if success_count > 0 then
                 bind (lift (sum_time_ms results 0)) (\<lambda>total_time.
                 let avg_time = total_time div success_count in
                 and_then (print (ir_L363_pre @ str_of_int avg_time @ lit ''ms''))
                (bind (lift (div1000_1f E (JInt total_time))) (\<lambda>seconds.
                 print (ir_L364_pre @ str_of_int total_time @ lit ''ms ('' @ seconds @ ir_L364_post))))
               else return ())
    (print (10 # rule70)))))"

definition batch_refresh :: "'w env \<Rightarrow> str \<Rightarrow> ('w, unit) prog" where
  "batch_refresh E server_url =
     and_then (prints [ir_L286, ir_L287, ir_L288, ir_L289, ir_L290, []])
    (bind (batch_read_urls E []) (\<lambda>urls.
     if urls = [] then print ir_L305
     else
       and_then (print (ir_L308_pre @ str_of_nat (length urls) @ ir_L308_post))
      (bind (batch_ask_proxy E) (\<lambda>proxy.
       bind (batch_loop E server_url proxy (length urls) 1 urls []) (\<lambda>results.
       and_then (batch_summary E results)
      (bind (get_yes_no E ir_L369) (\<lambda>save.
       run_if save (save_batch_results E results))))))))"

section \<open>quick\_refresh.py\<close>

subsection \<open>Message texts\<close>

(* "\n\u23f3 \u6b63\u5728\u5237\u65b0 " *)
definition qr_L19_pre :: str where
  "qr_L19_pre = [10, 9203, 32, 27491, 22312, 21047, 26032, 32]"

(* "   \u4ee3\u7406: " *)
definition qr_L21_pre :: str where
  "qr_L21_pre = lit ''   '' @ [20195, 29702, 58, 32]"

(* "   \u8bf7\u7a0d\u5019...\n" *)
definition qr_L22 :: str where
  "qr_L22 = lit ''   '' @ [35831, 31245, 20505] @ lit ''...'' @ [10]"

(* "\u2705 \u5237\u65b0\u6210\u529f\uff01\n" *)
definition qr_L37 :: str where
  "qr_L37 = [9989, 32, 21047, 26032, 25104, 21151, 65281, 10]"

(* "\u4e3b\u673a\u540d: " *)
definition qr_L39_pre :: str where
  "qr_L39_pre = [20027, 26426, 21517, 58, 32]"

(* "Cookie \u6570: " *)
definition qr_L40_pre :: str where
  "qr_L40_pre = lit ''Cookie '' @ [25968, 58, 32]"

(* " \u4e2a" *)
definition qr_L40_post :: str where
  "qr_L40_post = [32, 20010]"

(* "\u8017\u65f6: " *)
definition qr_L41_pre :: str where
  "qr_L41_pre = [32791, 26102, 58, 32]"

(* "\u79d2)" *)
definition qr_L41_post :: str where
  "qr_L41_post = [31186, 41]"

(* "\nUser-Agent: " *)
definition qr_L46_pre :: str where
  "qr_L46_pre = [10] @ lit ''User-Agent: ''"

(* "\n\U0001f4be \u662f\u5426\u4fdd\u5b58\u7ed3\u679c\u5230\u6587\u4ef6? (y/n): " *)
definition qr_L49 :: str where
  "qr_L49 = [10, 128190, 32, 26159, 21542, 20445, 23384, 32467, 26524, 21040, 25991, 20214] @ lit ''? (y/n): ''"

(* "\u2705 \u5df2\u4fdd\u5b58\u5230 cookie_" *)
definition qr_L53_pre :: str where
  "qr_L53_pre = [9989, 32, 24050, 20445, 23384, 21040] @ lit '' cookie_''"

(* "\u274c \u9519\u8bef: " *)
definition qr_L58_pre :: str where
  "qr_L58_pre = [10060, 32, 38169, 35823, 58, 32]"

(* "\u672a\u77e5\u9519\u8bef" *)
definition qr_unknown_error :: str where
  "qr_unknown_error = [26410, 30693, 38169, 35823]"

(* "\u274c \u8d85\u65f6 - \u5237\u65b0\u8017\u65f6\u8fc7\u957f" *)
definition qr_L62 :: str where
  "qr_L62 = [10060, 32, 36229, 26102] @ lit '' - '' @ [21047, 26032, 32791, 26102, 36807, 38271]"

(* "\u274c \u65e0\u6cd5\u8fde\u63a5\u5230\u670d\u52a1\u5668 (http://localhost:8000)" *)
definition qr_L65 :: str where
  "qr_L65 = [10060, 32, 26080, 27861, 36830, 25509, 21040, 26381, 21153, 22120] @ lit '' (http://localhost:8000)''"

(* "   \u8bf7\u786e\u4fdd\u670d\u52a1\u5668\u5df2\u542f\u52a8: python server.py" *)
definition qr_L66 :: str where
  "qr_L66 = lit ''   '' @ [35831, 30830, 20445, 26381, 21153, 22120, 24050, 21551, 21160] @ lit '': python server.py''"

(* "\u274c \u9519\u8bef: " *)
definition qr_L69_pre :: str where
  "qr_L69_pre = [10060, 32, 38169, 35823, 58, 32]"

(* "  Cloudflare Cookie \u5f3a\u5236\u5237\u65b0 - \u4ea4\u4e92\u5f0f\u5de5\u5177" *)
definition qr_L76 :: str where
  "qr_L76 = lit ''  Cloudflare Cookie '' @ [24378, 21046, 21047, 26032] @ lit '' - '' @ [20132, 20114, 24335, 24037, 20855]"

(* "\U0001f4cc \u8f93\u5165\u7f51\u5740 (\u6216 'quit' \u9000\u51fa): " *)
definition qr_L81 :: str where
  "qr_L81 = [128204, 32, 36755, 20837, 32593, 22336, 32, 40, 25110, 32, 39] @ lit ''quit'' @ [39, 32, 36864, 20986] @ lit ''): ''"

(* "\n\U0001f44b \u518d\u89c1\uff01\n" *)
definition qr_L84 :: str where
  "qr_L84 = [10, 128075, 32, 20877, 35265, 65281, 10]"

(* "\u274c \u7f51\u5740\u4e0d\u80fd\u4e3a\u7a7a\n" *)
definition qr_L88 :: str where
  "qr_L88 = [10060, 32, 32593, 22336, 19981, 33021, 20026, 31354, 10]"

(* "\u274c URL \u683c\u5f0f\u65e0\u6548\n" *)
definition qr_L99 :: str where
  "qr_L99 = [10060] @ lit '' URL '' @ [26684, 24335, 26080, 25928, 10]"

(* "\U0001f500 \u662f\u5426\u4f7f\u7528\u4ee3\u7406? (y/n): " *)
definition qr_L103 :: str where
  "qr_L103 = [128256, 32, 26159, 21542, 20351, 29992, 20195, 29702] @ lit ''? (y/n): ''"

(* "   \u4ee3\u7406\u5730\u5740 (\u5982 http://proxy:8080): " *)
definition qr_L107 :: str where
  "qr_L107 = lit ''   '' @ [20195, 29702, 22320, 22336, 32, 40, 22914] @ lit '' http://proxy:8080): ''"

(* "\u274c \u4ee3\u7406\u683c\u5f0f\u9519\u8bef\n" *)
definition qr_L111 :: str where
  "qr_L111 = [10060, 32, 20195, 29702, 26684, 24335, 38169, 35823, 10]"

(* "\n\u25b6\ufe0f \u7ee7\u7eed\u5237\u65b0\u5176\u4ed6\u7f51\u5740? (y/n): " *)
definition qr_L119 :: str where
  "qr_L119 = [10, 9654, 65039, 32, 32487, 32493, 21047, 26032, 20854, 20182, 32593, 22336] @ lit ''? (y/n): ''"

(* "\n\u25b6\ufe0f \u91cd\u8bd5? (y/n): " *)
definition qr_L125 :: str where
  "qr_L125 = [10, 9654, 65039, 32, 37325, 35797] @ lit ''? (y/n): ''"

(* "\n\U0001f44b \u518d\u89c1\uff01\n" *)
definition qr_L121 :: str where
  "qr_L121 = [10, 128075, 32, 20877, 35265, 65281, 10]"

(* "\n\U0001f44b \u518d\u89c1\uff01\n" *)
definition qr_L127 :: str where
  "qr_L127 = [10, 128075, 32, 20877, 35265, 65281, 10]"

subsection \<open>Refresh and display\<close>

definition rule50 :: str where
  "rule50 = replicate 50 9473"

text \<open>\<open>v[:n]\<close> on a value out of a JSON body.\<close>

definition slice_to :: "nat \<Rightarrow> json \<Rightarrow> exn + json" where
  "slice_to n v =
     (case v of
        JStr s \<Rightarrow> Inr (JStr (take n s))
      | JList xs \<Rightarrow> Inr (JList (take n xs))
      | JObj d \<Rightarrow> Inl (Exn TypeError (lit ''unhashable type: '' @ quoted (lit ''slice'')))
      | _ \<Rightarrow> Inl (not_subscriptable v))"

text \<open>
  Lines 49 to 53 of \<open>refresh_and_display\<close>: on confirmation the response body is
  written as it is to a file named after the network location of the URL.
\<close>

definition quick_save :: "'w env \<Rightarrow> str \<Rightarrow> json \<Rightarrow> ('w, unit) prog" where
  "quick_save E url result =
     bind (input qr_L49) (\<lambda>line.
     let save = str_lower E (py_strip line) in
     if save \<in> set [lit ''y'', lit ''yes'', lit ''1'']
     then bind (lift (urlparse E url)) (\<lambda>parts.
          and_then (dump_json E (lit ''cookie_'' @ netloc parts @ lit ''.json'') result)
         (print (qr_L53_pre @ netloc parts @ lit ''.json'')))
     else return ())"

text \<open>Lines 34 to 55 of \<open>refresh_and_display\<close>: the branch of status 200.\<close>

definition quick_show_result :: "'w env \<Rightarrow> str \<Rightarrow> json \<Rightarrow> ('w, bool) prog" where
  "quick_show_result E url result =
     and_then (prints [qr_L37, rule50])
    (bind (lift (obj_get_or result (lit ''hostname'') JNull)) (\<lambda>hostname.
     and_then (print (qr_L39_pre @ py_str E hostname))
    (bind (lift (obj_get_or result (lit ''cookies_count'') JNull)) (\<lambda>cookies_count.
     and_then (print (qr_L40_pre @ py_str E cookies_count @ qr_L40_post))
    (bind (lift (obj_get_or result (lit ''generation_time_ms'') JNull)) (\<lambda>generation_time.
     bind (lift (div1000_1f E generation_time)) (\<lambda>seconds.
     and_then (prints [qr_L41_pre @ py_str E generation_time @ lit ''ms ('' @ seconds @ qr_L41_post, rule50])
    (bind (lift (obj_get_or result (lit ''user_agent'') JNull)) (\<lambda>user_agent.
     and_then (if truthy user_agent
               then bind (lift (slice_to 60 user_agent)) (\<lambda>ua.
                    print (qr_L46_pre @ py_str E ua @ lit ''...''))
               else return ())
    (and_then (quick_save E url result)
    (return True)))))))))))"

text \<open>Lines 19 to 22 of \<open>refresh_and_display\<close>: printed before the request.\<close>

definition refresh_and_display_announce :: "str \<Rightarrow> str option \<Rightarrow> ('w, unit) prog" where
  "refresh_and_display_announce url proxy =
     and_then (print (qr_L19_pre @ url @ lit ''...''))
    (and_then (case proxy of None \<Rightarrow> return ()
                 | Some p \<Rightarrow> run_if (p \<noteq> []) (print (qr_L21_pre @ p)))
    (print qr_L22))"

text \<open>The request of lines 28 to 32.\<close>

definition quick_request :: "str \<Rightarrow> str option \<Rightarrow> request" where
  "quick_request url proxy =
     Post (lit ''http://localhost:8000/cache/refresh'') (refresh_params url proxy) (Some 120)"

definition refresh_and_display_try :: "'w env \<Rightarrow> str \<Rightarrow> str option \<Rightarrow> ('w, bool) prog" where
  "refresh_and_display_try E url proxy =
     and_then (refresh_and_display_announce url proxy)
    (bind (http_call E (quick_request url proxy))
       (\<lambda>(status, body).
          if status = 200 then bind (lift body) (quick_show_result E url)
          else
            bind (lift body) (\<lambda>error.
            bind (lift (obj_get_or error (lit ''detail'') (JStr qr_unknown_error))) (\<lambda>detail.
            and_then (print (qr_L58_pre @ py_str E detail))
           (return False)))))"

definition refresh_and_display_except :: "exn \<Rightarrow> ('w, bool) prog" where
  "refresh_and_display_except e =
     (case exn_class e of
        TimeoutError \<Rightarrow> and_then (print qr_L62) (return False)
      | ClientConnectorError \<Rightarrow> and_then (prints [qr_L65, qr_L66]) (return False)
      | _ \<Rightarrow> and_then (print (qr_L69_pre @ exn_text e)) (return False))"

definition refresh_and_display :: "'w env \<Rightarrow> str \<Rightarrow> str option \<Rightarrow> ('w, bool) prog" where
  "refresh_and_display E url proxy =
     try_except (refresh_and_display_try E url proxy) refresh_and_display_except"

subsection \<open>One round of the loop of main\<close>

text \<open>Lines 92 and 93 of \<open>main\<close>: the normalization, written in place.\<close>

definition main_format_url :: "str \<Rightarrow> str" where
  "main_format_url url =
     (if \<not> startswith url [lit ''http://'', lit ''https://''] then lit ''https://'' @ url else url)"

text \<open>
  Lines 103 to 112: the proxy; \<open>Inl ()\<close> is the \<open>continue\<close> after a proxy of the
  wrong form.
\<close>

definition main_ask_proxy :: "'w env \<Rightarrow> ('w, unit + str option) prog" where
  "main_ask_proxy E =
     bind (input qr_L103) (\<lambda>line.
     let use_proxy = str_lower E (py_strip line) in
     if use_proxy \<in> set [lit ''y'', lit ''yes'', lit ''1''] then
       bind (input qr_L107) (\<lambda>line2.
       let proxy = py_strip line2 in
       if proxy = [] then return (Inr None)
       else if \<not> startswith proxy proxy_schemes then and_then (print qr_L111) (return (Inl ()))
       else return (Inr (Some proxy)))
     else return (Inr None))"

text \<open>
  Lines 80 to 130: the body of \<open>while True\<close>; the result is \<open>True\<close> when the loop
  goes on (\<open>continue\<close> or the end of the body) and \<open>False\<close> at a \<open>break\<close>.
\<close>

definition main_iteration :: "'w env \<Rightarrow> ('w, bool) prog" where
  "main_iteration E =
     bind (input qr_L81) (\<lambda>line.
     let url = py_strip line in
     if str_lower E url \<in> set [lit ''quit'', lit ''exit'', lit ''q'']
     then and_then (print qr_L84) (return False)
     else if url = [] then and_then (print qr_L88) (return True)
     else
       let url = main_format_url url in
       (case urlparse E url of
          Inl e \<Rightarrow> and_then (print qr_L99) (return True)
        | Inr parts \<Rightarrow>
            bind (main_ask_proxy E) (\<lambda>p.
            case p of
              Inl u \<Rightarrow> return True
            | Inr proxy \<Rightarrow>
                bind (refresh_and_display E url proxy) (\<lambda>success.
                bind (input (if success then qr_L119 else qr_L125)) (\<lambda>line4.
                let cont = str_lower E (py_strip line4) in
                if cont \<notin> set [lit ''y'', lit ''yes'', lit ''1'']
                then and_then (print (if success then qr_L121 else qr_L127)) (return False)
                else and_then (print []) (return True))))))"

section \<open>refresh\_example.py\<close>

subsection \<open>Message texts\<close>

(* "\u274c \u5237\u65b0\u5931\u8d25 (\u72b6\u6001\u7801: " *)
definition ex_L48_pre :: str where
  "ex_L48_pre = [10060, 32, 21047, 26032, 22833, 36133, 32, 40, 29366, 24577, 30721, 58, 32]"

(* "   \u9519\u8bef: " *)
definition ex_L49_pre :: str where
  "ex_L49_pre = lit ''   '' @ [38169, 35823, 58, 32]"

(* "\u672a\u77e5\u9519\u8bef" *)
definition ex_unknown_error :: str where
  "ex_unknown_error = [26410, 30693, 38169, 35823]"

(* "\u274c \u8bf7\u6c42\u5931\u8d25: " *)
definition ex_L52_pre :: str where
  "ex_L52_pre = [10060, 32, 35831, 27714, 22833, 36133, 58, 32]"

(* "\u6f14\u793a 1: \u57fa\u7840 Cookie \u5237\u65b0" *)
definition ex_L102 :: str where
  "ex_L102 = [28436, 31034] @ lit '' 1: '' @ [22522, 30784] @ lit '' Cookie '' @ [21047, 26032]"

(* "\n\U0001f4cc \u76ee\u6807\u7f51\u5740: " *)
definition ex_L108_pre :: str where
  "ex_L108_pre = [10, 128204, 32, 30446, 26631, 32593, 22336, 58, 32]"

(* "\n\u23f3 \u6b63\u5728\u5f3a\u5236\u5237\u65b0 Cookie (\u8fd9\u53ef\u80fd\u9700\u8981 10-30 \u79d2)...\n" *)
definition ex_L109 :: str where
  "ex_L109 = [10, 9203, 32, 27491, 22312, 24378, 21046, 21047, 26032] @ lit '' Cookie ('' @ [36825, 21487, 33021, 38656, 35201] @ lit '' 10-30 '' @ [31186] @ lit '')...'' @ [10]"

(* "\u2705 \u5237\u65b0\u6210\u529f!" *)
definition ex_L114 :: str where
  "ex_L114 = [9989, 32, 21047, 26032, 25104, 21151, 33]"

(* "   \u4e3b\u673a\u540d: " *)
definition ex_L115_pre :: str where
  "ex_L115_pre = lit ''   '' @ [20027, 26426, 21517, 58, 32]"

(* "   Cookie \u6570: " *)
definition ex_L116_pre :: str where
  "ex_L116_pre = lit ''   Cookie '' @ [25968, 58, 32]"

(* "   \u8017\u65f6: " *)
definition ex_L117_pre :: str where
  "ex_L117_pre = lit ''   '' @ [32791, 26102, 58, 32]"

(* "   User-Agent: " *)
definition ex_L118_pre :: str where
  "ex_L118_pre = lit ''   User-Agent: ''"

(* "\u274c \u5237\u65b0\u5931\u8d25" *)
definition ex_L120 :: str where
  "ex_L120 = [10060, 32, 21047, 26032, 22833, 36133]"

(* "\u6f14\u793a 2: \u591a\u4e2a\u7f51\u5740\u5237\u65b0\uff08\u987a\u5e8f\u6267\u884c\uff09" *)
definition ex_L126 :: str where
  "ex_L126 = [28436, 31034] @ lit '' 2: '' @ [22810, 20010, 32593, 22336, 21047, 26032, 65288, 39034, 24207, 25191, 34892, 65289]"

(* "\n\U0001f4cc \u6b63\u5728\u5237\u65b0: " *)
definition ex_L136_pre :: str where
  "ex_L136_pre = [10, 128204, 32, 27491, 22312, 21047, 26032, 58, 32]"

(* "   \u2705 \u6210\u529f - " *)
definition ex_L140_pre :: str where
  "ex_L140_pre = lit ''   '' @ [9989, 32, 25104, 21151] @ lit '' - ''"

(* " \u4e2a Cookie - " *)
definition ex_L140_mid :: str where
  "ex_L140_mid = [32, 20010] @ lit '' Cookie - ''"

(* "   \u274c \u5931\u8d25" *)
definition ex_L142 :: str where
  "ex_L142 = lit ''   '' @ [10060, 32, 22833, 36133]"

(* "   \u23f3 \u7b49\u5f85 2 \u79d2..." *)
definition ex_L144 :: str where
  "ex_L144 = lit ''   '' @ [9203, 32, 31561, 24453] @ lit '' 2 '' @ [31186] @ lit ''...''"

subsection \<open>CacheFreshener\<close>

definition rule60 :: str where
  "rule60 = replicate 60 61"

text \<open>
  \<open>CacheFreshener.refresh_cookies\<close>: no timeout is passed, and one handler takes
  every exception.
\<close>

definition freshener_request :: "str \<Rightarrow> str \<Rightarrow> str option \<Rightarrow> request" where
  "freshener_request server_url url proxy =
     Post (server_url @ lit ''/cache/refresh'') (refresh_params url proxy) None"

definition freshener_refresh_try :: "'w env \<Rightarrow> str \<Rightarrow> str \<Rightarrow> str option \<Rightarrow> ('w, json option) prog" where
  "freshener_refresh_try E server_url url proxy =
     bind (http_call E (freshener_request server_url url proxy))
       (\<lambda>(status, body).
          if status = 200 then bind (lift body) (\<lambda>j. return (Some j))
          else
            bind (lift body) (\<lambda>error.
            and_then (print (ex_L48_pre @ str_of_int status @ lit '')''))
           (bind (lift (obj_get_or error (lit ''detail'') (JStr ex_unknown_error))) (\<lambda>detail.
            and_then (print (ex_L49_pre @ py_str E detail))
           (return None)))))"

definition freshener_refresh_cookies :: "'w env \<Rightarrow> str \<Rightarrow> str \<Rightarrow> str option \<Rightarrow> ('w, json option) prog" where
  "freshener_refresh_cookies E server_url url proxy =
     try_except (freshener_refresh_try E server_url url proxy)
       (\<lambda>e. and_then (print (ex_L52_pre @ exn_text e)) (return None))"

subsection \<open>Demos\<close>

text \<open>\<open>v[k]\<close> with a str key \<open>k\<close>.\<close>

definition subscript :: "json \<Rightarrow> str \<Rightarrow> exn + json" where
  "subscript v k =
     (case v of
        JObj d \<Rightarrow> (case map_of d k of None \<Rightarrow> Inl (key_error k) | Some x \<Rightarrow> Inr x)
      | JStr s \<Rightarrow> Inl (Exn TypeError (lit ''string indices must be integers, not '' @ quoted (lit ''str'')))
      | JList xs \<Rightarrow> Inl (Exn TypeError (lit ''list indices must be integers or slices, not str''))
      | _ \<Rightarrow> Inl (not_subscriptable v))"

text \<open>
  \<open>result and result["status"] == "success"\<close>, the test of the demos: \<open>KeyError\<close>
  for a non-empty dict without \<open>status\<close>.
\<close>

definition success_check_subscript :: "json option \<Rightarrow> exn + json option" where
  "success_check_subscript result =
     (case result of
        None \<Rightarrow> Inr None
      | Some v \<Rightarrow>
          if \<not> truthy v then Inr None
          else (case subscript v (lit ''status'') of
                  Inl e \<Rightarrow> Inl e
                | Inr st \<Rightarrow> Inr (if st = JStr (lit ''success'') then Some v else None)))"

definition demo_basic_refresh :: "'w env \<Rightarrow> ('w, unit) prog" where
  "demo_basic_refresh E =
     (let url = lit ''https://javdb.com'' in
      and_then (prints [rule60, ex_L102, rule60, ex_L108_pre @ url, ex_L109])
     (bind (freshener_refresh_cookies E default_server_url url None) (\<lambda>result.
      bind (lift (success_check_subscript result)) (\<lambda>ok.
      case ok of
        Some r \<Rightarrow>
          and_then (print ex_L114)
         (bind (lift (subscript r (lit ''hostname''))) (\<lambda>hostname.
          and_then (print (ex_L115_pre @ py_str E hostname))
         (bind (lift (subscript r (lit ''cookies_count''))) (\<lambda>cookies_count.
          and_then (print (ex_L116_pre @ py_str E cookies_count))
         (bind (lift (subscript r (lit ''generation_time_ms''))) (\<lambda>generation_time.
          and_then (print (ex_L117_pre @ py_str E generation_time @ lit ''ms''))
         (bind (lift (subscript r (lit ''user_agent''))) (\<lambda>user_agent.
          bind (lift (slice_to 50 user_agent)) (\<lambda>ua.
          print (ex_L118_pre @ py_str E ua @ lit ''...''))))))))))
      | None \<Rightarrow> print ex_L120))))"

text \<open>Lines 135 to 145 of \<open>demo_multiple_refreshes\<close>: the loop \<open>for url in urls\<close>.\<close>

fun demo_loop :: "'w env \<Rightarrow> str list \<Rightarrow> ('w, unit) prog" where
  "demo_loop E [] = return ()"
| "demo_loop E (url # rest) =
     and_then (print (ex_L136_pre @ url))
    (bind (freshener_refresh_cookies E default_server_url url None) (\<lambda>result.
     bind (lift (success_check_subscript result)) (\<lambda>ok.
     and_then (case ok of
                 Some r \<Rightarrow>
                   bind (lift (subscript r (lit ''cookies_count''))) (\<lambda>cookies_count.
                   bind (lift (subscript r (lit ''generation_time_ms''))) (\<lambda>generation_time.
                   print (ex_L140_pre @ py_str E cookies_count @ ex_L140_mid
                          @ py_str E generation_time @ lit ''ms'')))
               | None \<Rightarrow> print ex_L142)
    (and_then (print ex_L144)
    (and_then (sleep 2)
    (demo_loop E rest))))))"

definition demo_urls :: "str list" where
  "demo_urls = [lit ''https://example.com'', lit ''https://test-site.com'']"

definition demo_multiple_refreshes :: "'w env \<Rightarrow> ('w, unit) prog" where
  "demo_multiple_refreshes E =
     and_then (prints [10 # rule60, ex_L126, rule60])
    (demo_loop E demo_urls)"

section \<open>A concrete environment for the examples\<close>

text \<open>
  The theorems below hold for every environment. Their instances at concrete inputs
  run in \<open>test_env\<close>: the service answers from a scripted list of outcomes, the clock
  stands still, every file can be written, and the library functions are the
  following models.
\<close>

definition ascii_lower :: "str \<Rightarrow> str" where
  "ascii_lower s = map (\<lambda>c. if 65 \<le> c \<and> c \<le> 90 then c + 32 else c) s"

definition scheme_char :: "nat \<Rightarrow> bool" where
  "scheme_char c = ((97 \<le> c \<and> c \<le> 122) \<or> (65 \<le> c \<and> c \<le> 90) \<or> (48 \<le> c \<and> c \<le> 57)
     \<or> c = 43 \<or> c = 45 \<or> c = 46)"

definition ascii_alpha :: "nat \<Rightarrow> bool" where
  "ascii_alpha c = ((97 \<le> c \<and> c \<le> 122) \<or> (65 \<le> c \<and> c \<le> 90))"

text \<open>
  The scheme and network location as \<open>urllib.parse.urlsplit\<close> of CPython 3 finds
  them: leading control characters and spaces and every tab, CR and LF are removed;
  the text before the first colon is the scheme when it starts with an ASCII letter
  and consists of scheme characters; after \<open>//\<close> the network location runs to the
  first \<open>/\<close>, \<open>?\<close> or \<open>#\<close>; unbalanced brackets in it raise \<open>ValueError\<close>. The further
  checks of the library (a bracketed host that is no IP address, characters that
  normalize to a delimiter) are not modelled.
\<close>

definition urlparse_model :: "str \<Rightarrow> exn + url_parts" where
  "urlparse_model url0 =
     (let url = filter (\<lambda>c. c \<noteq> 9 \<and> c \<noteq> 10 \<and> c \<noteq> 13) (dropWhile (\<lambda>c. c \<le> 32) url0);
          pre = takeWhile (\<lambda>c. c \<noteq> 58) url;
          has_scheme = (length pre < length url \<and> pre \<noteq> [] \<and> ascii_alpha (hd pre) \<and> list_all scheme_char pre);
          sch = (if has_scheme then ascii_lower pre else []);
          rest = (if has_scheme then drop (length pre + 1) url else url)
      in if take 2 rest = lit ''//''
         then (let loc = takeWhile (\<lambda>c. c \<noteq> 47 \<and> c \<noteq> 63 \<and> c \<noteq> 35) (drop 2 rest)
               in if (91 \<in> set loc) \<noteq> (93 \<in> set loc)
                  then Inl (Exn ValueError (lit ''Invalid IPv6 URL''))
                  else Inr \<lparr>scheme = sch, netloc = loc\<rparr>)
         else Inr \<lparr>scheme = sch, netloc = []\<rparr>)"

text \<open>
  \<open>f"{n/1000:.1f}"\<close> for \<open>n \<ge> 0\<close>, rounding the exact quotient half up; Python
  rounds the nearest double instead, which gives the same digits whenever \<open>n\<close> is a
  multiple of 100.
\<close>

definition fmt_1f_model :: "int \<Rightarrow> str" where
  "fmt_1f_model n =
     (let tenths = (n + 50) div 100
      in str_of_int (tenths div 10) @ lit ''.'' @ str_of_int (tenths mod 10))"

text \<open>The connection failure when nothing listens on port 8000 of the local host.\<close>

definition refused :: exn where
  "refused =
     connector_error (lit ''localhost'') (lit ''8000'') (lit ''default'')
       (lit ''Connect call failed ('' @ quoted (lit ''127.0.0.1'') @ lit '', 8000)'')"

text \<open>The scripted service: one outcome per request, and no service once the list is used up.\<close>

definition scripted_http :: "http_outcome list \<Rightarrow> request \<Rightarrow> http_outcome \<times> http_outcome list" where
  "scripted_http w rq =
     (case w of
        [] \<Rightarrow> (Raised refused, [])
      | out # rest \<Rightarrow> (out, rest))"

definition test_time :: datetime where
  "test_time = \<lparr>dt_year = 2024, dt_month = 3, dt_day = 7, dt_hour = 9, dt_minute = 5,
                 dt_second = 30, dt_microsecond = 123456\<rparr>"

definition test_env :: "(http_outcome list) env" where
  "test_env =
     \<lparr>urlparse = urlparse_model,
      str_lower = ascii_lower,
      py_repr = (\<lambda>v. lit ''(repr)''),
      fmt_1f_div1000 = fmt_1f_model,
      http = scripted_http,
      clock_now = (\<lambda>w. (test_time, w)),
      file_dump = (\<lambda>w name doc. (None, w))\<rparr>"

definition start :: "str list \<Rightarrow> 'w \<Rightarrow> 'w state" where
  "start lines w = \<lparr>stdin = lines, events = [], world = w\<rparr>"

section \<open>Vocabulary of the statements and example data\<close>

text \<open>
  The notions the theorems below are stated with, and the concrete bodies, answers
  and inputs of their instances.
\<close>

subsection \<open>Requests and pauses\<close>

text \<open>The requests and the pauses of a run, in order; everything else is left out.\<close>

fun is_net :: "event \<Rightarrow> bool" where
  "is_net (Http rq) = True"
| "is_net (Sleep n) = True"
| "is_net ev = False"

definition net_trace :: "event list \<Rightarrow> event list" where
  "net_trace evs = filter is_net evs"

fun is_http :: "event \<Rightarrow> bool" where
  "is_http (Http rq) = True"
| "is_http ev = False"

text \<open>
  The spec's words for the batch: one call per URL in input order, and a pause of
  2 seconds between two consecutive calls, none after the last.
\<close>

fun with_pauses :: "event list \<Rightarrow> event list" where
  "with_pauses [] = []"
| "with_pauses [c] = [c]"
| "with_pauses (c # c' # cs) = c # Sleep 2 # with_pauses (c' # cs)"

text \<open>What the demo does instead: a pause after every call.\<close>

fun pause_after_each :: "event list \<Rightarrow> event list" where
  "pause_after_each [] = []"
| "pause_after_each (c # cs) = c # Sleep 2 # pause_after_each cs"

text \<open>The requests and pauses of the loop of \<open>batch_refresh\<close> from index \<open>i\<close> on.\<close>

fun loop_trace :: "str \<Rightarrow> str option \<Rightarrow> nat \<Rightarrow> nat \<Rightarrow> str list \<Rightarrow> event list" where
  "loop_trace server_url proxy n i [] = []"
| "loop_trace server_url proxy n i (u # us) =
     Http (refresh_request server_url u proxy) # (if i < n then [Sleep 2] else [])
     @ loop_trace server_url proxy n (Suc i) us"

text \<open>
  The service's contract (section 6 of the spec), as far as the loops depend on it:
  a 200 answer to a refresh is a JSON object; for the demo, which subscripts the
  object, it also has a \<open>status\<close>, and \<open>cookies_count\<close> and \<open>generation_time_ms\<close>
  when the status is \<open>success\<close>.
\<close>

definition answers_objects :: "'w env \<Rightarrow> bool" where
  "answers_objects E = (\<forall>w rq b w'. http E w rq = (Response 200 (Inr b), w') \<longrightarrow> (\<exists>d. b = JObj d))"

definition result_fields_present :: "json \<Rightarrow> bool" where
  "result_fields_present b =
     (case b of
        JObj d \<Rightarrow>
          (case map_of d (lit ''status'') of
             None \<Rightarrow> False
           | Some st \<Rightarrow>
               st = JStr (lit ''success'') \<longrightarrow>
                 map_of d (lit ''cookies_count'') \<noteq> None \<and> map_of d (lit ''generation_time_ms'') \<noteq> None)
      | _ \<Rightarrow> False)"

definition answers_results :: "'w env \<Rightarrow> bool" where
  "answers_results E =
     (\<forall>w rq b w'. http E w rq = (Response 200 (Inr b), w') \<longrightarrow> result_fields_present b)"

subsection \<open>Failures of the request\<close>

text \<open>
  The exception that ends the request: raised by the call itself, or by
  \<open>resp.json()\<close> while the answer is read.
\<close>

fun raised_by :: "http_outcome \<Rightarrow> exn option" where
  "raised_by (Raised e) = Some e"
| "raised_by (Response status (Inl e)) = Some e"
| "raised_by (Response status (Inr j)) = None"

subsection \<open>Lines shown\<close>

text \<open>A line printed that contains the text \<open>t\<close>.\<close>

fun shows_text :: "str \<Rightarrow> event \<Rightarrow> bool" where
  "shows_text t (Print l) = sublist t l"
| "shows_text t ev = False"

subsection \<open>Batch records\<close>

text \<open>The number of records whose \<open>status\<close> is the string \<open>k\<close>.\<close>

definition status_count :: "str \<Rightarrow> pydict list \<Rightarrow> nat" where
  "status_count k rs = length (filter (\<lambda>r. dict_get r (lit ''status'') = JStr k) rs)"

definition batch_record :: "pydict \<Rightarrow> bool" where
  "batch_record r =
     (map_of r (lit ''status'') = Some (JStr (lit ''success''))
      \<or> map_of r (lit ''status'') = Some (JStr (lit ''failed'')))"

subsection \<open>The cookie display in the words of the spec\<close>

text \<open>
  The display in the spec's words. A cookie set is a list of names and values with
  distinct names; its Cloudflare section holds the cookies whose name starts with
  \<open>cf_\<close> or \<open>__cf\<close>, in their order, and the other section the rest; a value of more
  than 40 characters is shown as its first 40 followed by three dots; the other
  section shows its first five cookies and, when there are more, how many remain.
\<close>

definition cookie_set :: "(str \<times> str) list \<Rightarrow> json" where
  "cookie_set cookies = JObj (map (\<lambda>c. (fst c, JStr (snd c))) cookies)"

definition shorten :: "str \<Rightarrow> str" where
  "shorten v = (if 40 < length v then take 40 v @ lit ''...'' else v)"

definition cookie_line :: "str \<times> str \<Rightarrow> str" where
  "cookie_line c = ir_bullet @ fst c @ lit '': '' @ shorten (snd c)"

definition cf_section :: "(str \<times> str) list \<Rightarrow> (str \<times> str) list" where
  "cf_section cookies = filter (\<lambda>c. is_cf_name (fst c)) cookies"

definition other_section :: "(str \<times> str) list \<Rightarrow> (str \<times> str) list" where
  "other_section cookies = filter (\<lambda>c. \<not> is_cf_name (fst c)) cookies"

definition cookie_display :: "str \<Rightarrow> (str \<times> str) list \<Rightarrow> str list" where
  "cookie_display hostname cookies =
     [10 # rule70, ir_L125, rule70, ir_L129_pre @ hostname,
      ir_L130_pre @ str_of_nat (length cookies) @ [10]]
     @ (if cf_section cookies = [] then []
        else ir_L144 # map cookie_line (cf_section cookies))
     @ (if other_section cookies = [] then []
        else (ir_L151_pre @ str_of_nat (length (other_section cookies)) @ ir_L151_post)
             # map cookie_line (take 5 (other_section cookies))
             @ (if 5 < length (other_section cookies)
                then [ir_L157_pre @ str_of_nat (length (other_section cookies) - 5) @ ir_L157_post]
                else []))
     @ [10 # rule70]"

subsection \<open>ISO 8601\<close>

text \<open>
  The shape of an ISO 8601 date and time as \<open>isoformat\<close> writes it:
  \<open>YYYY-MM-DDTHH:MM:SS\<close>, with \<open>.ffffff\<close> after it when the microseconds are not 0.
\<close>

datatype pat = Digit | Ch nat

fun matches :: "pat list \<Rightarrow> str \<Rightarrow> bool" where
  "matches [] [] = True"
| "matches (Digit # ps) (c # cs) = (48 \<le> c \<and> c \<le> 57 \<and> matches ps cs)"
| "matches (Ch k # ps) (c # cs) = (c = k \<and> matches ps cs)"
| "matches ps cs = False"

definition seconds_pattern :: "pat list" where
  "seconds_pattern =
     replicate 4 Digit @ [Ch 45] @ replicate 2 Digit @ [Ch 45] @ replicate 2 Digit @ [Ch 84]
     @ replicate 2 Digit @ [Ch 58] @ replicate 2 Digit @ [Ch 58] @ replicate 2 Digit"

definition iso8601_datetime :: "str \<Rightarrow> bool" where
  "iso8601_datetime s =
     (matches seconds_pattern s \<or> matches (seconds_pattern @ [Ch 46] @ replicate 6 Digit) s)"

text \<open>The ranges of the fields of a Python \<open>datetime\<close>.\<close>

definition valid_datetime :: "datetime \<Rightarrow> bool" where
  "valid_datetime t =
     (1 \<le> dt_year t \<and> dt_year t \<le> 9999 \<and> 1 \<le> dt_month t \<and> dt_month t \<le> 12
      \<and> 1 \<le> dt_day t \<and> dt_day t \<le> 31 \<and> dt_hour t < 24 \<and> dt_minute t < 60 \<and> dt_second t < 60
      \<and> dt_microsecond t < 1000000)"

subsection \<open>Example data\<close>

definition rate_limited :: http_outcome where
  "rate_limited = Response 429 (Inr (JObj [(lit ''detail'', JStr (lit ''rate limited''))]))"

definition timed_out :: http_outcome where
  "timed_out = Raised (timeout_error TotalTimeout)"

definition unreachable :: http_outcome where
  "unreachable = Raised refused"

definition ok_body :: pydict where
  "ok_body = [(lit ''status'', JStr (lit ''success'')),
              (lit ''hostname'', JStr (lit ''example.com'')),
              (lit ''cookies_count'', JInt 5),
              (lit ''user_agent'', JStr (lit ''UA'')),
              (lit ''generation_time_ms'', JInt 1500)]"

definition ok_response :: http_outcome where
  "ok_response = Response 200 (Inr (JObj ok_body))"

definition error_status_response :: http_outcome where
  "error_status_response = Response 200 (Inr (JObj [(lit ''status'', JStr (lit ''error''))]))"

definition body_without_time :: pydict where
  "body_without_time = [(lit ''status'', JStr (lit ''success'')),
                        (lit ''hostname'', JStr (lit ''example.com'')),
                        (lit ''cookies_count'', JInt 5)]"

definition string_error_response :: http_outcome where
  "string_error_response = Response 500 (Inr (JStr (lit ''Internal Server Error'')))"

text \<open>A service that gives the same answer to every request.\<close>

definition steady_env :: "http_outcome \<Rightarrow> (http_outcome list) env" where
  "steady_env out = test_env\<lparr>http := (\<lambda>w rq. (out, w))\<rparr>"

definition demo_basic_header :: "event list" where
  "demo_basic_header =
     [Print rule60, Print ex_L102, Print rule60,
      Print (ex_L108_pre @ lit ''https://javdb.com''), Print ex_L109]"

definition example_cookies :: "(str \<times> str) list" where
  "example_cookies =
     [(lit ''cf_clearance'', replicate 45 97), (lit ''session'', lit ''xyz''), (lit ''__cf_bm'', lit ''b''),
      (lit ''a'', lit ''1''), (lit ''b'', lit ''2''), (lit ''c'', lit ''3''), (lit ''d'', lit ''4''),
      (lit ''e'', lit ''5'')]"

section \<open>URL normalization\<close>

lemma startswith_schemes:
  "startswith url [lit ''http://'', lit ''https://'']
     = (prefix (lit ''http://'') url \<or> prefix (lit ''https://'') url)"
  by (simp add: startswith_def)

text \<open>
  C2. \<open>format_url\<close> returns a string that starts with \<open>http://\<close> or \<open>https://\<close>
  unchanged, and every other string with \<open>https://\<close> in front of it, once: the
  result differs from the input exactly when the input has neither prefix, and
  normalizing the result again changes nothing. The normalization written in place
  in \<open>main\<close> of quick\_refresh.py is the same function.
\<close>

theorem format_url_prepends_once:
  "(startswith url [lit ''http://'', lit ''https://''] \<longrightarrow> format_url url = url)
   \<and> (\<not> startswith url [lit ''http://'', lit ''https://''] \<longrightarrow> format_url url = lit ''https://'' @ url)
   \<and> ((format_url url \<noteq> url) = (\<not> startswith url [lit ''http://'', lit ''https://'']))
   \<and> format_url (format_url url) = format_url url
   \<and> main_format_url url = format_url url"
  by (auto simp: format_url_def main_format_url_def startswith_schemes)

theorem format_url_prepends_once_witness:
  "format_url (lit ''example.com'') = lit ''https://example.com''
   \<and> format_url (lit ''http://a.com'') = lit ''http://a.com''
   \<and> format_url (lit ''https://a.com'') = lit ''https://a.com''
   \<and> main_format_url (lit ''example.com'') = lit ''https://example.com''"
  using format_url_prepends_once [of "lit ''example.com''"]
        format_url_prepends_once [of "lit ''http://a.com''"]
        format_url_prepends_once [of "lit ''https://a.com''"]
  by (simp add: startswith_def lit_def)

section \<open>The refresh clients, step by step\<close>

lemmas prog_defs = return_def raise_def bind_def and_then_def try_except_def lift_def
  emit_def print_def sleep_def run_if_def http_call_def

lemma refresh_cookies_announce_ok:
  "world (snd (refresh_cookies_announce url proxy s)) = world s"
  "stdin (snd (refresh_cookies_announce url proxy s)) = stdin s"
  "fst (refresh_cookies_announce url proxy s) = Inr ()"
  by (auto simp: refresh_cookies_announce_def prog_defs split: option.splits)

lemma refresh_and_display_announce_ok:
  "world (snd (refresh_and_display_announce url proxy s)) = world s"
  "stdin (snd (refresh_and_display_announce url proxy s)) = stdin s"
  "fst (refresh_and_display_announce url proxy s) = Inr ()"
  by (auto simp: refresh_and_display_announce_def prog_defs split: option.splits)

text \<open>
  What \<open>refresh_cookies\<close> does, by the outcome of its request: \<open>s1\<close> is the state
  after the lines printed before the request and \<open>s2\<close> the state after the request.
\<close>

lemma refresh_cookies_run:
  "refresh_cookies E server_url url proxy s =
     (let s1 = snd (refresh_cookies_announce url proxy s);
          (out, w') = http E (world s) (refresh_request server_url url proxy);
          s2 = s1\<lparr>events := events s1 @ [Http (refresh_request server_url url proxy)], world := w'\<rparr>
      in case out of
           Raised e \<Rightarrow> refresh_cookies_except server_url e s2
         | Response status body \<Rightarrow>
             (case body of
                Inl e \<Rightarrow> refresh_cookies_except server_url e s2
              | Inr j \<Rightarrow>
                  if status = 200 then (Inr (Some j), s2)
                  else
                    (let s3 = s2\<lparr>events := events s2 @ [Print (ir_L61_pre @ str_of_int status @ lit '')'')]\<rparr>
                     in case obj_get_or j (lit ''detail'') (JStr ir_unknown_error) of
                          Inl e \<Rightarrow> refresh_cookies_except server_url e s3
                        | Inr detail \<Rightarrow>
                            (Inr None, s3\<lparr>events := events s3 @ [Print (lit ''   '' @ py_str E detail)]\<rparr>))))"
  using refresh_cookies_announce_ok [of url proxy s]
  by (cases "refresh_cookies_announce url proxy s";
      cases "http E (world s) (refresh_request server_url url proxy)")
     (auto simp: refresh_cookies_def refresh_cookies_try_def prog_defs Let_def
           split: sum.splits http_outcome.splits prod.splits)

lemma refresh_cookies_except_returns_None:
  "fst (refresh_cookies_except server_url e s) = Inr None"
  by (cases e) (auto simp: refresh_cookies_except_def prog_defs split: exn_class.splits)

lemma refresh_and_display_run:
  "refresh_and_display E url proxy s =
     (let s1 = snd (refresh_and_display_announce url proxy s);
          (out, w') = http E (world s) (quick_request url proxy);
          s2 = s1\<lparr>events := events s1 @ [Http (quick_request url proxy)], world := w'\<rparr>
      in case out of
           Raised e \<Rightarrow> refresh_and_display_except e s2
         | Response status body \<Rightarrow>
             (case body of
                Inl e \<Rightarrow> refresh_and_display_except e s2
              | Inr j \<Rightarrow>
                  if status = 200 then try_except (quick_show_result E url j) refresh_and_display_except s2
                  else
                    (case obj_get_or j (lit ''detail'') (JStr qr_unknown_error) of
                       Inl e \<Rightarrow> refresh_and_display_except e s2
                     | Inr detail \<Rightarrow>
                         (Inr False, s2\<lparr>events := events s2 @ [Print (qr_L58_pre @ py_str E detail)]\<rparr>))))"
  using refresh_and_display_announce_ok [of url proxy s]
  by (cases "refresh_and_display_announce url proxy s";
      cases "http E (world s) (quick_request url proxy)")
     (auto simp: refresh_and_display_def refresh_and_display_try_def prog_defs Let_def
           split: sum.splits http_outcome.splits prod.splits)

lemma refresh_and_display_except_returns_False:
  "fst (refresh_and_display_except e s) = Inr False"
  by (cases e) (auto simp: refresh_and_display_except_def prog_defs split: exn_class.splits)

lemma freshener_refresh_cookies_run:
  "freshener_refresh_cookies E server_url url proxy s =
     (let (out, w') = http E (world s) (freshener_request server_url url proxy);
          s2 = s\<lparr>events := events s @ [Http (freshener_request server_url url proxy)], world := w'\<rparr>
      in case out of
           Raised e \<Rightarrow> (Inr None, s2\<lparr>events := events s2 @ [Print (ex_L52_pre @ exn_text e)]\<rparr>)
         | Response status body \<Rightarrow>
             (case body of
                Inl e \<Rightarrow> (Inr None, s2\<lparr>events := events s2 @ [Print (ex_L52_pre @ exn_text e)]\<rparr>)
              | Inr j \<Rightarrow>
                  if status = 200 then (Inr (Some j), s2)
                  else
                    (let s3 = s2\<lparr>events := events s2 @ [Print (ex_L48_pre @ str_of_int status @ lit '')'')]\<rparr>
                     in case obj_get_or j (lit ''detail'') (JStr ex_unknown_error) of
                          Inl e \<Rightarrow> (Inr None, s3\<lparr>events := events s3 @ [Print (ex_L52_pre @ exn_text e)]\<rparr>)
                        | Inr detail \<Rightarrow>
                            (Inr None, s3\<lparr>events := events s3 @ [Print (ex_L49_pre @ py_str E detail)]\<rparr>))))"
  by (cases "http E (world s) (freshener_request server_url url proxy)")
     (auto simp: freshener_refresh_cookies_def freshener_refresh_try_def prog_defs Let_def
           split: sum.splits http_outcome.splits prod.splits)

lemma obj_get_or_JObj [simp]:
  "obj_get_or (JObj d) k dflt = Inr (dict_get_or d k dflt)"
  by (simp add: obj_get_or_def)

lemma py_str_JStr [simp]: "py_str E (JStr t) = t"
  by (simp add: py_str_def)

lemma float_overflow_small: "\<bar>n\<bar> \<le> 10 ^ 18 \<Longrightarrow> \<not> float_overflow n"
  by (simp add: float_overflow_def)

lemma div1000_1f_small [simp]:
  "\<bar>n\<bar> \<le> 10 ^ 18 \<Longrightarrow> div1000_1f E (JInt n) = Inr (fmt_1f_div1000 E n)"
  by (simp add: div1000_1f_def float_overflow_small)

section \<open>Answers other than 200\<close>

text \<open>
  C4, as the code has it. When the service answers the refresh request with a
  status other than 200, \<open>refresh_cookies\<close> returns \<open>None\<close> and \<open>refresh_and_display\<close>
  returns \<open>False\<close>, whatever the body is; neither raises. What is printed after the
  request depends on the body. For a JSON object it is the value of \<open>detail\<close> (for a
  string, the string itself), or the fallback text when the object has no \<open>detail\<close>:
  after the line with the status and three spaces in the full tool, after the error
  prefix in the simplified script. For a body that is JSON but no object, \<open>.get\<close>
  raises \<open>AttributeError\<close>, and for a body that is not JSON \<open>resp.json()\<close> raises:
  then the handlers of the function print their report of the exception, and
  neither a \<open>detail\<close> nor the fallback text.
\<close>

theorem non_200_reported_without_raising:
  assumes "status \<noteq> 200"
  shows
    "(http E (world s) (refresh_request server_url url proxy) = (Response status body, w') \<longrightarrow>
        fst (refresh_cookies E server_url url proxy s) = Inr None
      \<and> events (snd (refresh_cookies E server_url url proxy s))
          = events (snd (refresh_cookies_announce url proxy s))
            @ Http (refresh_request server_url url proxy)
            # map Print
                (case body of
                   Inr (JObj d) \<Rightarrow>
                     [ir_L61_pre @ str_of_int status @ lit '')'',
                      lit ''   '' @ py_str E (case map_of d (lit ''detail'') of
                                                None \<Rightarrow> JStr ir_unknown_error | Some v \<Rightarrow> v)]
                 | Inr j \<Rightarrow>
                     [ir_L61_pre @ str_of_int status @ lit '')'',
                      ir_L72_pre @ quoted (type_name j) @ lit '' object has no attribute ''
                        @ quoted (lit ''get'')]
                 | Inl e \<Rightarrow>
                     (case exn_class e of
                        TimeoutError \<Rightarrow> [ir_L65]
                      | ClientConnectorError \<Rightarrow> [ir_L68_pre @ server_url @ lit '')'', ir_L69]
                      | _ \<Rightarrow> [ir_L72_pre @ exn_text e])))
   \<and> (http E (world s) (quick_request url proxy) = (Response status body, w') \<longrightarrow>
        fst (refresh_and_display E url proxy s) = Inr False
      \<and> events (snd (refresh_and_display E url proxy s))
          = events (snd (refresh_and_display_announce url proxy s))
            @ Http (quick_request url proxy)
            # map Print
                (case body of
                   Inr (JObj d) \<Rightarrow>
                     [qr_L58_pre @ py_str E (case map_of d (lit ''detail'') of
                                               None \<Rightarrow> JStr qr_unknown_error | Some v \<Rightarrow> v)]
                 | Inr j \<Rightarrow>
                     [qr_L69_pre @ quoted (type_name j) @ lit '' object has no attribute ''
                        @ quoted (lit ''get'')]
                 | Inl e \<Rightarrow>
                     (case exn_class e of
                        TimeoutError \<Rightarrow> [qr_L62]
                      | ClientConnectorError \<Rightarrow> [qr_L65, qr_L66]
                      | _ \<Rightarrow> [qr_L69_pre @ exn_text e])))
   \<and> (\<forall>t. py_str E (JStr t) = t)"
proof -
  have ir: "fst (refresh_cookies E server_url url proxy s) = Inr None"
    if "http E (world s) (refresh_request server_url url proxy) = (Response status body, w')"
    using that assms
    by (auto simp: refresh_cookies_run Let_def refresh_cookies_except_returns_None
             split: sum.splits)
  have qr: "fst (refresh_and_display E url proxy s) = Inr False"
    if "http E (world s) (quick_request url proxy) = (Response status body, w')"
    using that assms
    by (auto simp: refresh_and_display_run Let_def refresh_and_display_except_returns_False
             split: sum.splits)
  have ir_events: "events (snd (refresh_cookies E server_url url proxy s))
          = events (snd (refresh_cookies_announce url proxy s))
            @ Http (refresh_request server_url url proxy)
            # map Print
                (case body of
                   Inr (JObj d) \<Rightarrow>
                     [ir_L61_pre @ str_of_int status @ lit '')'',
                      lit ''   '' @ py_str E (case map_of d (lit ''detail'') of
                                                None \<Rightarrow> JStr ir_unknown_error | Some v \<Rightarrow> v)]
                 | Inr j \<Rightarrow>
                     [ir_L61_pre @ str_of_int status @ lit '')'',
                      ir_L72_pre @ quoted (type_name j) @ lit '' object has no attribute ''
                        @ quoted (lit ''get'')]
                 | Inl e \<Rightarrow>
                     (case exn_class e of
                        TimeoutError \<Rightarrow> [ir_L65]
                      | ClientConnectorError \<Rightarrow> [ir_L68_pre @ server_url @ lit '')'', ir_L69]
                      | _ \<Rightarrow> [ir_L72_pre @ exn_text e]))"
    if "http E (world s) (refresh_request server_url url proxy) = (Response status body, w')"
  proof (cases body)
    case (Inl e)
    with that assms show ?thesis
      by (cases e)
         (simp add: refresh_cookies_run Let_def refresh_cookies_except_def prog_defs
               split: exn_class.splits)
  next
    case (Inr j)
    with that assms show ?thesis
      by (cases j)
         (simp_all add: refresh_cookies_run Let_def refresh_cookies_except_def obj_get_or_def
               no_attribute_def dict_get_or_def prog_defs)
  qed
  have qr_events: "events (snd (refresh_and_display E url proxy s))
          = events (snd (refresh_and_display_announce url proxy s))
            @ Http (quick_request url proxy)
            # map Print
                (case body of
                   Inr (JObj d) \<Rightarrow>
                     [qr_L58_pre @ py_str E (case map_of d (lit ''detail'') of
                                               None \<Rightarrow> JStr qr_unknown_error | Some v \<Rightarrow> v)]
                 | Inr j \<Rightarrow>
                     [qr_L69_pre @ quoted (type_name j) @ lit '' object has no attribute ''
                        @ quoted (lit ''get'')]
                 | Inl e \<Rightarrow>
                     (case exn_class e of
                        TimeoutError \<Rightarrow> [qr_L62]
                      | ClientConnectorError \<Rightarrow> [qr_L65, qr_L66]
                      | _ \<Rightarrow> [qr_L69_pre @ exn_text e]))"
    if "http E (world s) (quick_request url proxy) = (Response status body, w')"
  proof (cases body)
    case (Inl e)
    with that assms show ?thesis
      by (cases e)
         (simp add: refresh_and_display_run Let_def refresh_and_display_except_def prog_defs
               split: exn_class.splits)
  next
    case (Inr j)
    with that assms show ?thesis
      by (cases j)
         (simp_all add: refresh_and_display_run Let_def refresh_and_display_except_def obj_get_or_def
               no_attribute_def dict_get_or_def prog_defs)
  qed
  show ?thesis
    using ir qr ir_events qr_events by simp
qed

theorem non_200_reported_without_raising_witness:
  "fst (refresh_cookies test_env default_server_url (lit ''https://example.com'') None (start [] [rate_limited]))
     = Inr None
   \<and> last (events (snd (refresh_cookies test_env default_server_url (lit ''https://example.com'') None
                          (start [] [rate_limited]))))
     = Print (lit ''   rate limited'')
   \<and> fst (refresh_and_display test_env (lit ''https://example.com'') None (start [] [rate_limited]))
     = Inr False
   \<and> last (events (snd (refresh_and_display test_env (lit ''https://example.com'') None
                          (start [] [rate_limited]))))
     = Print (qr_L58_pre @ lit ''rate limited'')"
  using non_200_reported_without_raising
          [where status = 429 and E = test_env and s = "start [] [rate_limited]"
             and server_url = default_server_url and url = "lit ''https://example.com''"
             and proxy = None and body = "Inr (JObj [(lit ''detail'', JStr (lit ''rate limited''))])"
             and w' = "[]"]
  by (simp add: test_env_def start_def rate_limited_def scripted_http_def lit_def)

text \<open>
  The claim as the spec states it fails for an error body that is no JSON object:
  a 500 answer whose body is the JSON string \<open>"Internal Server Error"\<close> has no
  \<open>detail\<close>, and no line printed holds the fallback text.
\<close>

theorem error_body_that_is_no_object:
  "refresh_cookies test_env default_server_url (lit ''https://example.com'') None (start [] [string_error_response])
     = (Inr None,
        \<lparr>stdin = [],
         events = [Print (ir_L47_pre @ lit ''https://example.com'' @ lit ''...''), Print ir_L50,
                   Http (refresh_request default_server_url (lit ''https://example.com'') None),
                   Print (ir_L61_pre @ lit ''500)''),
                   Print (ir_L72_pre @ quoted (lit ''str'') @ lit '' object has no attribute ''
                          @ quoted (lit ''get''))],
         world = []\<rparr>)
   \<and> \<not> list_ex (shows_text ir_unknown_error)
         (events (snd (refresh_cookies test_env default_server_url (lit ''https://example.com'') None
                         (start [] [string_error_response]))))
   \<and> refresh_and_display test_env (lit ''https://example.com'') None (start [] [string_error_response])
     = (Inr False,
        \<lparr>stdin = [],
         events = [Print (qr_L19_pre @ lit ''https://example.com'' @ lit ''...''), Print qr_L22,
                   Http (quick_request (lit ''https://example.com'') None),
                   Print (qr_L69_pre @ quoted (lit ''str'') @ lit '' object has no attribute ''
                          @ quoted (lit ''get''))],
         world = []\<rparr>)
   \<and> \<not> list_ex (shows_text qr_unknown_error)
         (events (snd (refresh_and_display test_env (lit ''https://example.com'') None
                         (start [] [string_error_response]))))"
proof -
  have answer: "http test_env [string_error_response] rq
                  = (Response 500 (Inr (JStr (lit ''Internal Server Error''))), [])" for rq
    by (simp add: test_env_def scripted_http_def string_error_response_def)
  have code: "str_of_int 500 @ lit '')'' = lit ''500)''"
    by (simp add: str_of_int_def str_of_nat.simps lit_def)
  have ir: "refresh_cookies test_env default_server_url (lit ''https://example.com'') None
              (start [] [string_error_response])
     = (Inr None,
        \<lparr>stdin = [],
         events = [Print (ir_L47_pre @ lit ''https://example.com'' @ lit ''...''), Print ir_L50,
                   Http (refresh_request default_server_url (lit ''https://example.com'') None),
                   Print (ir_L61_pre @ lit ''500)''),
                   Print (ir_L72_pre @ quoted (lit ''str'') @ lit '' object has no attribute ''
                          @ quoted (lit ''get''))],
         world = []\<rparr>)"
    by (simp add: refresh_cookies_run answer Let_def refresh_cookies_announce_def
          refresh_cookies_except_def obj_get_or_def no_attribute_def code start_def prog_defs)
  have qr: "refresh_and_display test_env (lit ''https://example.com'') None (start [] [string_error_response])
     = (Inr False,
        \<lparr>stdin = [],
         events = [Print (qr_L19_pre @ lit ''https://example.com'' @ lit ''...''), Print qr_L22,
                   Http (quick_request (lit ''https://example.com'') None),
                   Print (qr_L69_pre @ quoted (lit ''str'') @ lit '' object has no attribute ''
                          @ quoted (lit ''get''))],
         world = []\<rparr>)"
    by (simp add: refresh_and_display_run answer Let_def refresh_and_display_announce_def
          refresh_and_display_except_def obj_get_or_def no_attribute_def start_def prog_defs)
  have ir_silent: "\<not> list_ex (shows_text ir_unknown_error)
         [Print (ir_L47_pre @ lit ''https://example.com'' @ lit ''...''), Print ir_L50,
          Http (refresh_request default_server_url (lit ''https://example.com'') None),
          Print (ir_L61_pre @ lit ''500)''),
          Print (ir_L72_pre @ quoted (lit ''str'') @ lit '' object has no attribute ''
                 @ quoted (lit ''get''))]"
    by (simp add: sublist_code ir_unknown_error_def ir_L47_pre_def ir_L50_def ir_L61_pre_def
          ir_L72_pre_def quoted_def lit_def)
  have qr_silent: "\<not> list_ex (shows_text qr_unknown_error)
         [Print (qr_L19_pre @ lit ''https://example.com'' @ lit ''...''), Print qr_L22,
          Http (quick_request (lit ''https://example.com'') None),
          Print (qr_L69_pre @ quoted (lit ''str'') @ lit '' object has no attribute ''
                 @ quoted (lit ''get''))]"
    by (simp add: sublist_code qr_unknown_error_def qr_L19_pre_def qr_L22_def qr_L69_pre_def
          quoted_def lit_def)
  show ?thesis
    using ir_silent qr_silent by (simp only: ir qr snd_conv state.simps simp_thms)
qed

section \<open>Timeouts and connection failures\<close>

lemma refresh_cookies_except_timeout:
  "refresh_cookies_except server_url (Exn TimeoutError t) s
     = (Inr None, s\<lparr>events := events s @ [Print ir_L65]\<rparr>)"
  by (simp add: refresh_cookies_except_def prog_defs)

lemma refresh_cookies_except_connector:
  "refresh_cookies_except server_url (Exn ClientConnectorError t) s
     = (Inr None, s\<lparr>events := events s @ [Print (ir_L68_pre @ server_url @ lit '')''), Print ir_L69]\<rparr>)"
  by (simp add: refresh_cookies_except_def prog_defs)

lemma refresh_and_display_except_timeout:
  "refresh_and_display_except (Exn TimeoutError t) s
     = (Inr False, s\<lparr>events := events s @ [Print qr_L62]\<rparr>)"
  by (simp add: refresh_and_display_except_def prog_defs)

lemma refresh_and_display_except_connector:
  "refresh_and_display_except (Exn ClientConnectorError t) s
     = (Inr False, s\<lparr>events := events s @ [Print qr_L65, Print qr_L66]\<rparr>)"
  by (simp add: refresh_and_display_except_def prog_defs)

lemma timeout_texts_differ:
  "ir_L65 \<noteq> ir_L68_pre @ server_url @ lit '')''" "ir_L65 \<noteq> ir_L69"
  "qr_L62 \<noteq> qr_L65" "qr_L62 \<noteq> qr_L66"
  by (simp_all add: ir_L65_def ir_L68_pre_def ir_L69_def qr_L62_def qr_L65_def qr_L66_def lit_def)

lemma library_texts_differ:
  "exn_text (timeout_error cause) \<noteq> exn_text (connector_error host port ssl os_error)"
  by (cases cause) (simp_all add: timeout_error_def connector_error_def lit_def)

lemma raised_by_cases:
  "raised_by out = Some e \<Longrightarrow> out = Raised e \<or> (\<exists>status. out = Response status (Inl e))"
  by (cases out rule: raised_by.cases) auto

lemma refresh_cookies_raised:
  assumes "raised_by (fst (http E (world s) (refresh_request server_url url proxy))) = Some e"
  shows "refresh_cookies E server_url url proxy s
           = refresh_cookies_except server_url e
               ((snd (refresh_cookies_announce url proxy s))
                  \<lparr>events := events (snd (refresh_cookies_announce url proxy s))
                              @ [Http (refresh_request server_url url proxy)],
                    world := snd (http E (world s) (refresh_request server_url url proxy))\<rparr>)"
  using raised_by_cases [OF assms]
  by (cases "http E (world s) (refresh_request server_url url proxy)")
     (auto simp: refresh_cookies_run Let_def)

lemma refresh_and_display_raised:
  assumes "raised_by (fst (http E (world s) (quick_request url proxy))) = Some e"
  shows "refresh_and_display E url proxy s
           = refresh_and_display_except e
               ((snd (refresh_and_display_announce url proxy s))
                  \<lparr>events := events (snd (refresh_and_display_announce url proxy s))
                              @ [Http (quick_request url proxy)],
                    world := snd (http E (world s) (quick_request url proxy))\<rparr>)"
  using raised_by_cases [OF assms]
  by (cases "http E (world s) (quick_request url proxy)")
     (auto simp: refresh_and_display_run Let_def)

lemma freshener_refresh_cookies_raised:
  assumes "raised_by (fst (http E (world s) (freshener_request server_url url proxy))) = Some e"
  shows "freshener_refresh_cookies E server_url url proxy s
           = (Inr None,
              s\<lparr>events := events s @ [Http (freshener_request server_url url proxy),
                                       Print (ex_L52_pre @ exn_text e)],
                world := snd (http E (world s) (freshener_request server_url url proxy))\<rparr>)"
  using raised_by_cases [OF assms]
  by (cases "http E (world s) (freshener_request server_url url proxy)")
     (auto simp: freshener_refresh_cookies_run Let_def)

text \<open>
  C9. In each of the three scripts a timeout and a connection failure of the
  refresh request, or of the reading of its answer, are reported with different
  messages, and neither leaves the refresh function, which returns \<open>None\<close> or
  \<open>False\<close>. In the full tool and in the simplified script each cause has a handler
  of its own: the timeout prints one fixed line, the connection failure two other
  fixed lines (the first names the server in the full tool), and the timeout's line
  differs from both. In refresh\_example.py \<open>CacheFreshener.refresh_cookies\<close> has one
  handler for every exception, which prints a prefix followed by the text of the
  exception: there the two reports differ because the texts that the library gives
  to a timeout and to a connection failure differ.
\<close>

theorem timeout_and_connection_failure_reports:
  "(raised_by (fst (http E (world s) (refresh_request server_url url proxy))) = Some (Exn TimeoutError t) \<longrightarrow>
      fst (refresh_cookies E server_url url proxy s) = Inr None
    \<and> events (snd (refresh_cookies E server_url url proxy s))
        = events (snd (refresh_cookies_announce url proxy s))
          @ [Http (refresh_request server_url url proxy), Print ir_L65])
   \<and> (raised_by (fst (http E (world s) (refresh_request server_url url proxy)))
        = Some (Exn ClientConnectorError t) \<longrightarrow>
      fst (refresh_cookies E server_url url proxy s) = Inr None
    \<and> events (snd (refresh_cookies E server_url url proxy s))
        = events (snd (refresh_cookies_announce url proxy s))
          @ [Http (refresh_request server_url url proxy),
             Print (ir_L68_pre @ server_url @ lit '')''), Print ir_L69])
   \<and> ir_L65 \<noteq> ir_L68_pre @ server_url @ lit '')'' \<and> ir_L65 \<noteq> ir_L69
   \<and> (raised_by (fst (http E (world s) (quick_request url proxy))) = Some (Exn TimeoutError t) \<longrightarrow>
      fst (refresh_and_display E url proxy s) = Inr False
    \<and> events (snd (refresh_and_display E url proxy s))
        = events (snd (refresh_and_display_announce url proxy s))
          @ [Http (quick_request url proxy), Print qr_L62])
   \<and> (raised_by (fst (http E (world s) (quick_request url proxy))) = Some (Exn ClientConnectorError t) \<longrightarrow>
      fst (refresh_and_display E url proxy s) = Inr False
    \<and> events (snd (refresh_and_display E url proxy s))
        = events (snd (refresh_and_display_announce url proxy s))
          @ [Http (quick_request url proxy), Print qr_L65, Print qr_L66])
   \<and> qr_L62 \<noteq> qr_L65 \<and> qr_L62 \<noteq> qr_L66
   \<and> (raised_by (fst (http E (world s) (freshener_request server_url url proxy))) = Some e \<longrightarrow>
      fst (freshener_refresh_cookies E server_url url proxy s) = Inr None
    \<and> events (snd (freshener_refresh_cookies E server_url url proxy s))
        = events s @ [Http (freshener_request server_url url proxy), Print (ex_L52_pre @ exn_text e)])
   \<and> exn_class (timeout_error cause) = TimeoutError
   \<and> exn_class (connector_error host port ssl os_error) = ClientConnectorError
   \<and> ex_L52_pre @ exn_text (timeout_error cause)
       \<noteq> ex_L52_pre @ exn_text (connector_error host port ssl os_error)"
  using timeout_texts_differ library_texts_differ [of cause host port ssl os_error]
  by (simp add: refresh_cookies_raised refresh_and_display_raised freshener_refresh_cookies_raised
                refresh_cookies_except_timeout refresh_cookies_except_connector
                refresh_and_display_except_timeout refresh_and_display_except_connector
                timeout_error_def connector_error_def)

theorem timeout_and_connection_failure_reports_witness:
  "events (snd (refresh_cookies test_env default_server_url (lit ''https://a.com'') None (start [] [timed_out])))
     = events (snd (refresh_cookies_announce (lit ''https://a.com'') None (start [] [timed_out])))
       @ [Http (refresh_request default_server_url (lit ''https://a.com'') None), Print ir_L65]
   \<and> events (snd (refresh_cookies test_env default_server_url (lit ''https://a.com'') None (start [] [unreachable])))
     = events (snd (refresh_cookies_announce (lit ''https://a.com'') None (start [] [unreachable])))
       @ [Http (refresh_request default_server_url (lit ''https://a.com'') None),
          Print (ir_L68_pre @ default_server_url @ lit '')''), Print ir_L69]
   \<and> events (snd (refresh_and_display test_env (lit ''https://a.com'') None (start [] [timed_out])))
     = events (snd (refresh_and_display_announce (lit ''https://a.com'') None (start [] [timed_out])))
       @ [Http (quick_request (lit ''https://a.com'') None), Print qr_L62]
   \<and> events (snd (refresh_and_display test_env (lit ''https://a.com'') None (start [] [unreachable])))
     = events (snd (refresh_and_display_announce (lit ''https://a.com'') None (start [] [unreachable])))
       @ [Http (quick_request (lit ''https://a.com'') None), Print qr_L65, Print qr_L66]
   \<and> events (snd (freshener_refresh_cookies test_env default_server_url (lit ''https://a.com'') None
                     (start [] [timed_out])))
     = [Http (freshener_request default_server_url (lit ''https://a.com'') None), Print ex_L52_pre]
   \<and> events (snd (freshener_refresh_cookies test_env default_server_url (lit ''https://a.com'') None
                     (start [] [unreachable])))
     = [Http (freshener_request default_server_url (lit ''https://a.com'') None),
        Print (ex_L52_pre @ lit ''Cannot connect to host localhost:8000 ssl:default [Connect call failed (''
               @ quoted (lit ''127.0.0.1'') @ lit '', 8000)]'')]"
proof -
  have texts: "exn_text (timeout_error TotalTimeout) = []"
    "exn_text refused
       = lit ''Cannot connect to host localhost:8000 ssl:default [Connect call failed (''
         @ quoted (lit ''127.0.0.1'') @ lit '', 8000)]''"
    by (simp_all add: timeout_error_def refused_def connector_error_def lit_def)
  have answers: "http test_env [timed_out] rq = (Raised (Exn TimeoutError []), [])"
    "http test_env [unreachable] rq = (Raised (Exn ClientConnectorError (exn_text refused)), [])" for rq
    by (simp_all add: test_env_def scripted_http_def timed_out_def unreachable_def timeout_error_def
          refused_def connector_error_def)
  note slow = timeout_and_connection_failure_reports
          [where E = test_env and s = "start [] [timed_out]" and server_url = default_server_url
             and url = "lit ''https://a.com''" and proxy = None and t = "[]"
             and e = "Exn TimeoutError []"]
  note down = timeout_and_connection_failure_reports
          [where E = test_env and s = "start [] [unreachable]" and server_url = default_server_url
             and url = "lit ''https://a.com''" and proxy = None
             and t = "exn_text refused" and e = "Exn ClientConnectorError (exn_text refused)"]
  show ?thesis
    using slow down by (simp add: start_def answers texts)
qed

section \<open>Batch orchestration\<close>

lemma net_trace_append [simp]: "net_trace (xs @ ys) = net_trace xs @ net_trace ys"
  by (simp add: net_trace_def)

lemma net_trace_simps [simp]:
  "net_trace [] = []"
  "net_trace (Print l # evs) = net_trace evs"
  "net_trace (Prompt p # evs) = net_trace evs"
  "net_trace (FileDump f v # evs) = net_trace evs"
  "net_trace (Http rq # evs) = Http rq # net_trace evs"
  "net_trace (Sleep n # evs) = Sleep n # net_trace evs"
  by (simp_all add: net_trace_def)

lemma refresh_cookies_announce_net:
  "net_trace (events (snd (refresh_cookies_announce url proxy s))) = net_trace (events s)"
  by (auto simp: refresh_cookies_announce_def prog_defs split: option.splits)

lemma refresh_cookies_except_net:
  "net_trace (events (snd (refresh_cookies_except server_url e s))) = net_trace (events s)"
  by (cases e) (auto simp: refresh_cookies_except_def prog_defs split: exn_class.splits)

text \<open>
  One call of the refresh client is one request and no pause; it returns \<open>None\<close>,
  or the body of a 200 answer, and never raises.
\<close>

lemma refresh_cookies_net:
  "net_trace (events (snd (refresh_cookies E server_url url proxy s)))
     = net_trace (events s) @ [Http (refresh_request server_url url proxy)]"
  by (cases "http E (world s) (refresh_request server_url url proxy)")
     (auto simp: refresh_cookies_run Let_def refresh_cookies_announce_net refresh_cookies_except_net
           split: http_outcome.splits sum.splits)

lemma refresh_cookies_returns:
  "fst (refresh_cookies E server_url url proxy s) = Inr None
   \<or> (\<exists>b w'. fst (refresh_cookies E server_url url proxy s) = Inr (Some b)
         \<and> http E (world s) (refresh_request server_url url proxy) = (Response 200 (Inr b), w'))"
  by (cases "http E (world s) (refresh_request server_url url proxy)")
     (auto simp: refresh_cookies_run Let_def refresh_cookies_except_returns_None
           split: http_outcome.splits sum.splits)

lemma loop_trace_with_pauses:
  "i + length us = Suc n \<Longrightarrow>
   loop_trace server_url proxy n i us
     = with_pauses (map (\<lambda>u. Http (refresh_request server_url u proxy)) us)"
proof (induction us arbitrary: i)
  case Nil
  then show ?case by simp
next
  case (Cons u us)
  then show ?case by (cases us) auto
qed

lemma success_check_object:
  "\<exists>ok. success_check (Some (JObj d)) = Inr ok" "\<exists>ok. success_check None = Inr ok"
  by (simp_all add: success_check_def)

lemma batch_loop_step:
  assumes "urlparse E url = Inr parts"
    and "fst (refresh_cookies E server_url url proxy
               (s\<lparr>events := events s @ [Print ([10] @ lit ''['' @ str_of_nat i @ lit ''/'' @ str_of_nat n
                                                 @ ir_L325_post @ netloc parts)]\<rparr>)) = Inr result"
    and "success_check result = Inr ok"
  shows "batch_loop E server_url proxy n i (url # rest) results s =
           (let s1 = s\<lparr>events := events s @ [Print ([10] @ lit ''['' @ str_of_nat i @ lit ''/'' @ str_of_nat n
                                                       @ ir_L325_post @ netloc parts)]\<rparr>;
                s2 = snd (refresh_cookies E server_url url proxy s1);
                line = (case ok of
                          Some d \<Rightarrow> ir_L336_pre @ py_str E (dict_get d (lit ''cookies_count'')) @ ir_L336_mid
                                    @ py_str E (dict_get d (lit ''generation_time_ms'')) @ lit ''ms''
                        | None \<Rightarrow> ir_L342);
                record = (case ok of Some d \<Rightarrow> success_record url d | None \<Rightarrow> failed_record url);
                s3 = s2\<lparr>events := events s2 @ [Print line] @ (if i < n then [Sleep 2] else [])\<rparr>
            in batch_loop E server_url proxy n (Suc i) rest (results @ [record]) s3)"
  using assms
  by (cases "refresh_cookies E server_url url proxy
               (s\<lparr>events := events s @ [Print ([10] @ lit ''['' @ str_of_nat i @ lit ''/'' @ str_of_nat n
                                                 @ ir_L325_post @ netloc parts)]\<rparr>)")
     (auto simp: prog_defs Let_def split: option.splits)

lemma batch_loop_completes:
  assumes "\<forall>u\<in>set urls. validate_url E u" and "answers_objects E"
  shows "(\<exists>rs. fst (batch_loop E server_url proxy n i urls results s) = Inr rs)
       \<and> net_trace (events (snd (batch_loop E server_url proxy n i urls results s)))
           = net_trace (events s) @ loop_trace server_url proxy n i urls"
  using assms(1)
proof (induction urls arbitrary: i results s)
  case Nil
  then show ?case by (simp add: return_def)
next
  case (Cons url rest)
  from Cons.prems obtain parts where parts: "urlparse E url = Inr parts"
    by (auto simp: validate_url_def split: sum.splits)
  define s1 where "s1 = s\<lparr>events := events s @ [Print ([10] @ lit ''['' @ str_of_nat i @ lit ''/''
                        @ str_of_nat n @ ir_L325_post @ netloc parts)]\<rparr>"
  have "\<exists>result. fst (refresh_cookies E server_url url proxy s1) = Inr result
          \<and> (result = None \<or> (\<exists>d. result = Some (JObj d)))"
    using refresh_cookies_returns [of E server_url url proxy s1] assms(2)
    unfolding answers_objects_def by blast
  then obtain result where result: "fst (refresh_cookies E server_url url proxy s1) = Inr result"
    and shape: "result = None \<or> (\<exists>d. result = Some (JObj d))"
    by blast
  obtain ok where ok: "success_check result = Inr ok"
    using shape success_check_object by auto
  have net1: "net_trace (events (snd (refresh_cookies E server_url url proxy s1)))
                = net_trace (events s) @ [Http (refresh_request server_url url proxy)]"
    by (simp add: refresh_cookies_net s1_def)
  have rest: "\<forall>u\<in>set rest. validate_url E u"
    using Cons.prems by simp
  show ?case
    using Cons.IH [OF rest] net1
    by (simp add: batch_loop_step [OF parts result [unfolded s1_def] ok] Let_def s1_def
             del: batch_loop.simps)
qed

lemma freshener_refresh_cookies_net:
  "net_trace (events (snd (freshener_refresh_cookies E server_url url proxy s)))
     = net_trace (events s) @ [Http (freshener_request server_url url proxy)]"
  by (cases "http E (world s) (freshener_request server_url url proxy)")
     (auto simp: freshener_refresh_cookies_run Let_def split: http_outcome.splits sum.splits)

lemma freshener_refresh_cookies_returns:
  "fst (freshener_refresh_cookies E server_url url proxy s) = Inr None
   \<or> (\<exists>b w'. fst (freshener_refresh_cookies E server_url url proxy s) = Inr (Some b)
         \<and> http E (world s) (freshener_request server_url url proxy) = (Response 200 (Inr b), w'))"
  by (cases "http E (world s) (freshener_request server_url url proxy)")
     (auto simp: freshener_refresh_cookies_run Let_def split: http_outcome.splits sum.splits)

lemma result_fields_presentD:
  "result_fields_present b \<Longrightarrow>
   \<exists>d st. b = JObj d \<and> map_of d (lit ''status'') = Some st
     \<and> (st = JStr (lit ''success'') \<longrightarrow>
          (\<exists>c g. map_of d (lit ''cookies_count'') = Some c \<and> map_of d (lit ''generation_time_ms'') = Some g))"
  by (cases b) (auto simp: result_fields_present_def split: option.splits)

text \<open>
  After a call of the freshener, the rest of a round of the demo's loop: a line for
  the outcome, the line that announces the pause, and the pause.
\<close>

lemma demo_round_rest:
  assumes "result = None \<or> (\<exists>b. result = Some b \<and> result_fields_present b)"
  shows "\<exists>line. bind (lift (success_check_subscript result)) (\<lambda>ok.
           and_then (case ok of
                 Some r \<Rightarrow>
                   bind (lift (subscript r (lit ''cookies_count''))) (\<lambda>cookies_count.
                   bind (lift (subscript r (lit ''generation_time_ms''))) (\<lambda>generation_time.
                   print (ex_L140_pre @ py_str E cookies_count @ ex_L140_mid
                          @ py_str E generation_time @ lit ''ms'')))
               | None \<Rightarrow> print ex_L142)
          (and_then (print ex_L144) (and_then (sleep 2) k))) s
         = k (s\<lparr>events := events s @ [Print line, Print ex_L144, Sleep 2]\<rparr>)"
proof -
  consider (none) "result = None"
    | (failed) d st where "result = Some (JObj d)" "map_of d (lit ''status'') = Some st"
        "st \<noteq> JStr (lit ''success'')"
    | (success) d c g where "result = Some (JObj d)"
        "map_of d (lit ''status'') = Some (JStr (lit ''success''))"
        "map_of d (lit ''cookies_count'') = Some c" "map_of d (lit ''generation_time_ms'') = Some g"
    using assms result_fields_presentD by blast
  then show ?thesis
  proof cases
    case none
    then show ?thesis
      by (intro exI [of _ ex_L142]) (simp add: success_check_subscript_def prog_defs)
  next
    case failed
    then have "d \<noteq> []" by auto
    with failed show ?thesis
      by (intro exI [of _ ex_L142]) (simp add: success_check_subscript_def subscript_def prog_defs)
  next
    case success
    then have "d \<noteq> []" by auto
    with success show ?thesis
      by (intro exI [of _ "ex_L140_pre @ py_str E c @ ex_L140_mid @ py_str E g @ lit ''ms''"])
         (simp add: success_check_subscript_def subscript_def prog_defs)
  qed
qed

lemma demo_loop_completes:
  assumes "answers_results E"
  shows "fst (demo_loop E urls s) = Inr ()
       \<and> net_trace (events (snd (demo_loop E urls s)))
           = net_trace (events s)
             @ pause_after_each (map (\<lambda>u. Http (freshener_request default_server_url u None)) urls)"
proof (induction urls arbitrary: s)
  case Nil
  then show ?case by (simp add: return_def)
next
  case (Cons url rest)
  define s1 where "s1 = s\<lparr>events := events s @ [Print (ex_L136_pre @ url)]\<rparr>"
  obtain r s2 where run: "freshener_refresh_cookies E default_server_url url None s1 = (r, s2)"
    by (cases "freshener_refresh_cookies E default_server_url url None s1")
  have "\<exists>result. r = Inr result \<and> (result = None \<or> (\<exists>b. result = Some b \<and> result_fields_present b))"
    using freshener_refresh_cookies_returns [of E default_server_url url None s1] assms run
    unfolding answers_results_def by fastforce
  then obtain result where r: "r = Inr result"
    and shape: "result = None \<or> (\<exists>b. result = Some b \<and> result_fields_present b)"
    by blast
  have net2: "net_trace (events s2) = net_trace (events s) @ [Http (freshener_request default_server_url url None)]"
    using freshener_refresh_cookies_net [of E default_server_url url None s1] run
    by (simp add: s1_def)
  obtain line where line:
    "bind (lift (success_check_subscript result)) (\<lambda>ok.
           and_then (case ok of
                 Some r \<Rightarrow>
                   bind (lift (subscript r (lit ''cookies_count''))) (\<lambda>cookies_count.
                   bind (lift (subscript r (lit ''generation_time_ms''))) (\<lambda>generation_time.
                   print (ex_L140_pre @ py_str E cookies_count @ ex_L140_mid
                          @ py_str E generation_time @ lit ''ms'')))
               | None \<Rightarrow> print ex_L142)
          (and_then (print ex_L144) (and_then (sleep 2) (demo_loop E rest)))) s2
         = demo_loop E rest (s2\<lparr>events := events s2 @ [Print line, Print ex_L144, Sleep 2]\<rparr>)"
    using demo_round_rest [OF shape, of E "demo_loop E rest" s2] by blast
  have "demo_loop E (url # rest) s
          = demo_loop E rest (s2\<lparr>events := events s2 @ [Print line, Print ex_L144, Sleep 2]\<rparr>)"
    using run r line by (simp add: and_then_def bind_def print_def emit_def s1_def)
  then show ?case
    using Cons.IH [of "s2\<lparr>events := events s2 @ [Print line, Print ex_L144, Sleep 2]\<rparr>"] net2
    by simp
qed

lemma with_pauses_calls:
  "list_all is_http calls \<Longrightarrow> filter is_http (with_pauses calls) = calls"
  by (induction calls rule: with_pauses.induct) auto

lemma with_pauses_sleeps:
  "list_all is_http calls \<Longrightarrow>
   filter (\<lambda>ev. \<not> is_http ev) (with_pauses calls) = replicate (length calls - 1) (Sleep 2)"
  by (induction calls rule: with_pauses.induct) auto

lemma with_pauses_empty [simp]: "(with_pauses calls = []) = (calls = [])"
  by (induction calls rule: with_pauses.induct) auto

lemma with_pauses_last:
  "calls \<noteq> [] \<Longrightarrow> last (with_pauses calls) = last calls"
  by (induction calls rule: with_pauses.induct) auto

lemma pause_after_each_sleeps:
  "list_all is_http calls \<Longrightarrow>
   filter (\<lambda>ev. \<not> is_http ev) (pause_after_each calls) = replicate (length calls) (Sleep 2)"
  by (induction calls) auto

text \<open>
  C1, as the code has it. For every batch of \<open>n\<close> valid URLs and a service that
  answers 200 with JSON objects, the loop of \<open>batch_refresh\<close> completes, and its
  requests and pauses are: one refresh request per URL, in input order, with a pause
  of 2 seconds between two consecutive requests and none after the last, so \<open>n\<close>
  requests and \<open>n - 1\<close> pauses (none for an empty batch). The demo
  \<open>demo_multiple_refreshes\<close> of refresh\_example.py subscripts the answer, so it needs
  more of the service: when every 200 answer is a JSON object that holds a \<open>status\<close>
  and, if the status is \<open>success\<close>, also \<open>cookies_count\<close> and \<open>generation_time_ms\<close>,
  the demo completes, and it also calls once per URL and in order, but pauses
  2 seconds after every call, the last included: \<open>n\<close> pauses for its \<open>n\<close> URLs.
\<close>

theorem batch_calls_and_pauses:
  assumes "\<forall>u\<in>set urls. validate_url E u" and "answers_objects E"
  shows
    "(\<exists>results. fst (batch_loop E server_url proxy (length urls) 1 urls [] s) = Inr results)
   \<and> net_trace (events (snd (batch_loop E server_url proxy (length urls) 1 urls [] s)))
       = net_trace (events s) @ with_pauses (map (\<lambda>u. Http (refresh_request server_url u proxy)) urls)
   \<and> filter is_http (with_pauses (map (\<lambda>u. Http (refresh_request server_url u proxy)) urls))
       = map (\<lambda>u. Http (refresh_request server_url u proxy)) urls
   \<and> filter (\<lambda>ev. \<not> is_http ev) (with_pauses (map (\<lambda>u. Http (refresh_request server_url u proxy)) urls))
       = replicate (length urls - 1) (Sleep 2)
   \<and> (urls \<noteq> [] \<longrightarrow>
        last (with_pauses (map (\<lambda>u. Http (refresh_request server_url u proxy)) urls))
          = Http (refresh_request server_url (last urls) proxy))
   \<and> (answers_results E \<longrightarrow>
        fst (demo_multiple_refreshes E s) = Inr ()
      \<and> net_trace (events (snd (demo_multiple_refreshes E s)))
          = net_trace (events s)
            @ pause_after_each (map (\<lambda>u. Http (freshener_request default_server_url u None)) demo_urls)
      \<and> filter (\<lambda>ev. \<not> is_http ev)
           (pause_after_each (map (\<lambda>u. Http (freshener_request default_server_url u None)) demo_urls))
          = replicate (length demo_urls) (Sleep 2))"
proof -
  let ?calls = "map (\<lambda>u. Http (refresh_request server_url u proxy)) urls"
  have calls: "list_all is_http ?calls"
    by (simp add: list_all_iff)
  have dcalls: "list_all is_http (map (\<lambda>u. Http (freshener_request default_server_url u None)) demo_urls)"
    by (simp add: list_all_iff)
  have loop: "(\<exists>results. fst (batch_loop E server_url proxy (length urls) 1 urls [] s) = Inr results)
     \<and> net_trace (events (snd (batch_loop E server_url proxy (length urls) 1 urls [] s)))
         = net_trace (events s) @ with_pauses ?calls"
    using batch_loop_completes [OF assms, of server_url proxy "length urls" 1 "[]" s]
    by (simp add: loop_trace_with_pauses)
  have lst: "urls \<noteq> [] \<Longrightarrow> last (with_pauses ?calls) = Http (refresh_request server_url (last urls) proxy)"
    by (simp add: with_pauses_last last_map)
  have demo: "answers_results E \<Longrightarrow>
        fst (demo_multiple_refreshes E s) = Inr ()
      \<and> net_trace (events (snd (demo_multiple_refreshes E s)))
          = net_trace (events s)
            @ pause_after_each (map (\<lambda>u. Http (freshener_request default_server_url u None)) demo_urls)"
    using demo_loop_completes [of E demo_urls
            "s\<lparr>events := events s @ [Print (10 # rule60), Print ex_L126, Print rule60]\<rparr>"]
    by (simp add: demo_multiple_refreshes_def and_then_def bind_def print_def emit_def return_def)
  show ?thesis
    using loop lst demo with_pauses_calls [OF calls] with_pauses_sleeps [OF calls]
          pause_after_each_sleeps [OF dcalls]
    by simp
qed

lemma validate_url_examples:
  "validate_url test_env (lit ''https://a.com'')" "validate_url test_env (lit ''https://b.com'')"
  "validate_url (steady_env out) (lit ''https://a.com'')"
  "validate_url (steady_env out) (lit ''https://b.com'')"
  by (simp_all add: validate_url_def steady_env_def test_env_def urlparse_model_def Let_def lit_def
        ascii_alpha_def scheme_char_def ascii_lower_def)

theorem batch_calls_and_pauses_witness:
  "net_trace (events (snd (batch_loop (steady_env ok_response) default_server_url None 2 1
                             [lit ''https://a.com'', lit ''https://b.com''] [] (start [] []))))
     = [Http (refresh_request default_server_url (lit ''https://a.com'') None),
        Sleep 2,
        Http (refresh_request default_server_url (lit ''https://b.com'') None)]
   \<and> net_trace (events (snd (demo_multiple_refreshes (steady_env ok_response) (start [] []))))
     = [Http (freshener_request default_server_url (lit ''https://example.com'') None),
        Sleep 2,
        Http (freshener_request default_server_url (lit ''https://test-site.com'') None),
        Sleep 2]"
proof -
  have valid: "\<forall>u\<in>set [lit ''https://a.com'', lit ''https://b.com'']. validate_url (steady_env ok_response) u"
    using validate_url_examples by simp
  have objects: "answers_objects (steady_env ok_response)"
    by (simp add: answers_objects_def steady_env_def ok_response_def)
  have results: "answers_results (steady_env ok_response)"
    by (simp add: answers_results_def result_fields_present_def steady_env_def ok_response_def
          ok_body_def lit_def)
  show ?thesis
    using batch_calls_and_pauses [OF valid objects, of default_server_url None "start [] []"] results
    by (simp add: start_def demo_urls_def numeral_2_eq_2 del: batch_loop.simps)
qed

text \<open>
  The condition on the answers is needed: at a 200 answer that is an object without
  \<open>status\<close> the demo raises \<open>KeyError\<close> after its first request and before any pause.
\<close>

lemma demo_stops_at_answer_without_status:
  "demo_multiple_refreshes test_env
     (start [] [Response 200 (Inr (JObj [(lit ''hostname'', JStr (lit ''example.com''))]))])
   = (Inl (key_error (lit ''status'')),
      \<lparr>stdin = [],
       events = [Print (10 # rule60), Print ex_L126, Print rule60,
                 Print (ex_L136_pre @ lit ''https://example.com''),
                 Http (freshener_request default_server_url (lit ''https://example.com'') None)],
       world = []\<rparr>)"
  by (simp add: demo_multiple_refreshes_def demo_urls_def freshener_refresh_cookies_run
        success_check_subscript_def subscript_def prog_defs Let_def
        test_env_def start_def scripted_http_def lit_def)

text \<open>
  The claim as the spec states it fails in refresh\_example.py: on its two URLs the
  demo pauses after the second, final call as well.
\<close>

theorem demo_pauses_after_final_call:
  "net_trace (events (snd (demo_multiple_refreshes test_env (start [] [ok_response, ok_response]))))
     = [Http (freshener_request default_server_url (lit ''https://example.com'') None),
        Sleep 2,
        Http (freshener_request default_server_url (lit ''https://test-site.com'') None),
        Sleep 2]
   \<and> net_trace (events (snd (demo_multiple_refreshes test_env (start [] [ok_response, ok_response]))))
     \<noteq> with_pauses [Http (freshener_request default_server_url (lit ''https://example.com'') None),
                     Http (freshener_request default_server_url (lit ''https://test-site.com'') None)]"
  by (simp add: demo_multiple_refreshes_def demo_urls_def freshener_refresh_cookies_run
        success_check_subscript_def subscript_def prog_defs Let_def
        test_env_def start_def scripted_http_def ok_response_def ok_body_def lit_def)

section \<open>The batch document\<close>

lemma batch_record_success [simp]: "batch_record (success_record url d)"
  by (simp add: batch_record_def success_record_def lit_def)

lemma batch_record_failed [simp]: "batch_record (failed_record url)"
  by (simp add: batch_record_def failed_record_def lit_def)

text \<open>A round of the loop appends one record, of one of the two forms.\<close>

lemma batch_loop_round:
  assumes "fst (batch_loop E server_url proxy n i (url # rest) results s) = Inr rs"
  shows "\<exists>rcd s'. batch_record rcd
           \<and> fst (batch_loop E server_url proxy n (Suc i) rest (results @ [rcd]) s') = Inr rs"
proof -
  obtain parts where parts: "urlparse E url = Inr parts"
    using assms by (cases "urlparse E url") (auto simp: prog_defs)
  define s1 where "s1 = s\<lparr>events := events s @ [Print ([10] @ lit ''['' @ str_of_nat i @ lit ''/''
                        @ str_of_nat n @ ir_L325_post @ netloc parts)]\<rparr>"
  obtain result where result: "fst (refresh_cookies E server_url url proxy s1) = Inr result"
    using refresh_cookies_returns [of E server_url url proxy s1] by blast
  obtain ok where ok: "success_check result = Inr ok"
    using assms parts result
    by (cases "success_check result"; cases "refresh_cookies E server_url url proxy s1")
       (auto simp: prog_defs s1_def)
  have "batch_record (case ok of Some d \<Rightarrow> success_record url d | None \<Rightarrow> failed_record url)"
    by (cases ok) simp_all
  then show ?thesis
    using assms
    unfolding batch_loop_step [OF parts result [unfolded s1_def] ok] Let_def
    by blast
qed

lemma batch_loop_records:
  "fst (batch_loop E server_url proxy n i urls results s) = Inr rs \<Longrightarrow>
   \<exists>new. rs = results @ new \<and> length new = length urls \<and> list_all batch_record new"
proof (induction urls arbitrary: i results s)
  case Nil
  then show ?case by (simp add: return_def)
next
  case (Cons url rest)
  from batch_loop_round [OF Cons.prems] obtain rcd s'
    where rcd: "batch_record rcd"
      and run: "fst (batch_loop E server_url proxy n (Suc i) rest (results @ [rcd]) s') = Inr rs"
    by blast
  from Cons.IH [OF run] obtain new
    where "rs = (results @ [rcd]) @ new" "length new = length rest" "list_all batch_record new"
    by blast
  with rcd show ?case
    by (intro exI [of _ "rcd # new"]) simp
qed

lemma count_status_records:
  "list_all batch_record rs \<Longrightarrow> count_status rs k = Inr (int (status_count k rs))"
  by (induction rs) (auto simp: status_count_def batch_record_def dict_get_def)

lemma status_count_sum:
  "list_all batch_record rs \<Longrightarrow>
   status_count (lit ''success'') rs + status_count (lit ''failed'') rs = length rs"
  by (induction rs) (auto simp: status_count_def batch_record_def dict_get_def lit_def)

text \<open>What \<open>save_batch_results\<close> does, by the clock, the records and the file system.\<close>

lemma save_batch_results_run:
  "save_batch_results E results s =
     (let (t1, w1) = clock_now E (world s);
          (t2, w2) = clock_now E w1;
          filename = lit ''cookie_refresh_batch_'' @ strftime_compact t1 @ lit ''.json''
      in case batch_document t2 results of
           Inl e \<Rightarrow> (Inr (), s\<lparr>events := events s @ [Print (ir_L411_pre @ exn_text e)], world := w2\<rparr>)
         | Inr data \<Rightarrow>
             (case file_dump E w2 filename data of
                (None, w3) \<Rightarrow>
                  (Inr (), s\<lparr>events := events s @ [FileDump filename data, Print (ir_L409_pre @ filename)],
                             world := w3\<rparr>)
              | (Some e, w3) \<Rightarrow>
                  (Inr (), s\<lparr>events := events s @ [Print (ir_L411_pre @ exn_text e)], world := w3\<rparr>)))"
  by (auto simp: save_batch_results_def now_def dump_json_def prog_defs Let_def
           split: prod.splits sum.splits option.splits)

text \<open>
  C7. For the records a batch run accumulates, \<open>save_batch_results\<close> builds the
  document whose \<open>total\<close> is the number of records and whose \<open>success\<close> and
  \<open>failed\<close> are the numbers of records with that status, the two adding up to
  \<open>total\<close>, and writes it to the file named after the current time; when the file
  cannot be written it prints the failure instead. A batch with one success and one
  failure gives \<open>success\<close> 1 and \<open>failed\<close> 1.
\<close>

theorem batch_document_counts:
  assumes "fst (batch_loop E server_url proxy n i urls [] s0) = Inr results"
  shows
    "batch_document t results
       = Inr (JObj [(lit ''timestamp'', JStr (isoformat t)),
                    (lit ''total'', JInt (int (length results))),
                    (lit ''success'', JInt (int (status_count (lit ''success'') results))),
                    (lit ''failed'', JInt (int (status_count (lit ''failed'') results))),
                    (lit ''results'', JList (map JObj results))])
   \<and> status_count (lit ''success'') results + status_count (lit ''failed'') results = length results
   \<and> length results = length urls
   \<and> save_batch_results E results s
       = (let (t1, w1) = clock_now E (world s);
              (t2, w2) = clock_now E w1;
              filename = lit ''cookie_refresh_batch_'' @ strftime_compact t1 @ lit ''.json'';
              document =
                JObj [(lit ''timestamp'', JStr (isoformat t2)),
                      (lit ''total'', JInt (int (length results))),
                      (lit ''success'', JInt (int (status_count (lit ''success'') results))),
                      (lit ''failed'', JInt (int (status_count (lit ''failed'') results))),
                      (lit ''results'', JList (map JObj results))]
          in case file_dump E w2 filename document of
               (None, w3) \<Rightarrow>
                 (Inr (),
                  s\<lparr>events := events s @ [FileDump filename document, Print (ir_L409_pre @ filename)],
                    world := w3\<rparr>)
             | (Some e, w3) \<Rightarrow>
                 (Inr (), s\<lparr>events := events s @ [Print (ir_L411_pre @ exn_text e)], world := w3\<rparr>))"
proof -
  from batch_loop_records [OF assms]
  have len: "length results = length urls" and recs: "list_all batch_record results"
    by auto
  have doc: "batch_document t' results
       = Inr (JObj [(lit ''timestamp'', JStr (isoformat t')),
                    (lit ''total'', JInt (int (length results))),
                    (lit ''success'', JInt (int (status_count (lit ''success'') results))),
                    (lit ''failed'', JInt (int (status_count (lit ''failed'') results))),
                    (lit ''results'', JList (map JObj results))])" for t'
    by (simp add: batch_document_def count_status_records [OF recs])
  have save: "save_batch_results E results s
       = (let (t1, w1) = clock_now E (world s);
              (t2, w2) = clock_now E w1;
              filename = lit ''cookie_refresh_batch_'' @ strftime_compact t1 @ lit ''.json'';
              document =
                JObj [(lit ''timestamp'', JStr (isoformat t2)),
                      (lit ''total'', JInt (int (length results))),
                      (lit ''success'', JInt (int (status_count (lit ''success'') results))),
                      (lit ''failed'', JInt (int (status_count (lit ''failed'') results))),
                      (lit ''results'', JList (map JObj results))]
          in case file_dump E w2 filename document of
               (None, w3) \<Rightarrow>
                 (Inr (),
                  s\<lparr>events := events s @ [FileDump filename document, Print (ir_L409_pre @ filename)],
                    world := w3\<rparr>)
             | (Some e, w3) \<Rightarrow>
                 (Inr (), s\<lparr>events := events s @ [Print (ir_L411_pre @ exn_text e)], world := w3\<rparr>))"
    by (simp add: save_batch_results_run doc Let_def split: prod.splits)
  show ?thesis
    using doc [of t] status_count_sum [OF recs] len save by simp
qed

lemma batch_of_one_success_one_failure:
  "fst (batch_loop test_env default_server_url None 2 1 [lit ''https://a.com'', lit ''https://b.com''] []
          (start [] [ok_response, rate_limited]))
     = Inr [success_record (lit ''https://a.com'') ok_body, failed_record (lit ''https://b.com'')]"
  by (simp add: refresh_cookies_run refresh_cookies_announce_def success_check_def prog_defs Let_def
        test_env_def start_def scripted_http_def ok_response_def rate_limited_def
        urlparse_model_def ascii_alpha_def scheme_char_def ascii_lower_def
        ok_body_def dict_get_def lit_def)

theorem batch_document_counts_witness:
  "save_batch_results test_env
     [success_record (lit ''https://a.com'') ok_body, failed_record (lit ''https://b.com'')] (start [] [])
   = (Inr (),
      \<lparr>stdin = [],
       events =
         [FileDump (lit ''cookie_refresh_batch_20240307_090530.json'')
            (JObj [(lit ''timestamp'', JStr (lit ''2024-03-07T09:05:30.123456'')),
                   (lit ''total'', JInt 2),
                   (lit ''success'', JInt 1),
                   (lit ''failed'', JInt 1),
                   (lit ''results'',
                    JList [JObj (success_record (lit ''https://a.com'') ok_body),
                           JObj (failed_record (lit ''https://b.com''))])]),
          Print (ir_L409_pre @ lit ''cookie_refresh_batch_20240307_090530.json'')],
       world = []\<rparr>)
   \<and> batch_document test_time
        [success_record (lit ''https://a.com'') ok_body, failed_record (lit ''https://b.com'')]
     = Inr (JObj [(lit ''timestamp'', JStr (lit ''2024-03-07T09:05:30.123456'')),
                  (lit ''total'', JInt 2),
                  (lit ''success'', JInt 1),
                  (lit ''failed'', JInt 1),
                  (lit ''results'',
                   JList [JObj (success_record (lit ''https://a.com'') ok_body),
                          JObj (failed_record (lit ''https://b.com''))])])"
proof -
  have stamp: "strftime_compact test_time = lit ''20240307_090530''"
    and iso: "isoformat test_time = lit ''2024-03-07T09:05:30.123456''"
    by (simp_all add: strftime_compact_def isoformat_def zpad_def test_time_def
          str_of_nat.simps lit_def)
  have counts:
    "status_count (lit ''success'')
       [success_record (lit ''https://a.com'') ok_body, failed_record (lit ''https://b.com'')] = 1"
    "status_count (lit ''failed'')
       [success_record (lit ''https://a.com'') ok_body, failed_record (lit ''https://b.com'')] = 1"
    by (simp_all add: status_count_def success_record_def failed_record_def dict_get_def lit_def)
  have world: "clock_now test_env w = (test_time, w)" "file_dump test_env w name doc = (None, w)"
    for w name doc
    by (simp_all add: test_env_def)
  have cat: "lit ''cookie_refresh_batch_'' @ lit ''20240307_090530'' @ lit ''.json''
               = lit ''cookie_refresh_batch_20240307_090530.json''"
    by (simp add: lit_def)
  show ?thesis
    using batch_document_counts
            [where t = test_time and s = "start [] []", OF batch_of_one_success_one_failure]
    by (simp add: counts world stamp iso cat start_def Let_def)
qed

section \<open>A 200 answer whose status is not success\<close>

lemma single_after_refresh_not_success:
  "dict_get d (lit ''status'') \<noteq> JStr (lit ''success'') \<Longrightarrow>
   single_after_refresh E server_url url (Some (JObj d)) s = (Inr (), s)"
  by (simp add: single_after_refresh_def success_check_def prog_defs)

text \<open>
  \<open>refresh_single_url\<close> up to the refresh: the URL is read, normalized and
  validated, the proxy is asked for, and the rest is the refresh and what follows it.
\<close>

lemma refresh_single_url_run:
  assumes "stdin s = line # rest"
  shows "refresh_single_url E server_url s =
     (let s1 = s\<lparr>stdin := rest, events := events s @ [Print ir_L212, Print ir_L213, Prompt ir_L214]\<rparr>;
          url = format_url (py_strip line)
      in if py_strip line = [] then (Inr (), s1\<lparr>events := events s1 @ [Print ir_L217]\<rparr>)
         else if \<not> validate_url E url
         then (Inr (), s1\<lparr>events := events s1 @ [Print (ir_L223_pre @ url)]\<rparr>)
         else (case single_ask_proxy E s1 of
                 (Inl e, s2) \<Rightarrow> (Inl e, s2)
               | (Inr proxy, s2) \<Rightarrow>
                   bind (refresh_cookies E server_url url proxy)
                        (single_after_refresh E server_url url) s2))"
  using assms
  by (auto simp: refresh_single_url_def input_def prog_defs Let_def split: prod.splits sum.splits)

lemma refresh_cookies_200:
  assumes "http E (world s) (refresh_request server_url url proxy) = (Response 200 (Inr j), w')"
  shows "refresh_cookies E server_url url proxy s =
           (Inr (Some j),
            (snd (refresh_cookies_announce url proxy s))
              \<lparr>events := events (snd (refresh_cookies_announce url proxy s))
                          @ [Http (refresh_request server_url url proxy)],
               world := w'\<rparr>)"
  using assms by (simp add: refresh_cookies_run Let_def)

lemma freshener_refresh_cookies_200:
  assumes "http E (world s) (freshener_request server_url url proxy) = (Response 200 (Inr j), w')"
  shows "freshener_refresh_cookies E server_url url proxy s =
           (Inr (Some j), s\<lparr>events := events s @ [Http (freshener_request server_url url proxy)], world := w'\<rparr>)"
  using assms by (simp add: freshener_refresh_cookies_run Let_def)

lemma demo_basic_refresh_run:
  "demo_basic_refresh E s =
     bind (freshener_refresh_cookies E default_server_url (lit ''https://javdb.com'') None) (\<lambda>result.
      bind (lift (success_check_subscript result)) (\<lambda>ok.
      case ok of
        Some r \<Rightarrow>
          and_then (print ex_L114)
         (bind (lift (subscript r (lit ''hostname''))) (\<lambda>hostname.
          and_then (print (ex_L115_pre @ py_str E hostname))
         (bind (lift (subscript r (lit ''cookies_count''))) (\<lambda>cookies_count.
          and_then (print (ex_L116_pre @ py_str E cookies_count))
         (bind (lift (subscript r (lit ''generation_time_ms''))) (\<lambda>generation_time.
          and_then (print (ex_L117_pre @ py_str E generation_time @ lit ''ms''))
         (bind (lift (subscript r (lit ''user_agent''))) (\<lambda>user_agent.
          bind (lift (slice_to 50 user_agent)) (\<lambda>ua.
          print (ex_L118_pre @ py_str E ua @ lit ''...''))))))))))
      | None \<Rightarrow> print ex_L120))
     (s\<lparr>events := events s @ demo_basic_header\<rparr>)"
  by (simp add: demo_basic_refresh_def demo_basic_header_def Let_def and_then_def bind_def print_def
        emit_def return_def)

text \<open>
  C10. Let the service answer the refresh request with status 200 and a JSON object
  whose \<open>status\<close> is absent or is not the string \<open>success\<close>. Then
  \<^item> \<open>refresh_single_url\<close> ends with the request: after it nothing is displayed, no
    prompt is shown, no cookie lookup is made and nothing is saved;
  \<^item> the round of the loop of \<open>batch_refresh\<close> appends the record
    \<open>{'url': url, 'status': 'failed'}\<close>, prints the failure line, and the record is
    in the results of the batch at its position;
  \<^item> \<open>demo_basic_refresh\<close> prints its failure line after the request when the
    object has a \<open>status\<close> or is empty, and raises \<open>KeyError\<close> right after the
    request when a non-empty object has none; it never prints the success lines.
\<close>

theorem not_success_is_failure:
  assumes "dict_get d (lit ''status'') \<noteq> JStr (lit ''success'')"
  shows
    "(stdin s = line # rest \<and> py_strip line \<noteq> [] \<and> validate_url E (format_url (py_strip line))
      \<and> single_ask_proxy E
            (s\<lparr>stdin := rest, events := events s @ [Print ir_L212, Print ir_L213, Prompt ir_L214]\<rparr>)
          = (Inr proxy, s2)
      \<and> http E (world s2) (refresh_request server_url (format_url (py_strip line)) proxy)
          = (Response 200 (Inr (JObj d)), w') \<longrightarrow>
        refresh_single_url E server_url s
          = (Inr (),
             (snd (refresh_cookies_announce (format_url (py_strip line)) proxy s2))
               \<lparr>events := events (snd (refresh_cookies_announce (format_url (py_strip line)) proxy s2))
                           @ [Http (refresh_request server_url (format_url (py_strip line)) proxy)],
                world := w'\<rparr>))
   \<and> (urlparse E url = Inr parts
      \<and> http E (world s) (refresh_request server_url url proxy) = (Response 200 (Inr (JObj d)), w') \<longrightarrow>
        batch_loop E server_url proxy n i (url # urls) results s
          = batch_loop E server_url proxy n (Suc i) urls (results @ [failed_record url])
              ((snd (refresh_cookies E server_url url proxy
                      (s\<lparr>events := events s @ [Print ([10] @ lit ''['' @ str_of_nat i @ lit ''/''
                                                        @ str_of_nat n @ ir_L325_post @ netloc parts)]\<rparr>)))
                 \<lparr>events := events (snd (refresh_cookies E server_url url proxy
                      (s\<lparr>events := events s @ [Print ([10] @ lit ''['' @ str_of_nat i @ lit ''/''
                                                        @ str_of_nat n @ ir_L325_post @ netloc parts)]\<rparr>)))
                             @ [Print ir_L342] @ (if i < n then [Sleep 2] else [])\<rparr>)
      \<and> (\<forall>rs. fst (batch_loop E server_url proxy n i (url # urls) results s) = Inr rs \<longrightarrow>
            rs ! length results = failed_record url)
      \<and> dict_get (failed_record url) (lit ''status'') = JStr (lit ''failed''))
   \<and> (http E (world s) (freshener_request default_server_url (lit ''https://javdb.com'') None)
          = (Response 200 (Inr (JObj d)), w') \<longrightarrow>
        (d = [] \<or> map_of d (lit ''status'') \<noteq> None \<longrightarrow>
           demo_basic_refresh E s
             = (Inr (),
                s\<lparr>events := events s @ demo_basic_header
                     @ [Http (freshener_request default_server_url (lit ''https://javdb.com'') None),
                        Print ex_L120],
                  world := w'\<rparr>))
      \<and> (d \<noteq> [] \<and> map_of d (lit ''status'') = None \<longrightarrow>
           demo_basic_refresh E s
             = (Inl (key_error (lit ''status'')),
                s\<lparr>events := events s @ demo_basic_header
                     @ [Http (freshener_request default_server_url (lit ''https://javdb.com'') None)],
                  world := w'\<rparr>)))"
proof -
  have single: "refresh_single_url E server_url s
          = (Inr (),
             (snd (refresh_cookies_announce (format_url (py_strip line)) proxy s2))
               \<lparr>events := events (snd (refresh_cookies_announce (format_url (py_strip line)) proxy s2))
                           @ [Http (refresh_request server_url (format_url (py_strip line)) proxy)],
                world := w'\<rparr>)"
    if "stdin s = line # rest" "py_strip line \<noteq> []" "validate_url E (format_url (py_strip line))"
       "single_ask_proxy E
            (s\<lparr>stdin := rest, events := events s @ [Print ir_L212, Print ir_L213, Prompt ir_L214]\<rparr>)
          = (Inr proxy, s2)"
       "http E (world s2) (refresh_request server_url (format_url (py_strip line)) proxy)
          = (Response 200 (Inr (JObj d)), w')"
    using that assms
    by (simp add: refresh_single_url_run Let_def bind_def refresh_cookies_200
          single_after_refresh_not_success)
  have batch: "batch_loop E server_url proxy n i (url # urls) results s
          = batch_loop E server_url proxy n (Suc i) urls (results @ [failed_record url])
              ((snd (refresh_cookies E server_url url proxy
                      (s\<lparr>events := events s @ [Print ([10] @ lit ''['' @ str_of_nat i @ lit ''/''
                                                        @ str_of_nat n @ ir_L325_post @ netloc parts)]\<rparr>)))
                 \<lparr>events := events (snd (refresh_cookies E server_url url proxy
                      (s\<lparr>events := events s @ [Print ([10] @ lit ''['' @ str_of_nat i @ lit ''/''
                                                        @ str_of_nat n @ ir_L325_post @ netloc parts)]\<rparr>)))
                             @ [Print ir_L342] @ (if i < n then [Sleep 2] else [])\<rparr>)"
    if parts: "urlparse E url = Inr parts"
      and h: "http E (world s) (refresh_request server_url url proxy) = (Response 200 (Inr (JObj d)), w')"
  proof -
    have r: "fst (refresh_cookies E server_url url proxy
                   (s\<lparr>events := events s @ [Print ([10] @ lit ''['' @ str_of_nat i @ lit ''/''
                                                     @ str_of_nat n @ ir_L325_post @ netloc parts)]\<rparr>))
               = Inr (Some (JObj d))"
      using h by (simp add: refresh_cookies_200)
    have ok: "success_check (Some (JObj d)) = Inr None"
      using assms by (simp add: success_check_def)
    show ?thesis
      using batch_loop_step [OF parts r ok] by (simp add: Let_def del: batch_loop.simps)
  qed
  have position: "rs ! length results = failed_record url"
    if parts: "urlparse E url = Inr parts"
      and h: "http E (world s) (refresh_request server_url url proxy) = (Response 200 (Inr (JObj d)), w')"
      and rs: "fst (batch_loop E server_url proxy n i (url # urls) results s) = Inr rs" for rs
  proof -
    from rs obtain s3 where "fst (batch_loop E server_url proxy n (Suc i) urls (results @ [failed_record url]) s3) = Inr rs"
      unfolding batch [OF parts h] by blast
    from batch_loop_records [OF this] obtain new where "rs = (results @ [failed_record url]) @ new"
      by blast
    then show ?thesis by (simp add: nth_append)
  qed
  have failed: "dict_get (failed_record url) (lit ''status'') = JStr (lit ''failed'')"
    by (simp add: failed_record_def dict_get_def lit_def)
  have demo1: "demo_basic_refresh E s
             = (Inr (),
                s\<lparr>events := events s @ demo_basic_header
                     @ [Http (freshener_request default_server_url (lit ''https://javdb.com'') None),
                        Print ex_L120],
                  world := w'\<rparr>)"
    if "http E (world s) (freshener_request default_server_url (lit ''https://javdb.com'') None)
          = (Response 200 (Inr (JObj d)), w')" "d = [] \<or> map_of d (lit ''status'') \<noteq> None"
    using that assms
    by (auto simp: demo_basic_refresh_run bind_def freshener_refresh_cookies_200
          success_check_subscript_def subscript_def dict_get_def lift_def print_def emit_def)
  have demo2: "demo_basic_refresh E s
             = (Inl (key_error (lit ''status'')),
                s\<lparr>events := events s @ demo_basic_header
                     @ [Http (freshener_request default_server_url (lit ''https://javdb.com'') None)],
                  world := w'\<rparr>)"
    if "http E (world s) (freshener_request default_server_url (lit ''https://javdb.com'') None)
          = (Response 200 (Inr (JObj d)), w')" "d \<noteq> []" "map_of d (lit ''status'') = None"
    using that
    by (simp add: demo_basic_refresh_run bind_def freshener_refresh_cookies_200
          success_check_subscript_def subscript_def lift_def)
  show ?thesis
    using single batch position failed demo1 demo2 by blast
qed

lemma decline_proxy:
  "single_ask_proxy test_env
     (start [lit ''example.com'', lit ''n''] [error_status_response]
        \<lparr>stdin := [lit ''n''], events := [Print ir_L212, Print ir_L213, Prompt ir_L214]\<rparr>)
   = (Inr None,
      \<lparr>stdin = [], events = [Print ir_L212, Print ir_L213, Prompt ir_L214, Prompt ir_L227],
       world = [error_status_response]\<rparr>)"
  by (simp add: single_ask_proxy_def get_yes_no.simps input_def prog_defs Let_def start_def
        test_env_def ascii_lower_def py_strip_def py_isspace_def ir_yes_zh_def ir_no_zh_def lit_def)

lemma example_com_is_valid:
  "py_strip (lit ''example.com'') = lit ''example.com''"
  "format_url (lit ''example.com'') = lit ''https://example.com''"
  "validate_url test_env (lit ''https://example.com'')"
  "urlparse test_env (lit ''https://a.com'') = Inr \<lparr>scheme = lit ''https'', netloc = lit ''a.com''\<rparr>"
  by (simp_all add: py_strip_def py_isspace_def format_url_def startswith_def validate_url_def
        test_env_def urlparse_model_def ascii_alpha_def scheme_char_def ascii_lower_def Let_def lit_def)

theorem not_success_is_failure_witness:
  "refresh_single_url test_env default_server_url
       (start [lit ''example.com'', lit ''n''] [error_status_response])
     = (Inr (),
        \<lparr>stdin = [],
         events = [Print ir_L212, Print ir_L213, Prompt ir_L214, Prompt ir_L227,
                   Print (ir_L47_pre @ lit ''https://example.com'' @ lit ''...''), Print ir_L50,
                   Http (refresh_request default_server_url (lit ''https://example.com'') None)],
         world = []\<rparr>)
   \<and> fst (batch_loop test_env default_server_url None 1 1 [lit ''https://a.com''] []
            (start [lit ''example.com'', lit ''n''] [error_status_response]))
     = Inr [failed_record (lit ''https://a.com'')]
   \<and> events (snd (demo_basic_refresh test_env
                     (start [lit ''example.com'', lit ''n''] [error_status_response])))
     = demo_basic_header
       @ [Http (freshener_request default_server_url (lit ''https://javdb.com'') None), Print ex_L120]"
proof -
  have status: "dict_get [(lit ''status'', JStr (lit ''error''))] (lit ''status'') \<noteq> JStr (lit ''success'')"
    by (simp add: dict_get_def lit_def)
  note inst = not_success_is_failure
            [OF status,
             where E = test_env and s = "start [lit ''example.com'', lit ''n''] [error_status_response]"
               and line = "lit ''example.com''" and rest = "[lit ''n'']" and proxy = None
               and ?s2.0 = "\<lparr>stdin = [], events = [Print ir_L212, Print ir_L213, Prompt ir_L214, Prompt ir_L227],
                              world = [error_status_response]\<rparr>"
               and server_url = default_server_url and w' = "[]"
               and url = "lit ''https://a.com''"
               and parts = "\<lparr>scheme = lit ''https'', netloc = lit ''a.com''\<rparr>"
               and n = 1 and i = 1 and urls = "[]" and results = "[]"]
  have nonempty: "lit ''example.com'' \<noteq> []"
    by (simp add: lit_def)
  have answer: "http test_env [error_status_response] rq = (error_status_response, [])" for rq
    by (simp add: test_env_def scripted_http_def)
  have single: "refresh_single_url test_env default_server_url
       (start [lit ''example.com'', lit ''n''] [error_status_response])
     = (Inr (),
        \<lparr>stdin = [],
         events = [Print ir_L212, Print ir_L213, Prompt ir_L214, Prompt ir_L227,
                   Print (ir_L47_pre @ lit ''https://example.com'' @ lit ''...''), Print ir_L50,
                   Http (refresh_request default_server_url (lit ''https://example.com'') None)],
         world = []\<rparr>)"
    using inst [THEN conjunct1] decline_proxy example_com_is_valid nonempty answer
    by (simp add: start_def error_status_response_def refresh_cookies_announce_def prog_defs)
  have batch: "fst (batch_loop test_env default_server_url None 1 1 [lit ''https://a.com''] []
            (start [lit ''example.com'', lit ''n''] [error_status_response]))
     = Inr [failed_record (lit ''https://a.com'')]"
    using inst [THEN conjunct2, THEN conjunct1] example_com_is_valid answer
    by (simp add: start_def error_status_response_def return_def del: batch_loop.simps(2))
  have demo: "events (snd (demo_basic_refresh test_env
                     (start [lit ''example.com'', lit ''n''] [error_status_response])))
     = demo_basic_header
       @ [Http (freshener_request default_server_url (lit ''https://javdb.com'') None), Print ex_L120]"
    using inst [THEN conjunct2, THEN conjunct2] answer
    by (simp add: start_def error_status_response_def)
  show ?thesis
    using single batch demo by simp
qed

section \<open>The cookie display\<close>

lemma dict_set_new:
  "k \<notin> fst ` set d \<Longrightarrow> dict_set d k v = d @ [(k, v)]"
  by (induction d) auto

text \<open>On a dict, whose keys are distinct, the loop of lines 136 to 140 is a partition.\<close>

lemma classify_cookies_partition:
  assumes "distinct (map fst items)"
    and "fst ` set items \<inter> (fst ` set cf_cookies \<union> fst ` set other_cookies) = {}"
  shows "classify_cookies items cf_cookies other_cookies
           = (cf_cookies @ filter (\<lambda>c. is_cf_name (fst c)) items,
              other_cookies @ filter (\<lambda>c. \<not> is_cf_name (fst c)) items)"
  using assms
proof (induction items arbitrary: cf_cookies other_cookies)
  case Nil
  then show ?case by simp
next
  case (Cons c items)
  obtain name v where c: "c = (name, v)" by (cases c)
  have fresh: "name \<notin> fst ` set cf_cookies" "name \<notin> fst ` set other_cookies"
    using Cons.prems(2) c by auto
  have d: "distinct (map fst items)" and notin: "name \<notin> fst ` set items"
    using Cons.prems(1) c by auto
  show ?case
  proof (cases "is_cf_name name")
    case True
    have "fst ` set items \<inter> (fst ` set (cf_cookies @ [(name, v)]) \<union> fst ` set other_cookies) = {}"
      using Cons.prems(2) notin c by auto
    from Cons.IH [OF d this] True fresh show ?thesis
      by (simp add: c dict_set_new)
  next
    case False
    have "fst ` set items \<inter> (fst ` set cf_cookies \<union> fst ` set (other_cookies @ [(name, v)])) = {}"
      using Cons.prems(2) notin c by auto
    from Cons.IH [OF d this] False fresh show ?thesis
      by (simp add: c dict_set_new)
  qed
qed

lemma print_cookies_strings:
  "print_cookies E (map (\<lambda>c. (fst c, JStr (snd c))) cookies) s
     = (Inr (), s\<lparr>events := events s @ map (\<lambda>c. Print (cookie_line c)) cookies\<rparr>)"
proof (induction cookies arbitrary: s)
  case Nil
  then show ?case by (simp add: return_def)
next
  case (Cons c cookies)
  show ?case
    by (simp add: Cons.IH value_preview_def cookie_line_def shorten_def prog_defs)
qed

text \<open>
  C5. For every cookie set, \<open>display_cookies\<close> prints the display above: a cookie
  is listed in the Cloudflare section exactly when its name starts with \<open>cf_\<close> or
  \<open>__cf\<close>, and in the other section otherwise; a value longer than 40 characters
  is shown as its first 40 characters and three dots, a shorter one as it is; the
  other section lists its first five cookies at most, followed by the number of the
  remaining ones when there are more than five.
\<close>

theorem display_cookies_sections:
  assumes "distinct (map fst cookies)" and "urlparse E url = Inr parts"
  shows
    "display_cookies E url (cookie_set cookies) s
       = (Inr (), s\<lparr>events := events s @ map Print (cookie_display (netloc parts) cookies)\<rparr>)
   \<and> (\<forall>c. c \<in> set (cf_section cookies)
          = (c \<in> set cookies \<and> (prefix (lit ''cf_'') (fst c) \<or> prefix (lit ''__cf'') (fst c))))
   \<and> (\<forall>c. c \<in> set (other_section cookies)
          = (c \<in> set cookies \<and> \<not> (prefix (lit ''cf_'') (fst c) \<or> prefix (lit ''__cf'') (fst c))))
   \<and> (\<forall>v. 40 < length v \<longrightarrow> shorten v = take 40 v @ lit ''...'')
   \<and> (\<forall>v. length v \<le> 40 \<longrightarrow> shorten v = v)
   \<and> length (take 5 (other_section cookies)) \<le> 5"
proof -
  let ?items = "map (\<lambda>c. (fst c, JStr (snd c))) cookies"
  have keys: "distinct (map fst ?items)"
    using assms(1) by (simp add: comp_def)
  have split: "classify_cookies ?items [] []
                 = (map (\<lambda>c. (fst c, JStr (snd c))) (cf_section cookies),
                    map (\<lambda>c. (fst c, JStr (snd c))) (other_section cookies))"
    using classify_cookies_partition [OF keys, of "[]" "[]"]
    by (simp add: filter_map comp_def cf_section_def other_section_def)
  have shown: "display_cookies E url (cookie_set cookies) s
       = (Inr (), s\<lparr>events := events s @ map Print (cookie_display (netloc parts) cookies)\<rparr>)"
    using assms(2)
    by (simp add: display_cookies_def cookie_set_def py_len_def py_items_def split
          print_cookies_strings take_map cookie_display_def prog_defs Let_def comp_def)
  show ?thesis
    using shown
    by (auto simp: cf_section_def other_section_def is_cf_name_def startswith_def shorten_def)
qed

theorem display_cookies_sections_witness:
  "display_cookies test_env (lit ''https://example.com'') (cookie_set example_cookies) (start [] [])
     = (Inr (),
        \<lparr>stdin = [],
         events = map Print
           [10 # rule70, ir_L125, rule70, ir_L129_pre @ lit ''example.com'',
            ir_L130_pre @ lit ''8'' @ [10],
            ir_L144,
            ir_bullet @ lit ''cf_clearance: '' @ replicate 40 97 @ lit ''...'',
            ir_bullet @ lit ''__cf_bm: b'',
            ir_L151_pre @ lit ''6'' @ ir_L151_post,
            ir_bullet @ lit ''session: xyz'',
            ir_bullet @ lit ''a: 1'',
            ir_bullet @ lit ''b: 2'',
            ir_bullet @ lit ''c: 3'',
            ir_bullet @ lit ''d: 4'',
            ir_L157_pre @ lit ''1'' @ ir_L157_post,
            10 # rule70],
         world = []\<rparr>)"
proof -
  have names: "distinct (map fst example_cookies)"
    by (simp add: example_cookies_def lit_def)
  have parts: "urlparse test_env (lit ''https://example.com'')
                 = Inr \<lparr>scheme = lit ''https'', netloc = lit ''example.com''\<rparr>"
    by (simp add: test_env_def urlparse_model_def ascii_alpha_def scheme_char_def ascii_lower_def
          Let_def lit_def)
  show ?thesis
    using display_cookies_sections [OF names parts, of "start [] []"]
    by (simp add: cookie_display_def cf_section_def other_section_def cookie_line_def shorten_def
          is_cf_name_def startswith_def example_cookies_def start_def str_of_nat.simps lit_def)
qed

section \<open>Saving a single result\<close>

lemma str_of_nat_digits: "list_all (\<lambda>c. 48 \<le> c \<and> c \<le> 57) (str_of_nat n)"
proof (induction n rule: str_of_nat.induct)
  case (1 n)
  show ?case
  proof (cases "n < 10")
    case True
    then show ?thesis by (subst str_of_nat.simps) simp
  next
    case False
    have "n mod 10 < 10" by simp
    then have "48 + n mod 10 \<le> 57" by linarith
    with 1 False show ?thesis by (subst str_of_nat.simps) simp
  qed
qed

lemma str_of_nat_length: "n < 10 ^ Suc k \<Longrightarrow> length (str_of_nat n) \<le> Suc k"
proof (induction k arbitrary: n)
  case 0
  then show ?case by (subst str_of_nat.simps) simp
next
  case (Suc k)
  show ?case
  proof (cases "n < 10")
    case True
    then show ?thesis by (subst str_of_nat.simps) simp
  next
    case False
    have "n div 10 < 10 ^ Suc k"
      using Suc.prems by (simp add: less_mult_imp_div_less mult.commute)
    from Suc.IH [OF this] False show ?thesis
      by (subst str_of_nat.simps) simp
  qed
qed

lemma zpad_shape:
  assumes "0 < k" and "n < 10 ^ k"
  shows "length (zpad k n) = k" and "list_all (\<lambda>c. 48 \<le> c \<and> c \<le> 57) (zpad k n)"
proof -
  obtain k' where k: "k = Suc k'"
    using assms(1) by (cases k) auto
  show "length (zpad k n) = k" "list_all (\<lambda>c. 48 \<le> c \<and> c \<le> 57) (zpad k n)"
    using str_of_nat_length [of n k'] assms(2) str_of_nat_digits [of n]
    by (auto simp: zpad_def k list_all_iff)
qed

lemma matches_digits:
  "length xs = k \<Longrightarrow> list_all (\<lambda>c. 48 \<le> c \<and> c \<le> 57) xs \<Longrightarrow>
   matches (replicate k Digit @ ps) (xs @ ys) = matches ps ys"
  by (induction xs arbitrary: k) auto

lemma matches_zpad:
  "0 < k \<Longrightarrow> n < 10 ^ k \<Longrightarrow> matches (replicate k Digit @ ps) (zpad k n @ ys) = matches ps ys"
  using matches_digits [of "zpad k n" k ps ys] zpad_shape [of k n] by simp

lemma matches_zpad_end:
  "0 < k \<Longrightarrow> n < 10 ^ k \<Longrightarrow> matches (replicate k Digit) (zpad k n)"
  using matches_zpad [of k n "[]" "[]"] by simp

lemma isoformat_is_iso8601:
  assumes "valid_datetime t"
  shows "iso8601_datetime (isoformat t)"
proof -
  have b: "dt_year t < 10 ^ 4" "dt_month t < 10 ^ 2" "dt_day t < 10 ^ 2"
    "dt_hour t < 10 ^ 2" "dt_minute t < 10 ^ 2" "dt_second t < 10 ^ 2"
    "dt_microsecond t < 10 ^ 6"
    using assms by (simp_all add: valid_datetime_def)
  note digits = matches_zpad [OF _ b(1)] matches_zpad [OF _ b(2)] matches_zpad [OF _ b(3)]
    matches_zpad [OF _ b(4)] matches_zpad [OF _ b(5)] matches_zpad [OF _ b(6)]
    matches_zpad_end [OF _ b(6)] matches_zpad_end [OF _ b(7)]
  show ?thesis
  proof (cases "dt_microsecond t = 0")
    case True
    then have "matches seconds_pattern (isoformat t)"
      by (simp add: seconds_pattern_def isoformat_def lit_def digits)
    then show ?thesis by (simp add: iso8601_datetime_def)
  next
    case False
    then have "matches (seconds_pattern @ [Ch 46] @ replicate 6 Digit) (isoformat t)"
      by (simp add: seconds_pattern_def isoformat_def lit_def digits)
    then show ?thesis by (simp add: iso8601_datetime_def)
  qed
qed

lemma save_result_to_file_run:
  "save_result_to_file E url result s =
     (let (t1, w1) = clock_now E (world s);
          (t2, w2) = clock_now E w1;
          filename = lit ''cookie_refresh_'' @ strftime_compact t1 @ lit ''.json'';
          data = single_document t2 url result
      in case file_dump E w2 filename data of
           (None, w3) \<Rightarrow>
             (Inr (), s\<lparr>events := events s @ [FileDump filename data, Print (ir_L389_pre @ filename)],
                        world := w3\<rparr>)
         | (Some e, w3) \<Rightarrow>
             (Inr (), s\<lparr>events := events s @ [Print (ir_L391_pre @ exn_text e)], world := w3\<rparr>))"
  by (auto simp: save_result_to_file_def now_def dump_json_def prog_defs Let_def
           split: prod.splits option.splits)

lemma quick_save_run:
  assumes "stdin s = line # rest"
  shows "quick_save E url body s =
     (let s1 = s\<lparr>stdin := rest, events := events s @ [Prompt qr_L49]\<rparr>
      in if str_lower E (py_strip line) \<in> set [lit ''y'', lit ''yes'', lit ''1'']
         then (case urlparse E url of
                 Inl e \<Rightarrow> (Inl e, s1)
               | Inr parts \<Rightarrow>
                   (case file_dump E (world s) (lit ''cookie_'' @ netloc parts @ lit ''.json'') body of
                      (None, w') \<Rightarrow>
                        (Inr (), s1\<lparr>events := events s1
                                      @ [FileDump (lit ''cookie_'' @ netloc parts @ lit ''.json'') body,
                                         Print (qr_L53_pre @ netloc parts @ lit ''.json'')],
                                   world := w'\<rparr>)
                    | (Some e, w') \<Rightarrow> (Inl e, s1\<lparr>world := w'\<rparr>)))
         else (Inr (), s1))"
  using assms
  by (auto simp: quick_save_def input_def dump_json_def prog_defs Let_def
           split: sum.splits prod.splits option.splits)

text \<open>
  C8, as the code has it. In the full tool, a result that is saved is written as a
  document with a \<open>timestamp\<close> (the ISO 8601 text of the current time), the URL,
  and four fields of the result: \<open>hostname\<close>, \<open>cookies_count\<close>, \<open>user_agent\<close> and
  \<open>generation_time_ms\<close> (\<open>status\<close> is left out, a missing field is \<open>null\<close>); the
  file is named \<open>cookie_refresh_\<close> followed by the current time as
  \<open>YYYYmmdd_HHMMSS\<close>. In the simplified script the document written on
  confirmation is the response body as it was received, with nothing added, and the
  file is named \<open>cookie_\<close> followed by the network location of the URL.
\<close>

theorem single_result_documents:
  "(clock_now E (world s) = (t1, w1) \<and> clock_now E w1 = (t2, w2)
      \<and> file_dump E w2 (lit ''cookie_refresh_'' @ strftime_compact t1 @ lit ''.json'')
           (single_document t2 url result) = (None, w3) \<longrightarrow>
      save_result_to_file E url result s
        = (Inr (),
           s\<lparr>events := events s
                @ [FileDump (lit ''cookie_refresh_'' @ strftime_compact t1 @ lit ''.json'')
                     (single_document t2 url result),
                   Print (ir_L389_pre @ lit ''cookie_refresh_'' @ strftime_compact t1 @ lit ''.json'')],
             world := w3\<rparr>))
   \<and> single_document t2 url result
       = JObj [(lit ''timestamp'', JStr (isoformat t2)),
               (lit ''url'', JStr url),
               (lit ''hostname'', dict_get result (lit ''hostname'')),
               (lit ''cookies_count'', dict_get result (lit ''cookies_count'')),
               (lit ''user_agent'', dict_get result (lit ''user_agent'')),
               (lit ''generation_time_ms'', dict_get result (lit ''generation_time_ms''))]
   \<and> (valid_datetime t2 \<longrightarrow> iso8601_datetime (isoformat t2))
   \<and> (stdin s = line # rest \<and> str_lower E (py_strip line) \<in> set [lit ''y'', lit ''yes'', lit ''1'']
      \<and> urlparse E url = Inr parts
      \<and> file_dump E (world s) (lit ''cookie_'' @ netloc parts @ lit ''.json'') body = (None, w') \<longrightarrow>
      quick_save E url body s
        = (Inr (),
           s\<lparr>stdin := rest,
             events := events s
                @ [Prompt qr_L49,
                   FileDump (lit ''cookie_'' @ netloc parts @ lit ''.json'') body,
                   Print (qr_L53_pre @ netloc parts @ lit ''.json'')],
             world := w'\<rparr>))"
  using isoformat_is_iso8601 [of t2]
  by (auto simp: save_result_to_file_run quick_save_run single_document_def Let_def)

theorem single_result_documents_witness:
  "save_result_to_file test_env (lit ''https://example.com'') ok_body (start [lit ''y''] [])
     = (Inr (),
        \<lparr>stdin = [lit ''y''],
         events =
           [FileDump (lit ''cookie_refresh_20240307_090530.json'')
              (JObj [(lit ''timestamp'', JStr (lit ''2024-03-07T09:05:30.123456'')),
                     (lit ''url'', JStr (lit ''https://example.com'')),
                     (lit ''hostname'', JStr (lit ''example.com'')),
                     (lit ''cookies_count'', JInt 5),
                     (lit ''user_agent'', JStr (lit ''UA'')),
                     (lit ''generation_time_ms'', JInt 1500)]),
            Print (ir_L389_pre @ lit ''cookie_refresh_20240307_090530.json'')],
         world = []\<rparr>)
   \<and> iso8601_datetime (lit ''2024-03-07T09:05:30.123456'')
   \<and> quick_save test_env (lit ''https://example.com'') (JObj ok_body) (start [lit ''y''] [])
     = (Inr (),
        \<lparr>stdin = [],
         events =
           [Prompt qr_L49,
            FileDump (lit ''cookie_example.com.json'') (JObj ok_body),
            Print (qr_L53_pre @ lit ''example.com.json'')],
         world = []\<rparr>)"
proof -
  have stamp: "strftime_compact test_time = lit ''20240307_090530''"
    and iso: "isoformat test_time = lit ''2024-03-07T09:05:30.123456''"
    and valid: "valid_datetime test_time"
    by (simp_all add: strftime_compact_def isoformat_def valid_datetime_def zpad_def test_time_def
          str_of_nat.simps lit_def)
  have fields: "dict_get ok_body (lit ''hostname'') = JStr (lit ''example.com'')"
    "dict_get ok_body (lit ''cookies_count'') = JInt 5"
    "dict_get ok_body (lit ''user_agent'') = JStr (lit ''UA'')"
    "dict_get ok_body (lit ''generation_time_ms'') = JInt 1500"
    by (simp_all add: dict_get_def ok_body_def lit_def)
  have yes: "str_lower test_env (py_strip (lit ''y'')) = lit ''y''"
    by (simp add: test_env_def ascii_lower_def py_strip_def py_isspace_def lit_def)
  have parts: "urlparse test_env (lit ''https://example.com'')
                 = Inr \<lparr>scheme = lit ''https'', netloc = lit ''example.com''\<rparr>"
    by (simp add: test_env_def urlparse_model_def ascii_alpha_def scheme_char_def ascii_lower_def
          Let_def lit_def)
  have world: "clock_now test_env w = (test_time, w)" "file_dump test_env w name doc = (None, w)"
    for w name doc
    by (simp_all add: test_env_def)
  have cat: "lit ''cookie_refresh_'' @ lit ''20240307_090530'' @ lit ''.json''
               = lit ''cookie_refresh_20240307_090530.json''"
    "lit ''cookie_'' @ lit ''example.com.json'' = lit ''cookie_example.com.json''"
    "lit ''example.com'' @ lit ''.json'' = lit ''example.com.json''"
    by (simp_all add: lit_def)
  show ?thesis
    using single_result_documents
            [where E = test_env and s = "start [lit ''y''] []" and ?t1.0 = test_time and ?t2.0 = test_time
               and ?w1.0 = "[]" and ?w2.0 = "[]" and ?w3.0 = "[]" and w' = "[]"
               and url = "lit ''https://example.com''" and result = ok_body
               and line = "lit ''y''" and rest = "[]" and body = "JObj ok_body"
               and parts = "\<lparr>scheme = lit ''https'', netloc = lit ''example.com''\<rparr>"]
          yes parts valid
    by (simp add: stamp iso fields world cat start_def)
qed

text \<open>
  The claim as the spec states it fails in quick\_refresh.py: the document written
  for a successful refresh is the body itself and has no timestamp.
\<close>

theorem quick_document_has_no_timestamp:
  "FileDump (lit ''cookie_example.com.json'') (JObj ok_body)
     \<in> set (events (snd (refresh_and_display test_env (lit ''https://example.com'') None
                           (start [lit ''y''] [ok_response]))))
   \<and> map_of ok_body (lit ''timestamp'') = None"
proof -
  have parts: "urlparse test_env (lit ''https://example.com'')
                 = Inr \<lparr>scheme = lit ''https'', netloc = lit ''example.com''\<rparr>"
    by (simp add: test_env_def urlparse_model_def ascii_alpha_def scheme_char_def ascii_lower_def
          Let_def lit_def)
  have yes: "str_lower test_env (py_strip (lit ''y'')) = lit ''y''"
    by (simp add: test_env_def ascii_lower_def py_strip_def py_isspace_def lit_def)
  have dump: "file_dump test_env w name doc = (None, w)" for w name doc
    by (simp add: test_env_def)
  have answer: "http test_env [ok_response] rq = (Response 200 (Inr (JObj ok_body)), [])" for rq
    by (simp add: test_env_def scripted_http_def ok_response_def)
  have fields: "dict_get_or ok_body (lit ''hostname'') JNull = JStr (lit ''example.com'')"
    "dict_get_or ok_body (lit ''cookies_count'') JNull = JInt 5"
    "dict_get_or ok_body (lit ''user_agent'') JNull = JStr (lit ''UA'')"
    "dict_get_or ok_body (lit ''generation_time_ms'') JNull = JInt 1500"
    "map_of ok_body (lit ''timestamp'') = None"
    by (simp_all add: dict_get_or_def ok_body_def lit_def)
  have cat: "lit ''cookie_'' @ lit ''example.com'' @ lit ''.json'' = lit ''cookie_example.com.json''"
    by (simp add: lit_def)
  have nonempty: "lit ''UA'' \<noteq> []"
    by (simp add: lit_def)
  show ?thesis
    by (simp add: refresh_and_display_run answer Let_def try_except_def
          quick_show_result_def fields slice_to_def nonempty
          quick_save_run [where line = "lit ''y''" and rest = "[]"] yes parts dump cat
          refresh_and_display_announce_def start_def prog_defs)
qed

section \<open>Validation of the URL\<close>

lemma validate_url_needs_netloc:
  "urlparse E url = Inr parts \<Longrightarrow> netloc parts = [] \<Longrightarrow> \<not> validate_url E url"
  by (simp add: validate_url_def)

lemma validate_url_parses:
  "validate_url E url \<Longrightarrow>
   \<exists>parts. urlparse E url = Inr parts \<and> scheme parts \<noteq> [] \<and> netloc parts \<noteq> []"
  by (cases "urlparse E url") (auto simp: validate_url_def)

text \<open>
  In the full tool a URL that fails the validation ends the action with one
  message: nothing is asked after it and no request is made.
\<close>

lemma refresh_single_url_rejects:
  assumes "stdin s = line # rest" and "py_strip line \<noteq> []"
    and "\<not> validate_url E (format_url (py_strip line))"
  shows "refresh_single_url E server_url s
           = (Inr (),
              s\<lparr>stdin := rest,
                events := events s @ [Print ir_L212, Print ir_L213, Prompt ir_L214,
                                      Print (ir_L223_pre @ format_url (py_strip line))]\<rparr>)"
  using assms by (simp add: refresh_single_url_run Let_def)

lemma view_cached_cookies_rejects:
  assumes "stdin s = line # rest" and "py_strip line \<noteq> []"
    and "\<not> validate_url E (format_url (py_strip line))"
  shows "view_cached_cookies E server_url s
           = (Inr (),
              s\<lparr>stdin := rest,
                events := events s @ [Print ir_L261, Prompt ir_L262,
                                      Print (ir_L271_pre @ format_url (py_strip line))]\<rparr>)"
  using assms by (simp add: view_cached_cookies_def input_def prog_defs Let_def)

text \<open>In a batch an invalid URL is reported and left out; the reading goes on.\<close>

lemma batch_read_urls_skips:
  assumes "stdin s = line # rest" and "py_strip line \<noteq> []"
    and "\<not> validate_url E (format_url (py_strip line))"
  shows "batch_read_urls E urls s
           = batch_read_urls E urls
               (s\<lparr>stdin := rest,
                  events := events s @ [Prompt (lit ''   ['' @ str_of_nat (length urls + 1) @ ir_L295_post),
                                        Print (ir_L302_pre @ format_url (py_strip line))]\<rparr>)"
  using assms
  by (subst batch_read_urls.simps) (simp add: input_def print_def emit_def Let_def)

lemma batch_read_urls_valid:
  "fst (batch_read_urls E urls s) = Inr out \<Longrightarrow> \<forall>u\<in>set urls. validate_url E u \<Longrightarrow>
   \<forall>u\<in>set out. validate_url E u"
proof (induction E urls s rule: batch_read_urls.induct)
  case (1 E urls s)
  show ?case
  proof (cases "input (lit ''   ['' @ str_of_nat (length urls + 1) @ ir_L295_post) s")
    case (Pair r s')
    show ?thesis
    proof (cases r)
      case (Inl e)
      with Pair "1.prems" show ?thesis
        by (subst (asm) batch_read_urls.simps) simp
    next
      case (Inr line)
      show ?thesis
      proof (cases "py_strip line = []")
        case True
        with Pair Inr "1.prems" show ?thesis
          by (subst (asm) batch_read_urls.simps) simp
      next
        case False
        show ?thesis
        proof (cases "validate_url E (format_url (py_strip line))")
          case True
          have run: "fst (batch_read_urls E (urls @ [format_url (py_strip line)]) s') = Inr out"
            using "1.prems"(1) Pair Inr False True
            by (subst (asm) batch_read_urls.simps) (simp add: Let_def)
          have valid: "\<forall>u\<in>set (urls @ [format_url (py_strip line)]). validate_url E u"
            using "1.prems"(2) True by simp
          show ?thesis
            using "1.IH"(1) [OF Pair [symmetric] Inr refl False refl True run valid] .
        next
          case invalid: False
          have run: "fst (batch_read_urls E urls (snd (print (ir_L302_pre @ format_url (py_strip line)) s')))
                       = Inr out"
            using "1.prems"(1) Pair Inr False invalid
            by (subst (asm) batch_read_urls.simps) (simp add: Let_def)
          show ?thesis
            using "1.IH"(2) [OF Pair [symmetric] Inr refl False refl invalid run "1.prems"(2)] .
        qed
      qed
    qed
  qed
qed

text \<open>
  C3 at the input on which quick\_refresh.py departs from it. The user types
  \<open>https://\<close>, declines a proxy and declines to retry; the service is not running.
  The URL has no network location, and \<open>validate_url\<close> of the full tool rejects
  it; \<open>main\<close> of the simplified script only calls \<open>urlparse\<close>, which does not
  raise, and goes on to post the refresh request with this URL.
\<close>

theorem quick_main_posts_url_without_netloc:
  "urlparse test_env (main_format_url (py_strip (lit ''https://'')))
     = Inr \<lparr>scheme = lit ''https'', netloc = []\<rparr>
   \<and> \<not> validate_url test_env (format_url (py_strip (lit ''https://'')))
   \<and> main_iteration test_env (start [lit ''https://'', lit ''n'', lit ''n''] [])
     = (Inr False,
        \<lparr>stdin = [],
         events = [Prompt qr_L81, Prompt qr_L103,
                   Print (qr_L19_pre @ lit ''https://'' @ lit ''...''), Print qr_L22,
                   Http (quick_request (lit ''https://'') None),
                   Print qr_L65, Print qr_L66,
                   Prompt qr_L125, Print qr_L127],
         world = []\<rparr>)"
proof -
  have strip: "py_strip (lit ''https://'') = lit ''https://''" "py_strip (lit ''n'') = lit ''n''"
    by (simp_all add: py_strip_def py_isspace_def lit_def)
  have fmt: "main_format_url (lit ''https://'') = lit ''https://''"
    "format_url (lit ''https://'') = lit ''https://''"
    by (simp_all add: main_format_url_def format_url_def startswith_def)
  have parts: "urlparse test_env (lit ''https://'') = Inr \<lparr>scheme = lit ''https'', netloc = []\<rparr>"
    by (simp add: test_env_def urlparse_model_def ascii_alpha_def scheme_char_def ascii_lower_def
          Let_def lit_def)
  have lower: "str_lower test_env (lit ''https://'') = lit ''https://''"
    "str_lower test_env (lit ''n'') = lit ''n''"
    by (simp_all add: test_env_def ascii_lower_def lit_def)
  have words: "lit ''https://'' \<notin> set [lit ''quit'', lit ''exit'', lit ''q'']"
    "lit ''https://'' \<noteq> []"
    "lit ''n'' \<notin> set [lit ''y'', lit ''yes'', lit ''1'']"
    by (simp_all add: lit_def)
  have down: "http test_env [] rq = (Raised (Exn ClientConnectorError (exn_text refused)), [])"
    for rq
    by (simp add: test_env_def scripted_http_def refused_def connector_error_def)
  have run: "main_iteration test_env (start [lit ''https://'', lit ''n'', lit ''n''] [])
     = (Inr False,
        \<lparr>stdin = [],
         events = [Prompt qr_L81, Prompt qr_L103,
                   Print (qr_L19_pre @ lit ''https://'' @ lit ''...''), Print qr_L22,
                   Http (quick_request (lit ''https://'') None),
                   Print qr_L65, Print qr_L66,
                   Prompt qr_L125, Print qr_L127],
         world = []\<rparr>)"
    using words
    by (simp add: main_iteration_def main_ask_proxy_def input_def start_def strip fmt parts lower
          refresh_and_display_run refresh_and_display_announce_def refresh_and_display_except_connector
          down prog_defs Let_def)
  show ?thesis
    using run parts validate_url_needs_netloc [OF parts] by (simp add: strip fmt)
qed

section \<open>Display of a result with missing fields\<close>

text \<open>
  \<open>display_result\<close> reads the dict with \<open>get(key, default)\<close> only: it cannot change
  it, and it renders whenever \<open>generation_time_ms\<close> is absent or a number that
  divided by 1000 is a float.
\<close>

lemma display_result_renders:
  assumes "map_of result (lit ''generation_time_ms'') = None
           \<or> (\<exists>n. map_of result (lit ''generation_time_ms'') = Some (JInt n) \<and> \<not> float_overflow n)
           \<or> (\<exists>b. map_of result (lit ''generation_time_ms'') = Some (JBool b))"
  shows "fst (display_result E result s) = Inr ()"
  using assms float_overflow_small [of 0]
  by (auto simp: display_result_def dict_get_or_def div1000_1f_def prog_defs Let_def)

lemma display_result_overflow:
  assumes "map_of result (lit ''generation_time_ms'') = Some (JInt n)" and "float_overflow n"
  shows "fst (display_result E result s)
           = Inl (Exn OverflowError (lit ''integer division result too large for a float''))"
  using assms
  by (auto simp: display_result_def dict_get_or_def div1000_1f_def prog_defs Let_def)

lemma display_result_of_empty_dict:
  "display_result E [] s
     = (Inr (),
        s\<lparr>events := events s
             @ [Print (10 # rule70), Print ir_L97, Print rule70, Print ir_L101,
                Print (ir_L102_pre @ lit ''N/A''),
                Print ir_L106, Print (ir_L107_pre @ lit ''0'' @ ir_L107_post),
                Print ir_L117,
                Print (ir_L118_pre @ lit ''0'' @ lit '' ms ('' @ fmt_1f_div1000 E 0 @ ir_L118_post),
                Print (10 # rule70)]\<rparr>)"
  by (simp add: display_result_def dict_get_or_def py_str_def str_of_int_def
        str_of_nat.simps prog_defs Let_def lit_def)

text \<open>
  C6 at the input on which quick\_refresh.py departs from it: a 200 answer without
  \<open>generation_time_ms\<close>. \<open>refresh_and_display\<close> prints the success banner, the host
  name and the cookie count, then the division of \<open>None\<close> by 1000 raises
  \<open>TypeError\<close>, the handler prints the error and the function returns \<open>False\<close>.
  \<open>display_result\<close> of the full tool renders the same dict.
\<close>

theorem quick_display_fails_without_generation_time:
  "refresh_and_display test_env (lit ''https://example.com'') None
       (start [] [Response 200 (Inr (JObj body_without_time))])
     = (Inr False,
        \<lparr>stdin = [],
         events = [Print (qr_L19_pre @ lit ''https://example.com'' @ lit ''...''), Print qr_L22,
                   Http (quick_request (lit ''https://example.com'') None),
                   Print qr_L37, Print rule50,
                   Print (qr_L39_pre @ lit ''example.com''),
                   Print (qr_L40_pre @ lit ''5'' @ qr_L40_post),
                   Print (qr_L69_pre @ lit ''unsupported operand type(s) for /: ''
                          @ quoted (lit ''NoneType'') @ lit '' and '' @ quoted (lit ''int''))],
         world = []\<rparr>)
   \<and> fst (display_result test_env body_without_time (start [] [])) = Inr ()"
proof -
  have answer: "http test_env [Response 200 (Inr (JObj body_without_time))] rq
                  = (Response 200 (Inr (JObj body_without_time)), [])" for rq
    by (simp add: test_env_def scripted_http_def)
  have fields: "dict_get_or body_without_time (lit ''hostname'') JNull = JStr (lit ''example.com'')"
    "dict_get_or body_without_time (lit ''cookies_count'') JNull = JInt 5"
    "dict_get_or body_without_time (lit ''generation_time_ms'') JNull = JNull"
    "map_of body_without_time (lit ''generation_time_ms'') = None"
    by (simp_all add: dict_get_or_def body_without_time_def lit_def)
  have five: "py_str test_env (JInt 5) = lit ''5''"
    by (simp add: py_str_def str_of_int_def str_of_nat.simps lit_def)
  have run: "refresh_and_display test_env (lit ''https://example.com'') None
       (start [] [Response 200 (Inr (JObj body_without_time))])
     = (Inr False,
        \<lparr>stdin = [],
         events = [Print (qr_L19_pre @ lit ''https://example.com'' @ lit ''...''), Print qr_L22,
                   Http (quick_request (lit ''https://example.com'') None),
                   Print qr_L37, Print rule50,
                   Print (qr_L39_pre @ lit ''example.com''),
                   Print (qr_L40_pre @ lit ''5'' @ qr_L40_post),
                   Print (qr_L69_pre @ lit ''unsupported operand type(s) for /: ''
                          @ quoted (lit ''NoneType'') @ lit '' and '' @ quoted (lit ''int''))],
         world = []\<rparr>)"
    by (simp add: refresh_and_display_run answer Let_def try_except_def quick_show_result_def
          fields five div1000_1f_def refresh_and_display_except_def
          refresh_and_display_announce_def start_def prog_defs)
  show ?thesis
    using run display_result_renders [of body_without_time test_env "start [] []"] fields(4)
    by simp
qed

end
